theory Spec2Isabelle
  imports Main "HOL-Library.Word"
begin

unbundle bit_operations_syntax

section \<open>JavaScript values used by the scraper\<close>

text \<open>
  A JavaScript string is a sequence of UTF-16 code units; \<open>length\<close>, \<open>slice\<close>,
  \<open>includes\<close> and the regular expressions of the source all work on code units
  (every keyword of the classifier lies in the Basic Multilingual Plane). A string is
  therefore a list of naturals; \<open>u\<close> writes an ASCII literal.
\<close>

type_synonym ustring = "nat list"

definition u :: "string \<Rightarrow> ustring" where
  "u s = map of_char s"

text \<open>\<open>s.startsWith(p)\<close> and \<open>s.includes(p)\<close>.\<close>

fun startsWith :: "ustring \<Rightarrow> ustring \<Rightarrow> bool" where
  "startsWith s [] = True"
| "startsWith [] (p # ps) = False"
| "startsWith (c # cs) (p # ps) = (c = p \<and> startsWith cs ps)"

fun includesStr :: "ustring \<Rightarrow> ustring \<Rightarrow> bool" where
  "includesStr [] p = (p = [])"
| "includesStr (c # cs) p = (startsWith (c # cs) p \<or> includesStr cs p)"

text \<open>
  The case and character-class tables of the JavaScript runtime are not part of the
  repository; what the code needs of them is a parameter. \<open>lowerMap c\<close> is the lower-case
  mapping of a code unit outside ASCII (it may yield several units, or an ASCII letter, as
  the Kelvin sign does), \<open>upperMap c\<close> its upper-case mapping; \<open>punctOrSymbol c\<close> says whether the code point \<open>c\<close> is matched by the
  class \<^verbatim>\<open>[\p{P}\p{S}]\<close>. Inside ASCII \<open>toLowerCase\<close> is fixed: \<open>A\<close>..\<open>Z\<close> go to
  \<open>a\<close>..\<open>z\<close>, every other unit stays.
\<close>

record unicode =
  lowerMap :: "nat \<Rightarrow> nat list"
  upperMap :: "nat \<Rightarrow> nat list"
  punctOrSymbol :: "nat \<Rightarrow> bool"

definition lowerUnit :: "nat \<Rightarrow> nat" where
  "lowerUnit c = (if 65 \<le> c \<and> c \<le> 90 then c + 32 else c)"

definition toLowerCase :: "unicode \<Rightarrow> ustring \<Rightarrow> ustring" where
  "toLowerCase uc s = concat (map (\<lambda>c. if c < 128 then [lowerUnit c] else lowerMap uc c) s)"

text \<open>
  A table for concrete runs. It is the table of the runtime on ASCII and on the Telugu
  block U+0C00..U+0C7F, which is where the concrete texts of this theory are: the letters of
  the block have no case, the punctuation and symbols of ASCII are the 32 characters
  that are neither control, space, digit nor letter, and those of the block are the signs
  U+0C77 and U+0C7F. Every other unit is left alone.
\<close>

definition asciiPunct :: "nat \<Rightarrow> bool" where
  "asciiPunct c =
     ((0x21 \<le> c \<and> c \<le> 0x2F) \<or> (0x3A \<le> c \<and> c \<le> 0x40) \<or> (0x5B \<le> c \<and> c \<le> 0x60)
      \<or> (0x7B \<le> c \<and> c \<le> 0x7E))"

definition plainUnicode :: unicode where
  "plainUnicode =
     \<lparr> lowerMap = (\<lambda>c. [c]), upperMap = (\<lambda>c. [c]),
       punctOrSymbol = (\<lambda>c. asciiPunct c \<or> c = 0xC77 \<or> c = 0xC7F) \<rparr>"

text \<open>
  A JavaScript number that comes from \<open>parseInt\<close>, from a date or from an integer
  literal: an integer, an infinity or \<open>NaN\<close>. Every comparison with \<open>NaN\<close> is false.
\<close>

datatype jsnum = NaN | Num int | PosInfinity | NegInfinity

fun num_gt :: "jsnum \<Rightarrow> int \<Rightarrow> bool" where
  "num_gt NaN k = False"
| "num_gt (Num n) k = (n > k)"
| "num_gt PosInfinity k = True"
| "num_gt NegInfinity k = False"

fun num_lt :: "jsnum \<Rightarrow> int \<Rightarrow> bool" where
  "num_lt NaN k = False"
| "num_lt (Num n) k = (n < k)"
| "num_lt PosInfinity k = False"
| "num_lt NegInfinity k = True"

text \<open>
  Truthiness of an optional string (\<open>undefined\<close> is \<open>None\<close>): \<open>undefined\<close> and the empty
  string are falsy. \<open>a || b\<close> is \<open>orElse a b\<close>; a chain that ends in a string literal is
  closed by \<open>orString\<close>.
\<close>

definition truthy :: "ustring option \<Rightarrow> bool" where
  "truthy a = (case a of None \<Rightarrow> False | Some s \<Rightarrow> s \<noteq> [])"

definition orElse :: "ustring option \<Rightarrow> ustring option \<Rightarrow> ustring option" where
  "orElse a b = (if truthy a then a else b)"

definition orString :: "ustring option \<Rightarrow> ustring \<Rightarrow> ustring" where
  "orString a d = (case a of None \<Rightarrow> d | Some s \<Rightarrow> if s = [] then d else s)"

section \<open>Image filter of the scraping service\<close>

text \<open>\<open>ScrapingService.isValidArticleImage\<close> (src/lib/mongoose.ts, lines 670--704).\<close>

definition excludePatterns :: "ustring list" where
  "excludePatterns =
     [u ''logo'', u ''icon'', u ''avatar'', u ''badge'', u ''button'', u ''banner'', u ''ad'',
      u ''advertisement'', u ''sprite'', u ''pixel'', u ''tracking'', u ''1x1'',
      u ''blank.gif'', u ''spacer.gif'']"

definition matchesExclude :: "ustring \<Rightarrow> ustring \<Rightarrow> bool" where
  "matchesExclude srcLower altLower =
     list_ex (\<lambda>pattern. includesStr srcLower pattern \<or> includesStr altLower pattern) excludePatterns"

definition tooSmall :: "jsnum \<Rightarrow> jsnum \<Rightarrow> bool" where
  "tooSmall width height =
     ((num_gt width 0 \<and> num_lt width 200) \<or> (num_gt height 0 \<and> num_lt height 200))"

definition isValidArticleImage :: "unicode \<Rightarrow> ustring \<Rightarrow> ustring \<Rightarrow> jsnum \<Rightarrow> jsnum \<Rightarrow> bool" where
  "isValidArticleImage uc src alt width height =
     (let srcLower = toLowerCase uc src; altLower = toLowerCase uc alt in
      if matchesExclude srcLower altLower then False
      else if tooSmall width height then False
      else True)"

section \<open>Identity rotation of the scraping service\<close>

text \<open>
  src/lib/mongoose.ts, lines 36--57 and 112--124. The two indices are \<open>let\<close> bindings of
  the module, outside the class: one pair for the whole process. An instance of
  \<open>ScrapingService\<close> owns only its feed parser.
\<close>

record proxy =
  host :: ustring
  port :: nat
  protocol :: ustring

definition PROXY_LIST :: "proxy list" where
  "PROXY_LIST =
     [\<lparr> host = u ''8.8.8.8'', port = 80, protocol = u ''http'' \<rparr>,
      \<lparr> host = u ''1.1.1.1'', port = 80, protocol = u ''http'' \<rparr>]"

definition USER_AGENTS :: "ustring list" where
  "USER_AGENTS =
     [u ''Mozilla/5.0 (Windows NT 10.0; Win64; x64) AppleWebKit/537.36 (KHTML, like Gecko) Chrome/120.0.0.0 Safari/537.36'',
      u ''Mozilla/5.0 (Macintosh; Intel Mac OS X 10_15_7) AppleWebKit/537.36 (KHTML, like Gecko) Chrome/120.0.0.0 Safari/537.36'',
      u ''Mozilla/5.0 (X11; Linux x86_64) AppleWebKit/537.36 (KHTML, like Gecko) Chrome/120.0.0.0 Safari/537.36'',
      u ''Mozilla/5.0 (Windows NT 10.0; Win64; x64; rv:109.0) Gecko/20100101 Firefox/121.0'',
      u ''Mozilla/5.0 (Macintosh; Intel Mac OS X 10.15; rv:109.0) Gecko/20100101 Firefox/121.0'',
      u ''Mozilla/5.0 (X11; Linux x86_64; rv:109.0) Gecko/20100101 Firefox/121.0'',
      u ''Mozilla/5.0 (Macintosh; Intel Mac OS X 10_15_7) AppleWebKit/605.1.15 (KHTML, like Gecko) Version/17.1 Safari/605.1.15'',
      u ''Mozilla/5.0 (Windows NT 10.0; Win64; x64) AppleWebKit/537.36 (KHTML, like Gecko) Edge/120.0.0.0 Safari/537.36'']"

record module_state =
  currentProxyIndex :: nat
  currentUserAgentIndex :: nat
  lastRequestTime :: nat

definition initialModule :: module_state where
  "initialModule = \<lparr> currentProxyIndex = 0, currentUserAgentIndex = 0, lastRequestTime = 0 \<rparr>"

record scraping_service =
  rssParser :: nat

text \<open>\<open>xs[i]\<close> of JavaScript: \<open>undefined\<close> out of range.\<close>

definition at_index :: "'a list \<Rightarrow> nat \<Rightarrow> 'a option" where
  "at_index xs i = (if i < length xs then Some (xs ! i) else None)"

definition getNextProxy :: "scraping_service \<Rightarrow> module_state \<Rightarrow> proxy option \<times> module_state" where
  "getNextProxy this m =
     (let proxy = at_index PROXY_LIST (currentProxyIndex m) in
      (proxy, m\<lparr> currentProxyIndex := (currentProxyIndex m + 1) mod length PROXY_LIST \<rparr>))"

definition getNextUserAgent :: "scraping_service \<Rightarrow> module_state \<Rightarrow> ustring option \<times> module_state" where
  "getNextUserAgent this m =
     (let userAgent = at_index USER_AGENTS (currentUserAgentIndex m) in
      (userAgent, m\<lparr> currentUserAgentIndex := (currentUserAgentIndex m + 1) mod length USER_AGENTS \<rparr>))"

text \<open>
  A schedule of draws: each element names the instance that draws next. The result is
  the identities handed out, in order.
\<close>

fun drawAll :: "scraping_service list \<Rightarrow> module_state \<Rightarrow> ustring option list \<times> module_state" where
  "drawAll [] m = ([], m)"
| "drawAll (this # rest) m =
     (let (ua, m1) = getNextUserAgent this m; (uas, m2) = drawAll rest m1 in (ua # uas, m2))"

section \<open>Keyword classifier of the scraper script\<close>

text \<open>
  \<open>computeCategoryFromText\<close> (scripts/runScraper.ts, lines 18--213). \<open>normalizeText\<close> (\<open>normalize\<close> in the source) lower-cases,
  deletes the zero-width characters U+200B..U+200D and U+FEFF, replaces every code point
  of the classes P and S by a space (the regular expression has the \<open>u\<close> flag, so a
  surrogate pair is one code point), collapses each run of white space to one space and
  trims.
\<close>

definition isSpace :: "nat \<Rightarrow> bool" where
  "isSpace c =
     (c \<in> {9, 10, 11, 12, 13, 32, 0xA0, 0x1680, 0x2028, 0x2029, 0x202F, 0x205F, 0x3000, 0xFEFF}
      \<or> (0x2000 \<le> c \<and> c \<le> 0x200A))"

definition removeZeroWidth :: "ustring \<Rightarrow> ustring" where
  "removeZeroWidth s = filter (\<lambda>c. \<not> ((0x200B \<le> c \<and> c \<le> 0x200D) \<or> c = 0xFEFF)) s"

definition isHighSurrogate :: "nat \<Rightarrow> bool" where
  "isHighSurrogate c = (0xD800 \<le> c \<and> c \<le> 0xDBFF)"

definition isLowSurrogate :: "nat \<Rightarrow> bool" where
  "isLowSurrogate c = (0xDC00 \<le> c \<and> c \<le> 0xDFFF)"

definition codePoint :: "nat \<Rightarrow> nat \<Rightarrow> nat" where
  "codePoint hi lo = 0x10000 + (hi - 0xD800) * 0x400 + (lo - 0xDC00)"

fun replacePunct :: "unicode \<Rightarrow> ustring \<Rightarrow> ustring" where
  "replacePunct uc [] = []"
| "replacePunct uc [c] = (if punctOrSymbol uc c then [32] else [c])"
| "replacePunct uc (c # d # cs) =
     (if isHighSurrogate c \<and> isLowSurrogate d
      then (if punctOrSymbol uc (codePoint c d) then 32 # replacePunct uc cs
            else c # d # replacePunct uc cs)
      else (if punctOrSymbol uc c then 32 else c) # replacePunct uc (d # cs))"

function collapseSpace :: "ustring \<Rightarrow> ustring" where
  "collapseSpace [] = []"
| "collapseSpace (c # cs) =
     (if isSpace c then 32 # collapseSpace (dropWhile isSpace cs) else c # collapseSpace cs)"
  by pat_completeness auto
termination
  by (relation "measure length") (auto simp: length_dropWhile_le less_Suc_eq_le)

definition trim :: "ustring \<Rightarrow> ustring" where
  "trim s = dropWhile isSpace (rev (dropWhile isSpace (rev s)))"

definition normalizeText :: "unicode \<Rightarrow> ustring \<Rightarrow> ustring" where
  "normalizeText uc str = trim (collapseSpace (replacePunct uc (removeZeroWidth (toLowerCase uc str))))"

definition langMap :: "(ustring \<times> ustring) list" where
  "langMap =
     [(u ''te'', u ''telugu''), (u ''ta'', u ''tamil''), (u ''hi'', u ''hindi''),
      (u ''bn'', u ''bengali''), (u ''gu'', u ''gujarati''), (u ''mr'', u ''marathi''),
      (u ''en'', u ''english'')]"

definition normalizedLang :: "unicode \<Rightarrow> ustring option \<Rightarrow> ustring" where
  "normalizedLang uc language =
     (let l = map_option (toLowerCase uc) language in
      case map_of langMap (orString l []) of
        Some name \<Rightarrow> name
      | None \<Rightarrow> orString l (u ''english''))"

text \<open>
  The stem of a keyword is its first \<open>max 3 \<lfloor>0.7 * length\<rfloor>\<close> units. The source
  computes the product in double precision; for every length below 90 its floor is the
  integer quotient used here, and no keyword of the dictionary is that long
  (lemma \<open>dict_keywords_short\<close>).
\<close>

definition partialMatch :: "ustring \<Rightarrow> ustring \<Rightarrow> bool" where
  "partialMatch t k =
     (if k = [] \<or> length k < 3 then False
      else if includesStr t k then True
      else (let stem = take (max 3 ((length k * 7) div 10)) k in
            length stem \<ge> 3 \<and> includesStr t stem))"

definition inBlock :: "nat \<Rightarrow> nat \<Rightarrow> ustring \<Rightarrow> bool" where
  "inBlock lo hi word = list_ex (\<lambda>c. lo \<le> c \<and> c \<le> hi) word"

definition asciiLetters :: "ustring \<Rightarrow> bool" where
  "asciiLetters word =
     (word \<noteq> [] \<and> list_all (\<lambda>c. (65 \<le> c \<and> c \<le> 90) \<or> (97 \<le> c \<and> c \<le> 122)) word)"

definition keepWord :: "ustring \<Rightarrow> ustring \<Rightarrow> bool" where
  "keepWord lang word =
     (if lang = u ''telugu'' then inBlock 0xC00 0xC7F word
      else if lang = u ''hindi'' then inBlock 0x900 0x97F word
      else if lang = u ''tamil'' then inBlock 0xB80 0xBFF word
      else if lang = u ''bengali'' then inBlock 0x980 0x9FF word
      else if lang = u ''gujarati'' then inBlock 0xA80 0xAFF word
      else if lang = u ''marathi'' then inBlock 0x900 0x97F word
      else if lang = u ''english'' then asciiLetters word
      else True)"

definition langWords :: "ustring \<Rightarrow> ustring list \<Rightarrow> ustring list" where
  "langWords lang keys = filter (keepWord lang) keys"

definition weight :: "ustring \<Rightarrow> nat" where
  "weight k = max 1 (length k div 4)"

fun scoreLoop :: "ustring \<Rightarrow> ustring list \<Rightarrow> nat \<Rightarrow> nat" where
  "scoreLoop text [] score = score"
| "scoreLoop text (k # ks) score =
     (if partialMatch text k then scoreLoop text ks (score + weight k) else scoreLoop text ks score)"

fun bestLoop :: "ustring \<Rightarrow> ustring \<Rightarrow> (ustring \<times> ustring list) list \<Rightarrow> ustring \<Rightarrow> nat \<Rightarrow> ustring \<times> nat" where
  "bestLoop text lang [] best bestScore = (best, bestScore)"
| "bestLoop text lang ((cat, keys) # rest) best bestScore =
     (let score = scoreLoop text (langWords lang keys) 0 in
      if score > bestScore then bestLoop text lang rest cat score
      else bestLoop text lang rest best bestScore)"

text \<open>
  The dictionary, in the order of the source. A word outside ASCII is written by its
  UTF-16 code units.
\<close>

definition dict_politics :: "ustring list" where
  "dict_politics =
     [u ''politics'', u ''political'', u ''election'', u ''elections'', u ''minister'',
      u ''government'', u ''parliament'', u ''assembly'', u ''mla'', u ''mp'', u ''party'',
      u ''pm'', u ''president'', u ''congress'', u ''bjp'', u ''tdp'', u ''ysr'', u ''trs'',
      u ''aap'', u ''cabinet'', u ''opposition'', u ''vote'', u ''voting'', u ''campaign'',
      [0xC30, 0xC3E, 0xC1C, 0xC15, 0xC40, 0xC2F], [0xC0E, 0xC28, 0xC4D, 0xC28, 0xC3F, 0xC15],
      [0xC0E, 0xC28, 0xC4D, 0xC28, 0xC3F, 0xC15, 0xC32, 0xC41],
      [0xC2E, 0xC02, 0xC24, 0xC4D, 0xC30, 0xC3F],
      [0xC2A, 0xC4D, 0xC30, 0xC2D, 0xC41, 0xC24, 0xC4D, 0xC35],
      [0xC05, 0xC38, 0xC46, 0xC02, 0xC2C, 0xC4D, 0xC32, 0xC40],
      [0xC2A, 0xC3E, 0xC30, 0xC4D, 0xC1F, 0xC40],
      [0xC2E, 0xC41, 0xC16, 0xC4D, 0xC2F, 0xC2E, 0xC02, 0xC24, 0xC4D, 0xC30, 0xC3F],
      [0xC05, 0xC27, 0xC4D, 0xC2F, 0xC15, 0xC4D, 0xC37, 0xC41, 0xC21, 0xC41],
      [0xC0E, 0xC02, 0xC2A, 0xC40], [0xC0E, 0xC02, 0xC0E, 0xC32, 0xC4D, 0xC0F],
      [0xC28, 0xC47, 0xC24], [0xC28, 0xC3E, 0xC2F, 0xC15, 0xC41, 0xC21, 0xC41],
      [0xC2A, 0xC4D, 0xC30, 0xC24, 0xC3F, 0xC2A, 0xC15, 0xC4D, 0xC37, 0xC02],
      [0xC13, 0xC1F, 0xC41], [0xC13, 0xC1F, 0xC3F, 0xC02, 0xC17, 0xC4D],
      [0xC15, 0xC4D, 0xC2F, 0xC3E, 0xC2C, 0xC3F, 0xC28, 0xC46, 0xC1F, 0xC4D],
      [0xBB0, 0xBBE, 0xB9C, 0xB95, 0xBBF, 0xBAF, 0xBAE, 0xBCD],
      [0xBB0, 0xBBE, 0xB9C, 0xB95, 0xBBF, 0xBAF],
      [0xBA4, 0xBC7, 0xBB0, 0xBCD, 0xBA4, 0xBB2, 0xBCD], [0xB85, 0xBB0, 0xB9A, 0xBC1],
      [0xBAE, 0xBA8, 0xBCD, 0xBA4, 0xBBF, 0xBB0, 0xBBF],
      [0xBAA, 0xBBE, 0xBB0, 0xBBE, 0xBB3, 0xBC1, 0xBAE, 0xBA9, 0xBCD, 0xBB1, 0xBAE, 0xBCD],
      [0xB9A, 0xB9F, 0xBCD, 0xB9F, 0xBAE, 0xBA9, 0xBCD, 0xBB1, 0xBAE, 0xBCD],
      [0xB95, 0xB9F, 0xBCD, 0xB9A, 0xBBF], [0xBAA, 0xBBF, 0xBB0, 0xBA4, 0xBAE, 0xBB0, 0xBCD],
      [0xB8E, 0xBAE, 0xBCD, 0xB8E, 0xBB2, 0xBCD, 0xB8F], [0xB8E, 0xBAE, 0xBCD, 0xBAA, 0xBBF],
      [0xB8E, 0xBA4, 0xBBF, 0xBB0, 0xBCD, 0xB95, 0xBCD, 0xB95, 0xB9F, 0xBCD, 0xB9A, 0xBBF, 0xB95, 0xBB3, 0xBCD],
      [0xBB5, 0xBBE, 0xB95, 0xBCD, 0xB95, 0xBC1],
      [0xBB5, 0xBBE, 0xB95, 0xBCD, 0xB95, 0xBC1, 0xBAA, 0xBCD, 0xBAA, 0xBA4, 0xBBF, 0xBB5, 0xBC1],
      [0x930, 0x93E, 0x91C, 0x928, 0x940, 0x924, 0x93F], [0x91A, 0x941, 0x928, 0x93E, 0x935],
      [0x92E, 0x902, 0x924, 0x94D, 0x930, 0x940], [0x938, 0x930, 0x915, 0x93E, 0x930],
      [0x938, 0x902, 0x938, 0x926], [0x935, 0x93F, 0x927, 0x93E, 0x928, 0x938, 0x92D, 0x93E],
      [0x92A, 0x93E, 0x930, 0x94D, 0x91F, 0x940],
      [0x92E, 0x941, 0x916, 0x94D, 0x92F, 0x92E, 0x902, 0x924, 0x94D, 0x930, 0x940],
      [0x930, 0x93E, 0x937, 0x94D, 0x91F, 0x94D, 0x930, 0x92A, 0x924, 0x93F],
      [0x938, 0x93E, 0x902, 0x938, 0x926], [0x935, 0x93F, 0x927, 0x93E, 0x92F, 0x915],
      [0x928, 0x947, 0x924, 0x93E], [0x935, 0x93F, 0x92A, 0x915, 0x94D, 0x937],
      [0x92E, 0x924, 0x926, 0x93E, 0x928], [0x905, 0x92D, 0x93F, 0x92F, 0x93E, 0x928],
      [0x9B0, 0x9BE, 0x99C, 0x9A8, 0x9C0, 0x9A4, 0x9BF],
      [0x9A8, 0x9BF, 0x9B0, 0x9CD, 0x9AC, 0x9BE, 0x99A, 0x9A8],
      [0x9AE, 0x9A8, 0x9CD, 0x9A4, 0x9CD, 0x9B0, 0x9C0], [0x9B8, 0x9B0, 0x995, 0x9BE, 0x9B0],
      [0x9B8, 0x982, 0x9B8, 0x9A6], [0x9AC, 0x9BF, 0x9A7, 0x9BE, 0x9A8, 0x9B8, 0x9AD, 0x9BE],
      [0x9A6, 0x9B2],
      [0x9AE, 0x9C1, 0x996, 0x9CD, 0x9AF, 0x9AE, 0x9A8, 0x9CD, 0x9A4, 0x9CD, 0x9B0, 0x9C0],
      [0x9B0, 0x9BE, 0x9B7, 0x9CD, 0x99F, 0x9CD, 0x9B0, 0x9AA, 0x9A4, 0x9BF],
      [0x9B8, 0x9BE, 0x982, 0x9B8, 0x9A6], [0x9AC, 0x9BF, 0x9A7, 0x9BE, 0x9AF, 0x9BC, 0x995],
      [0x9A8, 0x9C7, 0x9A4, 0x9BE], [0x9AC, 0x9BF, 0x9B0, 0x9CB, 0x9A7, 0x9C0],
      [0x9AD, 0x9CB, 0x99F], [0x9AA, 0x9CD, 0x9B0, 0x99A, 0x9BE, 0x9B0],
      [0xAB0, 0xABE, 0xA9C, 0xA95, 0xABE, 0xAB0, 0xAA3],
      [0xA9A, 0xAC2, 0xA82, 0xA9F, 0xAA3, 0xAC0], [0xAAE, 0xA82, 0xAA4, 0xACD, 0xAB0, 0xAC0],
      [0xAB8, 0xAB0, 0xA95, 0xABE, 0xAB0], [0xAB8, 0xA82, 0xAB8, 0xAA6],
      [0xAB5, 0xABF, 0xAA7, 0xABE, 0xAA8, 0xAB8, 0xAAD, 0xABE], [0xAAA, 0xA95, 0xACD, 0xAB7],
      [0xAAE, 0xAC1, 0xA96, 0xACD, 0xAAF, 0xAAE, 0xA82, 0xAA4, 0xACD, 0xAB0, 0xAC0],
      [0xAB0, 0xABE, 0xAB7, 0xACD, 0xA9F, 0xACD, 0xAB0, 0xAAA, 0xAA4, 0xABF],
      [0xAB8, 0xABE, 0xA82, 0xAB8, 0xAA6], [0xAB5, 0xABF, 0xAA7, 0xABE, 0xAAF, 0xA95],
      [0xAA8, 0xAC7, 0xAA4, 0xABE], [0xAB5, 0xABF, 0xAB0, 0xACB, 0xAA7, 0xAC0],
      [0xAAE, 0xAA4, 0xAA6, 0xABE, 0xAA8], [0xA85, 0xAAD, 0xABF, 0xAAF, 0xABE, 0xAA8],
      [0x930, 0x93E, 0x91C, 0x915, 0x93E, 0x930, 0x923],
      [0x928, 0x93F, 0x935, 0x921, 0x923, 0x942, 0x915],
      [0x92E, 0x902, 0x924, 0x94D, 0x930, 0x940], [0x938, 0x930, 0x915, 0x93E, 0x930],
      [0x938, 0x902, 0x938, 0x926], [0x935, 0x93F, 0x927, 0x93E, 0x928, 0x938, 0x92D, 0x93E],
      [0x92A, 0x915, 0x94D, 0x937],
      [0x92E, 0x941, 0x916, 0x94D, 0x92F, 0x92E, 0x902, 0x924, 0x94D, 0x930, 0x940],
      [0x930, 0x93E, 0x937, 0x94D, 0x91F, 0x94D, 0x930, 0x92A, 0x924, 0x940],
      [0x916, 0x93E, 0x938, 0x926, 0x93E, 0x930], [0x906, 0x92E, 0x926, 0x93E, 0x930],
      [0x928, 0x947, 0x924, 0x93E], [0x935, 0x93F, 0x930, 0x94B, 0x927, 0x940],
      [0x92E, 0x924, 0x926, 0x93E, 0x928], [0x92E, 0x94B, 0x939, 0x940, 0x92E]]"

definition dict_sports :: "ustring list" where
  "dict_sports =
     [u ''sports'', u ''sport'', u ''cricket'', u ''football'', u ''soccer'', u ''tennis'',
      u ''badminton'', u ''hockey'', u ''ipl'', u ''match'', u ''player'', u ''tournament'',
      u ''score'', u ''goal'', u ''winner'', u ''loser'', u ''series'', u ''league'', u ''cup'',
      [0xC15, 0xC4D, 0xC30, 0xC40, 0xC21], [0xC15, 0xC4D, 0xC30, 0xC40, 0xC21, 0xC32, 0xC41],
      [0xC15, 0xC4D, 0xC30, 0xC40, 0xC21, 0xC32],
      [0xC15, 0xC4D, 0xC30, 0xC40, 0xC21, 0xC32, 0xC32, 0xC4B], [0xC06, 0xC1F],
      [0xC06, 0xC1F, 0xC32, 0xC41], [0xC2E, 0xC4D, 0xC2F, 0xC3E, 0xC1A, 0xC4D],
      [0xC2E, 0xC4D, 0xC2F, 0xC3E, 0xC1A, 0xC4D, 0x200C, 0xC32, 0xC41],
      [0xC2E, 0xC4D, 0xC2F, 0xC3E, 0xC1A, 0xC41, 0xC32, 0xC41],
      [0xC2B, 0xC32, 0xC3F, 0xC24, 0xC3E, 0xC32, 0xC41], [0xC1C, 0xC1F, 0xC4D, 0xC1F, 0xC41],
      [0xC1C, 0xC1F, 0xC4D, 0xC32, 0xC41], [0xC1C, 0xC1F, 0xC4D, 0xC1F, 0xC41, 0xC32, 0xC4B],
      [0xC2A, 0xC4D, 0xC32, 0xC47, 0xC2F, 0xC30, 0xC4D],
      [0xC2A, 0xC4D, 0xC32, 0xC47, 0xC2F, 0xC30, 0xC4D, 0xC32, 0xC41],
      [0xC06, 0xC1F, 0xC17, 0xC3E, 0xC21, 0xC41],
      [0xC06, 0xC1F, 0xC17, 0xC3E, 0xC33, 0xC4D, 0xC32, 0xC41],
      [0xC35, 0xC3F, 0xC1C, 0xC2F, 0xC02], [0xC13, 0xC1F, 0xC2E, 0xC3F],
      [0xC30, 0xC4D, 0xC2F, 0xC3E, 0xC02, 0xC15, 0xC3F, 0xC02, 0xC17, 0xC4D],
      [0xC38, 0xC3F, 0xC30, 0xC40, 0xC38, 0xC4D], [0xC32, 0xC40, 0xC17, 0xC4D],
      [0xC15, 0xC2A, 0xC4D], [0xC15, 0xC4D, 0xC30, 0xC3F, 0xC15, 0xC46, 0xC1F, 0xC4D],
      [0xC2B, 0xC41, 0xC1F, 0xC4D, 0xC2C, 0xC3E, 0xC32, 0xC4D],
      [0xC1F, 0xC46, 0xC28, 0xC4D, 0xC28, 0xC3F, 0xC38, 0xC4D],
      [0xC2C, 0xC4D, 0xC2F, 0xC3E, 0xC21, 0xC4D, 0xC2E, 0xC3F, 0xC02, 0xC1F, 0xC28, 0xC4D],
      [0xC39, 0xC3E, 0xC15, 0xC40],
      [0xBB5, 0xBBF, 0xBB3, 0xBC8, 0xBAF, 0xBBE, 0xB9F, 0xBCD, 0xB9F, 0xBC1],
      [0xBB5, 0xBBF, 0xBB3, 0xBC8, 0xBAF, 0xBBE, 0xB9F, 0xBCD, 0xB9F, 0xBC1, 0xB95, 0xBB3, 0xBCD],
      [0xB95, 0xBBF, 0xBB0, 0xBBF, 0xB95, 0xBCD, 0xB95, 0xBC6, 0xB9F, 0xBCD],
      [0xB95, 0xBBE, 0xBB2, 0xBCD, 0xBAA, 0xBA8, 0xBCD, 0xBA4, 0xBC1],
      [0xB9F, 0xBC6, 0xBA9, 0xBCD, 0xBA9, 0xBBF, 0xBB8, 0xBCD],
      [0xBAA, 0xBC7, 0xB9F, 0xBCD, 0xBAE, 0xBBF, 0xBA3, 0xBCD, 0xB9F, 0xBA9, 0xBCD],
      [0xBB9, 0xBBE, 0xB95, 0xBCD, 0xB95, 0xBBF], [0xBAA, 0xBCB, 0xB9F, 0xBCD, 0xB9F, 0xBBF],
      [0xBAE, 0xBC7, 0xB9F, 0xBCD, 0xB9A, 0xBCD], [0xB85, 0xBA3, 0xBBF],
      [0xBB5, 0xBC0, 0xBB0, 0xBB0, 0xBCD], [0xBB8, 0xBCD, 0xB95, 0xBCB, 0xBB0, 0xBCD],
      [0xBB2, 0xBC0, 0xB95, 0xBCD], [0xB95, 0xBAA, 0xBCD], [0x916, 0x947, 0x932],
      [0x915, 0x94D, 0x930, 0x93F, 0x915, 0x947, 0x91F],
      [0x92B, 0x941, 0x91F, 0x92C, 0x949, 0x932], [0x91F, 0x947, 0x928, 0x93F, 0x938],
      [0x92C, 0x948, 0x921, 0x92E, 0x93F, 0x902, 0x91F, 0x928], [0x939, 0x949, 0x915, 0x940],
      [0x92E, 0x948, 0x91A], [0x916, 0x93F, 0x932, 0x93E, 0x921, 0x93C, 0x940],
      [0x91F, 0x942, 0x930, 0x94D, 0x928, 0x93E, 0x92E, 0x947, 0x902, 0x91F],
      [0x938, 0x94D, 0x915, 0x94B, 0x930], [0x917, 0x94B, 0x932],
      [0x935, 0x93F, 0x91C, 0x947, 0x924, 0x93E],
      [0x939, 0x93E, 0x930, 0x928, 0x947, 0x935, 0x93E, 0x932, 0x93E],
      [0x938, 0x940, 0x930, 0x940, 0x91C], [0x932, 0x940, 0x917], [0x915, 0x92A],
      [0x996, 0x9C7, 0x9B2, 0x9BE], [0x995, 0x9CD, 0x9B0, 0x9BF, 0x995, 0x9C7, 0x99F],
      [0x9AB, 0x9C1, 0x99F, 0x9AC, 0x9B2], [0x99F, 0x9C7, 0x9A8, 0x9BF, 0x9B8],
      [0x9AC, 0x9CD, 0x9AF, 0x9BE, 0x9A1, 0x9AE, 0x9BF, 0x9A8, 0x9CD, 0x99F, 0x9A8],
      [0x9B9, 0x995, 0x9BF], [0x9AE, 0x9CD, 0x9AF, 0x9BE, 0x99A],
      [0x996, 0x9C7, 0x9B2, 0x9CB, 0x9AF, 0x9BC, 0x9BE, 0x9A1, 0x9BC],
      [0x99F, 0x9C1, 0x9B0, 0x9CD, 0x9A8, 0x9BE, 0x9AE, 0x9C7, 0x9A8, 0x9CD, 0x99F],
      [0x9B8, 0x9CD, 0x995, 0x9CB, 0x9B0], [0x997, 0x9CB, 0x9B2],
      [0x9AC, 0x9BF, 0x99C, 0x9AF, 0x9BC, 0x9C0], [0x9AA, 0x9B0, 0x9BE, 0x99C, 0x9BF, 0x9A4],
      [0x9B8, 0x9BF, 0x9B0, 0x9BF, 0x99C], [0x9B2, 0x9BF, 0x997], [0x995, 0x9BE, 0x9AA],
      [0xAB0, 0xAAE, 0xAA4], [0xA95, 0xACD, 0xAB0, 0xABF, 0xA95, 0xAC7, 0xA9F],
      [0xAAB, 0xAC1, 0xA9F, 0xAAC, 0xACB, 0xAB2], [0xA9F, 0xAC7, 0xAA8, 0xABF, 0xAB8],
      [0xAAC, 0xAC7, 0xAA1, 0xAAE, 0xABF, 0xAA8, 0xACD, 0xA9F, 0xAA8],
      [0xAB9, 0xACB, 0xA95, 0xAC0], [0xAAE, 0xAC7, 0xA9A],
      [0xAB0, 0xAAE, 0xAA4, 0xAB5, 0xAC0, 0xAB0],
      [0xA9F, 0xAC1, 0xAB0, 0xACD, 0xAA8, 0xABE, 0xAAE, 0xAC7, 0xAA8, 0xACD, 0xA9F],
      [0xAB8, 0xACD, 0xA95, 0xACB, 0xAB0], [0xA97, 0xACB, 0xAB2],
      [0xAB5, 0xABF, 0xA9C, 0xAC7, 0xAA4, 0xABE], [0xAB9, 0xABE, 0xAB0, 0xAA8, 0xABE, 0xAB0],
      [0xAB8, 0xABF, 0xAB0, 0xABF, 0xA9D], [0xAB2, 0xAC0, 0xA97], [0xA95, 0xAAA],
      [0x916, 0x947, 0x933], [0x915, 0x94D, 0x930, 0x93F, 0x915, 0x947, 0x91F],
      [0x92B, 0x941, 0x91F, 0x92C, 0x949, 0x932], [0x91F, 0x947, 0x928, 0x93F, 0x938],
      [0x92C, 0x945, 0x921, 0x92E, 0x93F, 0x902, 0x91F, 0x928], [0x939, 0x949, 0x915, 0x940],
      [0x938, 0x93E, 0x92E, 0x928, 0x93E], [0x916, 0x947, 0x933, 0x93E, 0x921, 0x942],
      [0x938, 0x94D, 0x92A, 0x930, 0x94D, 0x927, 0x93E], [0x917, 0x94B, 0x932],
      [0x935, 0x93F, 0x91C, 0x947, 0x924, 0x93E], [0x939, 0x930, 0x932, 0x947, 0x932, 0x93E],
      [0x92E, 0x93E, 0x932, 0x93F, 0x915, 0x93E], [0x932, 0x940, 0x917], [0x915, 0x92A]]"

definition dict_entertainment :: "ustring list" where
  "dict_entertainment =
     [u ''entertainment'', u ''movie'', u ''movies'', u ''film'', u ''cinema'', u ''actor'',
      u ''actress'', u ''director'', u ''trailer'', u ''song'', u ''review'', u ''bollywood'',
      u ''tollywood'', u ''kollywood'', u ''box office'',
      [0xC38, 0xC3F, 0xC28, 0xC3F, 0xC2E, 0xC3E], [0xC1A, 0xC3F, 0xC24, 0xC4D, 0xC30, 0xC02],
      [0xC1A, 0xC32, 0xC28, 0xC1A, 0xC3F, 0xC24, 0xC4D, 0xC30, 0xC02],
      [0xC28, 0xC1F, 0xC41, 0xC21, 0xC41], [0xC28, 0xC1F, 0xC3F], [0xC39, 0xC40, 0xC30, 0xC4B],
      [0xC39, 0xC40, 0xC30, 0xC4B, 0xC2F, 0xC3F, 0xC28, 0xC4D],
      [0xC26, 0xC30, 0xC4D, 0xC36, 0xC15, 0xC41, 0xC21, 0xC41],
      [0xC1F, 0xC4D, 0xC30, 0xC48, 0xC32, 0xC30, 0xC4D], [0xC2A, 0xC3E, 0xC1F],
      [0xC38, 0xC3E, 0xC02, 0xC17, 0xC4D], [0xC38, 0xC2E, 0xC40, 0xC15, 0xC4D, 0xC37],
      [0xC30, 0xC3F, 0xC35, 0xC4D, 0xC2F, 0xC42],
      [0xC2C, 0xC3E, 0xC15, 0xC4D, 0xC38, 0xC3E, 0xC2B, 0xC40, 0xC38, 0xC4D],
      [0xC2C, 0xC3E, 0xC15, 0xC4D, 0xC38, 0xC4D, 0x20, 0xC06, 0xC2B, 0xC40, 0xC38, 0xC4D],
      [0xC1F, 0xC3E, 0xC32, 0xC40, 0xC35, 0xC41, 0xC21, 0xC4D],
      [0xC2C, 0xC3E, 0xC32, 0xC40, 0xC35, 0xC41, 0xC21, 0xC4D],
      [0xC15, 0xC4B, 0xC32, 0xC40, 0xC35, 0xC41, 0xC21, 0xC4D],
      [0xC35, 0xC46, 0xC2C, 0xC4D, 0x20, 0xC38, 0xC3F, 0xC30, 0xC40, 0xC38, 0xC4D],
      [0xC38, 0xC40, 0xC30, 0xC3F, 0xC2F, 0xC32, 0xC4D],
      [0xBAA, 0xBCA, 0xBB4, 0xBC1, 0xBA4, 0xBC1, 0xBAA, 0xBCB, 0xB95, 0xBCD, 0xB95, 0xBC1],
      [0xBA4, 0xBBF, 0xBB0, 0xBC8, 0xBAA, 0xBCD, 0xBAA, 0xB9F, 0xBAE, 0xBCD],
      [0xB9A, 0xBBF, 0xBA9, 0xBBF, 0xBAE, 0xBBE], [0xBA8, 0xB9F, 0xBBF, 0xB95, 0xBB0, 0xBCD],
      [0xBA8, 0xB9F, 0xBBF, 0xB95, 0xBC8],
      [0xB87, 0xBAF, 0xB95, 0xBCD, 0xB95, 0xBC1, 0xBA9, 0xBB0, 0xBCD],
      [0xB9F, 0xBBF, 0xBB0, 0xBC8, 0xBB2, 0xBB0, 0xBCD], [0xBAA, 0xBBE, 0xB9F, 0xBB2, 0xBCD],
      [0xBB5, 0xBBF, 0xBAE, 0xBB0, 0xBCD, 0xB9A, 0xBA9, 0xBAE, 0xBCD],
      [0xBAA, 0xBBE, 0xB95, 0xBCD, 0xBB8, 0xBCD, 0x20, 0xB86, 0xBAA, 0xBBF, 0xBB8, 0xBCD],
      [0xB95, 0xBBE, 0xBB2, 0xBBF, 0xBB5, 0xBC1, 0xB9F, 0xBCD],
      [0xB95, 0xBCA, 0xBB2, 0xBBF, 0xBB5, 0xBC1, 0xB9F, 0xBCD],
      [0xBA4, 0xBCA, 0xBB2, 0xBC8, 0xB95, 0xBCD, 0xB95, 0xBBE, 0xB9F, 0xBCD, 0xB9A, 0xBBF],
      [0x92E, 0x928, 0x94B, 0x930, 0x902, 0x91C, 0x928], [0x92B, 0x93F, 0x932, 0x94D, 0x92E],
      [0x938, 0x93F, 0x928, 0x947, 0x92E, 0x93E],
      [0x905, 0x92D, 0x93F, 0x928, 0x947, 0x924, 0x93E],
      [0x905, 0x92D, 0x93F, 0x928, 0x947, 0x924, 0x94D, 0x930, 0x940],
      [0x928, 0x93F, 0x930, 0x94D, 0x926, 0x947, 0x936, 0x915],
      [0x91F, 0x94D, 0x930, 0x947, 0x932, 0x930], [0x917, 0x93E, 0x928, 0x93E],
      [0x938, 0x92E, 0x940, 0x915, 0x94D, 0x937, 0x93E],
      [0x92C, 0x949, 0x932, 0x940, 0x935, 0x941, 0x921],
      [0x91F, 0x949, 0x932, 0x940, 0x935, 0x941, 0x921],
      [0x915, 0x94B, 0x932, 0x940, 0x935, 0x941, 0x921],
      [0x92C, 0x949, 0x915, 0x94D, 0x938, 0x20, 0x911, 0x92B, 0x93F, 0x938],
      [0x9AC, 0x9BF, 0x9A8, 0x9CB, 0x9A6, 0x9A8],
      [0x99A, 0x9B2, 0x99A, 0x9CD, 0x99A, 0x9BF, 0x9A4, 0x9CD, 0x9B0],
      [0x9B8, 0x9BF, 0x9A8, 0x9C7, 0x9AE, 0x9BE],
      [0x985, 0x9AD, 0x9BF, 0x9A8, 0x9C7, 0x9A4, 0x9BE],
      [0x985, 0x9AD, 0x9BF, 0x9A8, 0x9C7, 0x9A4, 0x9CD, 0x9B0, 0x9C0],
      [0x9AA, 0x9B0, 0x9BF, 0x99A, 0x9BE, 0x9B2, 0x995],
      [0x99F, 0x9CD, 0x9B0, 0x9C7, 0x987, 0x9B2, 0x9BE, 0x9B0], [0x997, 0x9BE, 0x9A8],
      [0x9B8, 0x9AE, 0x9BE, 0x9B2, 0x9CB, 0x99A, 0x9A8, 0x9BE],
      [0x9AC, 0x9B2, 0x9BF, 0x989, 0x9A1], [0x99F, 0x9B2, 0x9BF, 0x989, 0x9A1],
      [0x995, 0x9B2, 0x9BF, 0x989, 0x9A1],
      [0x9AC, 0x995, 0x9CD, 0x9B8, 0x20, 0x985, 0x9AB, 0x9BF, 0x9B8],
      [0xAAE, 0xAA8, 0xACB, 0xAB0, 0xA82, 0xA9C, 0xAA8], [0xAAB, 0xABF, 0xAB2, 0xACD, 0xAAE],
      [0xAB8, 0xABF, 0xAA8, 0xAC7, 0xAAE, 0xABE],
      [0xA85, 0xAAD, 0xABF, 0xAA8, 0xAC7, 0xAA4, 0xABE],
      [0xA85, 0xAAD, 0xABF, 0xAA8, 0xAC7, 0xAA4, 0xACD, 0xAB0, 0xAC0],
      [0xAA6, 0xABF, 0xA97, 0xACD, 0xAA6, 0xAB0, 0xACD, 0xAB6, 0xA95],
      [0xA9F, 0xACD, 0xAB0, 0xAC7, 0xAB2, 0xAB0], [0xA97, 0xAC0, 0xAA4],
      [0xAB8, 0xAAE, 0xAC0, 0xA95, 0xACD, 0xAB7, 0xABE],
      [0xAAC, 0xACB, 0xAB2, 0xAC0, 0xAB5, 0xAC1, 0xAA1],
      [0xA9F, 0xACB, 0xAB2, 0xAC0, 0xAB5, 0xAC1, 0xAA1],
      [0xA95, 0xACB, 0xAB2, 0xAC0, 0xAB5, 0xAC1, 0xAA1],
      [0xAAC, 0xACB, 0xA95, 0xACD, 0xAB8, 0x20, 0xA93, 0xAAB, 0xABF, 0xAB8],
      [0x92E, 0x928, 0x94B, 0x930, 0x902, 0x91C, 0x928],
      [0x91A, 0x93F, 0x924, 0x94D, 0x930, 0x92A, 0x91F],
      [0x938, 0x93F, 0x928, 0x947, 0x92E, 0x93E],
      [0x905, 0x92D, 0x93F, 0x928, 0x947, 0x924, 0x93E],
      [0x905, 0x92D, 0x93F, 0x928, 0x947, 0x924, 0x94D, 0x930, 0x940],
      [0x926, 0x93F, 0x917, 0x94D, 0x926, 0x930, 0x94D, 0x936, 0x915],
      [0x91F, 0x94D, 0x930, 0x947, 0x932, 0x930], [0x917, 0x93E, 0x923, 0x947],
      [0x938, 0x92E, 0x940, 0x915, 0x94D, 0x937, 0x93E],
      [0x92C, 0x949, 0x932, 0x93F, 0x935, 0x942, 0x921],
      [0x91F, 0x949, 0x932, 0x93F, 0x935, 0x942, 0x921],
      [0x915, 0x94B, 0x932, 0x93F, 0x935, 0x942, 0x921],
      [0x92C, 0x949, 0x915, 0x94D, 0x938, 0x20, 0x911, 0x92B, 0x93F, 0x938]]"

definition dict_technology :: "ustring list" where
  "dict_technology =
     [u ''technology'', u ''tech'', u ''gadget'', u ''smartphone'', u ''mobile'', u ''ai'',
      u ''artificial intelligence'', u ''software'', u ''internet'', u ''robot'', u ''startup'',
      u ''app'', u ''update'', u ''chip'', u ''semiconductor'',
      [0xC1F, 0xC46, 0xC15, 0xC4D, 0xC28, 0xC3E, 0xC32, 0xC1C, 0xC40],
      [0xC38, 0xC3E, 0xC02, 0xC15, 0xC47, 0xC24, 0xC3F, 0xC15, 0xC02],
      [0xC38, 0xC3E, 0xC02, 0xC15, 0xC47, 0xC24, 0xC3F, 0xC15],
      [0xC17, 0xC3E, 0xC21, 0xC4D, 0xC1C, 0xC46, 0xC1F, 0xC4D],
      [0xC2E, 0xC4A, 0xC2C, 0xC48, 0xC32, 0xC4D],
      [0xC38, 0xC4D, 0xC2E, 0xC3E, 0xC30, 0xC4D, 0xC1F, 0xC4D, 0x200C, 0xC2B, 0xC4B, 0xC28, 0xC4D],
      [0xC15, 0xC43, 0xC24, 0xC4D, 0xC30, 0xC3F, 0xC2E, 0x20, 0xC2E, 0xC47, 0xC27, 0xC38, 0xC4D, 0xC38, 0xC41],
      [0xC0E, 0xC10],
      [0xC38, 0xC3E, 0xC2B, 0xC4D, 0xC1F, 0xC4D, 0x200C, 0xC35, 0xC47, 0xC30, 0xC4D],
      [0xC07, 0xC02, 0xC1F, 0xC30, 0xC4D, 0xC28, 0xC46, 0xC1F, 0xC4D],
      [0xC30, 0xC4B, 0xC2C, 0xC4B, 0xC1F, 0xC4D],
      [0xC38, 0xC4D, 0xC1F, 0xC3E, 0xC30, 0xC4D, 0xC1F, 0xC2A, 0xC4D],
      [0xC2F, 0xC3E, 0xC2A, 0xC4D], [0xC05, 0xC2A, 0xC4D, 0xC21, 0xC47, 0xC1F, 0xC4D],
      [0xC1A, 0xC3F, 0xC2A, 0xC4D],
      [0xBA4, 0xBCA, 0xBB4, 0xBBF, 0xBB2, 0xBCD, 0xBA8, 0xBC1, 0xB9F, 0xBCD, 0xBAA, 0xBAE, 0xBCD],
      [0xB9F, 0xBC6, 0xB95, 0xBCD], [0xB95, 0xBC7, 0xB9F, 0xBCD, 0xB9C, 0xBC6, 0xB9F, 0xBCD],
      [0xBB8, 0xBCD, 0xBAE, 0xBBE, 0xBB0, 0xBCD, 0xB9F, 0xBCD, 0xBAA, 0xBCB, 0xBA9, 0xBCD],
      [0xBAE, 0xBCA, 0xBAA, 0xBC8, 0xBB2, 0xBCD], [0xB95, 0xBA3, 0xBBF, 0xBA9, 0xBBF],
      [0xBAE, 0xBC6, 0xBA9, 0xBCD, 0xBAA, 0xBCA, 0xBB0, 0xBC1, 0xBB3, 0xBCD],
      [0xB87, 0xBA3, 0xBC8, 0xBAF, 0xBAE, 0xBCD], [0xBB0, 0xBCB, 0xBAA, 0xBCB, 0xB9F, 0xBCD],
      [0xBB8, 0xBCD, 0xB9F, 0xBBE, 0xBB0, 0xBCD, 0xB9F, 0xBCD, 0xB85, 0xBAA, 0xBCD],
      [0xB9A, 0xBBF, 0xBAA, 0xBCD],
      [0xBAA, 0xBC1, 0xBA4, 0xBC1, 0xBAA, 0xBCD, 0xBAA, 0xBBF, 0xBAA, 0xBCD, 0xBAA, 0xBC1],
      [0x924, 0x915, 0x928, 0x940, 0x915], [0x917, 0x948, 0x91C, 0x947, 0x91F],
      [0x938, 0x94D, 0x92E, 0x93E, 0x930, 0x94D, 0x91F, 0x92B, 0x94B, 0x928],
      [0x92E, 0x94B, 0x92C, 0x93E, 0x907, 0x932],
      [0x915, 0x943, 0x924, 0x94D, 0x930, 0x93F, 0x92E, 0x20, 0x92C, 0x941, 0x926, 0x94D, 0x927, 0x93F, 0x92E, 0x924, 0x94D, 0x924, 0x93E],
      [0x938, 0x949, 0x92B, 0x94D, 0x91F, 0x935, 0x947, 0x92F, 0x930],
      [0x907, 0x902, 0x91F, 0x930, 0x928, 0x947, 0x91F], [0x930, 0x94B, 0x92C, 0x94B, 0x91F],
      [0x938, 0x94D, 0x91F, 0x93E, 0x930, 0x94D, 0x91F, 0x905, 0x92A], [0x910, 0x92A],
      [0x905, 0x92A, 0x921, 0x947, 0x91F], [0x91A, 0x93F, 0x92A],
      [0x9AA, 0x9CD, 0x9B0, 0x9AF, 0x9C1, 0x995, 0x9CD, 0x9A4, 0x9BF],
      [0x997, 0x9CD, 0x9AF, 0x9BE, 0x99C, 0x9C7, 0x99F],
      [0x9B8, 0x9CD, 0x9AE, 0x9BE, 0x9B0, 0x9CD, 0x99F, 0x9AB, 0x9CB, 0x9A8],
      [0x9AE, 0x9CB, 0x9AC, 0x9BE, 0x987, 0x9B2],
      [0x995, 0x9C3, 0x9A4, 0x9CD, 0x9B0, 0x9BF, 0x9AE, 0x20, 0x9AC, 0x9C1, 0x9A6, 0x9CD, 0x9A7, 0x9BF, 0x9AE, 0x9A4, 0x9CD, 0x9A4, 0x9BE],
      [0x9B8, 0x9AB, 0x99F, 0x993, 0x9AF, 0x9BC, 0x9CD, 0x9AF, 0x9BE, 0x9B0],
      [0x987, 0x9A8, 0x9CD, 0x99F, 0x9BE, 0x9B0, 0x9A8, 0x9C7, 0x99F],
      [0x9B0, 0x9CB, 0x9AC, 0x99F],
      [0x9B8, 0x9CD, 0x99F, 0x9BE, 0x9B0, 0x9CD, 0x99F, 0x986, 0x9AA],
      [0x985, 0x9CD, 0x9AF, 0x9BE, 0x9AA], [0x986, 0x9AA, 0x9A1, 0x9C7, 0x99F],
      [0x99A, 0x9BF, 0x9AA], [0xA9F, 0xAC7, 0xA95, 0xAA8, 0xACB, 0xAB2, 0xACB, 0xA9C, 0xAC0],
      [0xA97, 0xAC7, 0xA9C, 0xAC7, 0xA9F],
      [0xAB8, 0xACD, 0xAAE, 0xABE, 0xAB0, 0xACD, 0xA9F, 0xAAB, 0xACB, 0xAA8],
      [0xAAE, 0xACB, 0xAAC, 0xABE, 0xA87, 0xAB2],
      [0xA95, 0xAC3, 0xAA4, 0xACD, 0xAB0, 0xABF, 0xAAE, 0x20, 0xAAC, 0xAC1, 0xAA6, 0xACD, 0xAA7, 0xABF],
      [0xAB8, 0xACB, 0xAAB, 0xACD, 0xA9F, 0xAB5, 0xAC7, 0xAB0],
      [0xA87, 0xAA8, 0xACD, 0xA9F, 0xAB0, 0xAA8, 0xAC7, 0xA9F],
      [0xAB0, 0xACB, 0xAAC, 0xACB, 0xA9F],
      [0xAB8, 0xACD, 0xA9F, 0xABE, 0xAB0, 0xACD, 0xA9F, 0xA85, 0xAAA], [0xA8F, 0xAAA],
      [0xA85, 0xAAA, 0xAA1, 0xAC7, 0xA9F], [0xA9A, 0xABF, 0xAAA],
      [0x924, 0x902, 0x924, 0x94D, 0x930, 0x91C, 0x94D, 0x91E, 0x93E, 0x928],
      [0x917, 0x945, 0x91C, 0x947, 0x91F],
      [0x938, 0x94D, 0x92E, 0x93E, 0x930, 0x94D, 0x91F, 0x92B, 0x94B, 0x928],
      [0x92E, 0x94B, 0x92C, 0x93E, 0x907, 0x932],
      [0x915, 0x943, 0x924, 0x94D, 0x930, 0x93F, 0x92E, 0x20, 0x92C, 0x941, 0x926, 0x94D, 0x927, 0x93F, 0x92E, 0x924, 0x94D, 0x924, 0x93E],
      [0x938, 0x949, 0x92B, 0x94D, 0x91F, 0x935, 0x947, 0x905, 0x930],
      [0x907, 0x902, 0x91F, 0x930, 0x928, 0x947, 0x91F], [0x930, 0x94B, 0x92C, 0x94B, 0x91F],
      [0x938, 0x94D, 0x91F, 0x93E, 0x930, 0x94D, 0x91F, 0x905, 0x92A], [0x905, 0x945, 0x92A],
      [0x905, 0x92A, 0x921, 0x947, 0x91F], [0x91A, 0x93F, 0x92A]]"

definition dict_health :: "ustring list" where
  "dict_health =
     [u ''health'', u ''hospital'', u ''doctor'', u ''covid'', u ''vaccine'', u ''medical'',
      u ''fitness'', u ''disease'', u ''therapy'', u ''treatment'', u ''medicine'',
      [0xC06, 0xC30, 0xC4B, 0xC17, 0xC4D, 0xC2F, 0xC02],
      [0xC06, 0xC30, 0xC4B, 0xC17, 0xC4D, 0xC2F],
      [0xC06, 0xC38, 0xC41, 0xC2A, 0xC24, 0xC4D, 0xC30, 0xC3F],
      [0xC39, 0xC3E, 0xC38, 0xC4D, 0xC2A, 0xC3F, 0xC1F, 0xC32, 0xC4D],
      [0xC21, 0xC3E, 0xC15, 0xC4D, 0xC1F, 0xC30, 0xC4D],
      [0xC35, 0xC4D, 0xC2F, 0xC3E, 0xC15, 0xC4D, 0xC38, 0xC3F, 0xC28, 0xC4D],
      [0xC1F, 0xC40, 0xC15, 0xC3E], [0xC35, 0xC48, 0xC26, 0xC4D, 0xC2F, 0xC02],
      [0xC35, 0xC4D, 0xC2F, 0xC3E, 0xC27, 0xC3F], [0xC1C, 0xC2C, 0xC4D, 0xC2C, 0xC41],
      [0xC1A, 0xC3F, 0xC15, 0xC3F, 0xC24, 0xC4D, 0xC38], [0xC14, 0xC37, 0xC27, 0xC02],
      [0xC2B, 0xC3F, 0xC1F, 0xC4D, 0x200C, 0xC28, 0xC46, 0xC38, 0xC4D],
      [0xB86, 0xBB0, 0xBCB, 0xB95, 0xBCD, 0xB95, 0xBBF, 0xBAF, 0xBAE, 0xBCD],
      [0xBAE, 0xBB0, 0xBC1, 0xBA4, 0xBCD, 0xBA4, 0xBC1, 0xBB5, 0xBAE, 0xBA9, 0xBC8],
      [0xB9F, 0xBBE, 0xB95, 0xBCD, 0xB9F, 0xBB0, 0xBCD],
      [0xBA4, 0xB9F, 0xBC1, 0xBAA, 0xBCD, 0xBAA, 0xBC2, 0xB9A, 0xBBF],
      [0xBAE, 0xBB0, 0xBC1, 0xBA4, 0xBCD, 0xBA4, 0xBC1, 0xBB5, 0xBAE, 0xBCD],
      [0xBA8, 0xBCB, 0xBAF, 0xBCD], [0xB9A, 0xBBF, 0xB95, 0xBBF, 0xB9A, 0xBCD, 0xB9A, 0xBC8],
      [0xBAE, 0xBB0, 0xBC1, 0xBA8, 0xBCD, 0xBA4, 0xBC1],
      [0x938, 0x94D, 0x935, 0x93E, 0x938, 0x94D, 0x925, 0x94D, 0x92F],
      [0x905, 0x938, 0x94D, 0x92A, 0x924, 0x93E, 0x932],
      [0x921, 0x949, 0x915, 0x94D, 0x91F, 0x930], [0x915, 0x94B, 0x935, 0x93F, 0x921],
      [0x91F, 0x940, 0x915, 0x93E], [0x91A, 0x93F, 0x915, 0x93F, 0x924, 0x94D, 0x938, 0x93E],
      [0x92B, 0x93F, 0x91F, 0x928, 0x947, 0x938], [0x92C, 0x940, 0x92E, 0x93E, 0x930, 0x940],
      [0x909, 0x92A, 0x91A, 0x93E, 0x930], [0x926, 0x935, 0x93E],
      [0x9B8, 0x9CD, 0x9AC, 0x9BE, 0x9B8, 0x9CD, 0x9A5, 0x9CD, 0x9AF],
      [0x9B9, 0x9BE, 0x9B8, 0x9AA, 0x9BE, 0x9A4, 0x9BE, 0x9B2],
      [0x9A1, 0x9BE, 0x995, 0x9CD, 0x9A4, 0x9BE, 0x9B0], [0x995, 0x9CB, 0x9AD, 0x9BF, 0x9A1],
      [0x99F, 0x9BF, 0x995, 0x9BE], [0x99A, 0x9BF, 0x995, 0x9BF, 0x9CE, 0x9B8, 0x9BE],
      [0x9AB, 0x9BF, 0x99F, 0x9A8, 0x9C7, 0x9B8], [0x9B0, 0x9CB, 0x997],
      [0x99A, 0x9BF, 0x995, 0x9BF, 0x9CE, 0x9B8, 0x9BE], [0x994, 0x9B7, 0x9A7],
      [0xAB8, 0xACD, 0xAB5, 0xABE, 0xAB8, 0xACD, 0xAA5, 0xACD, 0xAAF],
      [0xAB9, 0xACB, 0xAB8, 0xACD, 0xAAA, 0xABF, 0xA9F, 0xAB2],
      [0xAA1, 0xAC9, 0xA95, 0xACD, 0xA9F, 0xAB0], [0xA95, 0xACB, 0xAB5, 0xABF, 0xAA1],
      [0xAB5, 0xAC7, 0xA95, 0xACD, 0xAB8, 0xABF, 0xAA8], [0xAA6, 0xAB5, 0xABE],
      [0xAAB, 0xABF, 0xA9F, 0xAA8, 0xAC7, 0xAB8], [0xAB0, 0xACB, 0xA97],
      [0xA89, 0xAAA, 0xA9A, 0xABE, 0xAB0], [0xAA6, 0xAB5, 0xABE],
      [0x906, 0x930, 0x94B, 0x917, 0x94D, 0x92F],
      [0x926, 0x935, 0x93E, 0x916, 0x93E, 0x928, 0x93E],
      [0x921, 0x949, 0x915, 0x94D, 0x91F, 0x930], [0x915, 0x94B, 0x935, 0x93F, 0x921],
      [0x932, 0x938], [0x935, 0x948, 0x926, 0x94D, 0x92F, 0x915, 0x940, 0x92F],
      [0x92B, 0x93F, 0x91F, 0x928, 0x947, 0x938], [0x930, 0x94B, 0x917],
      [0x909, 0x92A, 0x91A, 0x93E, 0x930], [0x914, 0x937, 0x927]]"

definition dict_business :: "ustring list" where
  "dict_business =
     [u ''business'', u ''market'', u ''stock'', u ''share'', u ''company'', u ''finance'',
      u ''banking'', u ''economy'', u ''revenue'', u ''profit'', u ''startup'', u ''funding'',
      [0xC35, 0xC4D, 0xC2F, 0xC3E, 0xC2A, 0xC3E, 0xC30, 0xC02],
      [0xC35, 0xC4D, 0xC2F, 0xC3E, 0xC2A, 0xC3E, 0xC30],
      [0xC35, 0xC4D, 0xC2F, 0xC3E, 0xC2A, 0xC3E, 0xC30, 0xC35, 0xC47, 0xC24, 0xC4D, 0xC24],
      [0xC35, 0xC4D, 0xC2F, 0xC3E, 0xC2A, 0xC3E, 0xC30, 0xC35, 0xC47, 0xC24, 0xC4D, 0xC24, 0xC32, 0xC41],
      [0xC2E, 0xC3E, 0xC30, 0xC4D, 0xC15, 0xC46, 0xC1F, 0xC4D],
      [0xC2E, 0xC3E, 0xC30, 0xC4D, 0xC15, 0xC46, 0xC1F, 0xC4D, 0xC32, 0xC32, 0xC4B],
      [0xC38, 0xC4D, 0xC1F, 0xC3E, 0xC15, 0xC4D], [0xC37, 0xC47, 0xC30, 0xC4D],
      [0xC37, 0xC47, 0xC30, 0xC4D, 0xC32, 0xC41], [0xC15, 0xC02, 0xC2A, 0xC46, 0xC28, 0xC40],
      [0xC2B, 0xC48, 0xC28, 0xC3E, 0xC28, 0xC4D, 0xC38, 0xC4D],
      [0xC2C, 0xC4D, 0xC2F, 0xC3E, 0xC02, 0xC15, 0xC3F, 0xC02, 0xC17, 0xC4D],
      [0xC06, 0xC30, 0xC4D, 0xC25, 0xC3F, 0xC15],
      [0xC26, 0xC4D, 0xC30, 0xC35, 0xC4D, 0xC2F, 0xC4B, 0xC32, 0xC4D, 0xC2C, 0xC23, 0xC02],
      [0xC06, 0xC26, 0xC3E, 0xC2F, 0xC02], [0xC32, 0xC3E, 0xC2D, 0xC02],
      [0xC28, 0xC37, 0xC4D, 0xC1F, 0xC02], [0xC28, 0xC37, 0xC4D, 0xC1F, 0xC3E, 0xC32, 0xC41],
      [0xBB5, 0xBA3, 0xBBF, 0xB95, 0xBAE, 0xBCD], [0xB9A, 0xBA8, 0xBCD, 0xBA4, 0xBC8],
      [0xBAA, 0xB99, 0xBCD, 0xB95, 0xBC1],
      [0xBA8, 0xBBF, 0xBB1, 0xBC1, 0xBB5, 0xBA9, 0xBAE, 0xBCD], [0xBA8, 0xBBF, 0xBA4, 0xBBF],
      [0xBB5, 0xB99, 0xBCD, 0xB95, 0xBBF],
      [0xBAA, 0xBCA, 0xBB0, 0xBC1, 0xBB3, 0xBBE, 0xBA4, 0xBBE, 0xBB0, 0xBAE, 0xBCD],
      [0xBB5, 0xBB0, 0xBC1, 0xBB5, 0xBBE, 0xBAF, 0xBCD], [0xBB2, 0xBBE, 0xBAA, 0xBAE, 0xBCD],
      [0xBA8, 0xBB7, 0xBCD, 0xB9F, 0xBAE, 0xBCD],
      [0xBA8, 0xBBF, 0xBA4, 0xBBF, 0xBAF, 0xBC1, 0xBA4, 0xBB5, 0xBBF],
      [0x935, 0x94D, 0x92F, 0x93E, 0x92A, 0x93E, 0x930], [0x92C, 0x93E, 0x91C, 0x93E, 0x930],
      [0x936, 0x947, 0x92F, 0x930], [0x915, 0x902, 0x92A, 0x928, 0x940],
      [0x935, 0x93F, 0x924, 0x94D, 0x924], [0x92C, 0x948, 0x902, 0x915, 0x93F, 0x902, 0x917],
      [0x905, 0x930, 0x94D, 0x925, 0x935, 0x94D, 0x92F, 0x935, 0x938, 0x94D, 0x925, 0x93E],
      [0x930, 0x93E, 0x91C, 0x938, 0x94D, 0x935], [0x932, 0x93E, 0x92D],
      [0x938, 0x94D, 0x91F, 0x93E, 0x930, 0x94D, 0x91F, 0x905, 0x92A],
      [0x928, 0x93F, 0x927, 0x93F], [0x9AC, 0x9CD, 0x9AF, 0x9AC, 0x9B8, 0x9BE],
      [0x9AC, 0x9BE, 0x99C, 0x9BE, 0x9B0], [0x9B6, 0x9C7, 0x9AF, 0x9BC, 0x9BE, 0x9B0],
      [0x995, 0x9CB, 0x9AE, 0x9CD, 0x9AA, 0x9BE, 0x9A8, 0x9BF], [0x985, 0x9B0, 0x9CD, 0x9A5],
      [0x9AC, 0x9CD, 0x9AF, 0x9BE, 0x982, 0x995, 0x9BF, 0x982],
      [0x985, 0x9B0, 0x9CD, 0x9A5, 0x9A8, 0x9C0, 0x9A4, 0x9BF],
      [0x9B0, 0x9BE, 0x99C, 0x9B8, 0x9CD, 0x9AC], [0x9B2, 0x9BE, 0x9AD],
      [0x9B8, 0x9CD, 0x99F, 0x9BE, 0x9B0, 0x9CD, 0x99F, 0x986, 0x9AA],
      [0x9A4, 0x9B9, 0x9AC, 0x9BF, 0x9B2], [0xAB5, 0xACD, 0xAAF, 0xAB5, 0xAB8, 0xABE, 0xAAF],
      [0xAAC, 0xA9C, 0xABE, 0xAB0], [0xAB6, 0xAC7, 0xAB0], [0xA95, 0xA82, 0xAAA, 0xAA8, 0xAC0],
      [0xAAB, 0xABE, 0xA87, 0xAA8, 0xABE, 0xAA8, 0xACD, 0xAB8],
      [0xAAC, 0xAC7, 0xA82, 0xA95, 0xABF, 0xA82, 0xA97],
      [0xA85, 0xAB0, 0xACD, 0xAA5, 0xAA4, 0xA82, 0xAA4, 0xACD, 0xAB0],
      [0xAB0, 0xABE, 0xA9C, 0xAB8, 0xACD, 0xAB5], [0xAB2, 0xABE, 0xAAD],
      [0xAB8, 0xACD, 0xA9F, 0xABE, 0xAB0, 0xACD, 0xA9F, 0xA85, 0xAAA],
      [0xAAB, 0xA82, 0xAA1, 0xABF, 0xA82, 0xA97],
      [0x935, 0x94D, 0x92F, 0x935, 0x938, 0x93E, 0x92F], [0x92C, 0x93E, 0x91C, 0x93E, 0x930],
      [0x936, 0x947, 0x905, 0x930], [0x915, 0x902, 0x92A, 0x928, 0x940],
      [0x935, 0x93F, 0x924, 0x94D, 0x924], [0x92C, 0x901, 0x915, 0x93F, 0x902, 0x917],
      [0x905, 0x930, 0x94D, 0x925, 0x935, 0x94D, 0x92F, 0x935, 0x938, 0x94D, 0x925, 0x93E],
      [0x930, 0x93E, 0x91C, 0x938, 0x94D, 0x935], [0x928, 0x92B, 0x93E],
      [0x938, 0x94D, 0x91F, 0x93E, 0x930, 0x94D, 0x91F, 0x905, 0x92A],
      [0x928, 0x93F, 0x927, 0x940]]"

definition dict_education :: "ustring list" where
  "dict_education =
     [u ''education'', u ''exam'', u ''results'', u ''student'', u ''school'', u ''college'',
      u ''university'', u ''admission'', u ''scholarship'', [0xC35, 0xC3F, 0xC26, 0xC4D, 0xC2F],
      [0xC2A, 0xC30, 0xC40, 0xC15, 0xC4D, 0xC37],
      [0xC2B, 0xC32, 0xC3F, 0xC24, 0xC3E, 0xC32, 0xC41],
      [0xC35, 0xC3F, 0xC26, 0xC4D, 0xC2F, 0xC3E, 0xC30, 0xC4D, 0xC25, 0xC3F],
      [0xC2A, 0xC3E, 0xC20, 0xC36, 0xC3E, 0xC32], [0xC15, 0xC33, 0xC3E, 0xC36, 0xC3E, 0xC32],
      [0xC35, 0xC3F, 0xC36, 0xC4D, 0xC35, 0xC35, 0xC3F, 0xC26, 0xC4D, 0xC2F, 0xC3E, 0xC32, 0xC2F, 0xC02],
      [0xC26, 0xC3E, 0xC16, 0xC32, 0xC3E, 0xC32, 0xC41], [0xC35, 0xC47, 0xC24, 0xC28, 0xC02],
      [0xB95, 0xBB2, 0xBCD, 0xBB5, 0xBBF], [0xBA4, 0xBC7, 0xBB0, 0xBCD, 0xBB5, 0xBC1],
      [0xBAE, 0xBC1, 0xB9F, 0xBBF, 0xBB5, 0xBC1, 0xB95, 0xBB3, 0xBCD],
      [0xBAE, 0xBBE, 0xBA3, 0xBB5, 0xBB0, 0xBCD], [0xBAA, 0xBB3, 0xBCD, 0xBB3, 0xBBF],
      [0xB95, 0xBB2, 0xBCD, 0xBB2, 0xBC2, 0xBB0, 0xBBF],
      [0xBAA, 0xBB2, 0xBCD, 0xB95, 0xBB2, 0xBC8, 0xB95, 0xBCD, 0xB95, 0xBB4, 0xB95, 0xBAE, 0xBCD],
      [0xB9A, 0xBC7, 0xBB0, 0xBCD, 0xB95, 0xBCD, 0xB95, 0xBC8],
      [0xB89, 0xBA4, 0xBB5, 0xBBF, 0xBA4, 0xBCD, 0xBA4, 0xBC6, 0xBBE, 0xB95, 0xBC8],
      [0x936, 0x93F, 0x915, 0x94D, 0x937, 0x93E],
      [0x92A, 0x930, 0x940, 0x915, 0x94D, 0x937, 0x93E],
      [0x92A, 0x930, 0x93F, 0x923, 0x93E, 0x92E], [0x91B, 0x93E, 0x924, 0x94D, 0x930],
      [0x938, 0x94D, 0x915, 0x942, 0x932], [0x915, 0x949, 0x932, 0x947, 0x91C],
      [0x935, 0x93F, 0x936, 0x94D, 0x935, 0x935, 0x93F, 0x926, 0x94D, 0x92F, 0x93E, 0x932, 0x92F],
      [0x92A, 0x94D, 0x930, 0x935, 0x947, 0x936],
      [0x91B, 0x93E, 0x924, 0x94D, 0x930, 0x935, 0x943, 0x924, 0x94D, 0x924, 0x93F],
      [0x9B6, 0x9BF, 0x995, 0x9CD, 0x9B7, 0x9BE],
      [0x9AA, 0x9B0, 0x9C0, 0x995, 0x9CD, 0x9B7, 0x9BE], [0x9AB, 0x9B2, 0x9BE, 0x9AB, 0x9B2],
      [0x99B, 0x9BE, 0x9A4, 0x9CD, 0x9B0], [0x9B8, 0x9CD, 0x995, 0x9C1, 0x9B2],
      [0x995, 0x9B2, 0x9C7, 0x99C],
      [0x9AC, 0x9BF, 0x9B6, 0x9CD, 0x9AC, 0x9AC, 0x9BF, 0x9A6, 0x9CD, 0x9AF, 0x9BE, 0x9B2, 0x9AF, 0x9BC],
      [0x9AD, 0x9B0, 0x9CD, 0x9A4, 0x9BF], [0x9AC, 0x9C3, 0x9A4, 0x9CD, 0x9A4, 0x9BF],
      [0xAB6, 0xABF, 0xA95, 0xACD, 0xAB7, 0xAA3],
      [0xAAA, 0xAB0, 0xAC0, 0xA95, 0xACD, 0xAB7, 0xABE],
      [0xAAA, 0xAB0, 0xABF, 0xAA3, 0xABE, 0xAAE],
      [0xAB5, 0xABF, 0xAA6, 0xACD, 0xAAF, 0xABE, 0xAB0, 0xACD, 0xAA5, 0xAC0],
      [0xAB6, 0xABE, 0xAB3, 0xABE], [0xA95, 0xACB, 0xAB2, 0xAC7, 0xA9C],
      [0xAAF, 0xAC1, 0xAA8, 0xABF, 0xAB5, 0xAB0, 0xACD, 0xAB8, 0xABF, 0xA9F, 0xAC0],
      [0xAAA, 0xACD, 0xAB0, 0xAB5, 0xAC7, 0xAB6],
      [0xA9B, 0xABE, 0xAA4, 0xACD, 0xAB0, 0xAB5, 0xAC3, 0xAA4, 0xACD, 0xAA4, 0xABF],
      [0x936, 0x93F, 0x915, 0x94D, 0x937, 0x923],
      [0x92A, 0x930, 0x940, 0x915, 0x94D, 0x937, 0x93E], [0x928, 0x93F, 0x915, 0x93E, 0x932],
      [0x935, 0x93F, 0x926, 0x94D, 0x92F, 0x93E, 0x930, 0x94D, 0x925, 0x940],
      [0x936, 0x93E, 0x933, 0x93E], [0x915, 0x949, 0x932, 0x947, 0x91C],
      [0x935, 0x93F, 0x936, 0x94D, 0x935, 0x935, 0x93F, 0x926, 0x94D, 0x92F, 0x93E, 0x932, 0x92F],
      [0x92A, 0x94D, 0x930, 0x935, 0x947, 0x936],
      [0x936, 0x93F, 0x937, 0x94D, 0x92F, 0x935, 0x943, 0x924, 0x94D, 0x924, 0x940]]"

definition dict_crime :: "ustring list" where
  "dict_crime =
     [u ''crime'', u ''police'', u ''murder'', u ''theft'', u ''robbery'', u ''scam'',
      u ''fraud'', u ''arrest'', u ''assault'', u ''violence'',
      [0xC15, 0xC4D, 0xC30, 0xC48, 0xC2E, 0xC4D], [0xC28, 0xC47, 0xC30, 0xC02],
      [0xC28, 0xC47, 0xC30, 0xC3E, 0xC32, 0xC41], [0xC2A, 0xC4B, 0xC32, 0xC40, 0xC38, 0xC41],
      [0xC39, 0xC24, 0xC4D, 0xC2F], [0xC39, 0xC24, 0xC4D, 0xC2F, 0xC32, 0xC41],
      [0xC26, 0xC4A, 0xC02, 0xC17, 0xC24, 0xC28, 0xC02],
      [0xC26, 0xC4A, 0xC02, 0xC17, 0xC24, 0xC28, 0xC3E, 0xC32, 0xC41],
      [0xC26, 0xC4A, 0xC02, 0xC17, 0xC32, 0xC41], [0xC26, 0xC4B, 0xC2A, 0xC3F, 0xC21, 0xC40],
      [0xC2E, 0xC4B, 0xC38, 0xC02], [0xC05, 0xC30, 0xC46, 0xC38, 0xC4D, 0xC1F, 0xC4D],
      [0xC05, 0xC30, 0xC46, 0xC38, 0xC4D, 0xC1F, 0xC41],
      [0xC15, 0xC4B, 0xC30, 0xC4D, 0xC1F, 0xC41],
      [0xC15, 0xC4B, 0xC30, 0xC4D, 0xC1F, 0xC41, 0xC32, 0xC4B], [0xC26, 0xC3E, 0xC21, 0xC3F],
      [0xC39, 0xC3F, 0xC02, 0xC38],
      [0xC28, 0xC47, 0xC30, 0xC38, 0xC4D, 0xC25, 0xC41, 0xC21, 0xC41],
      [0xC28, 0xC47, 0xC30, 0xC38, 0xC4D, 0xC25, 0xC41, 0xC32, 0xC41],
      [0xB95, 0xBC1, 0xBB1, 0xBCD, 0xBB1, 0xBAE, 0xBCD],
      [0xB95, 0xBBE, 0xBB5, 0xBB2, 0xBCD, 0xBA4, 0xBC1, 0xBB1, 0xBC8],
      [0xB95, 0xBCA, 0xBB2, 0xBC8], [0xBA4, 0xBBF, 0xBB0, 0xBC1, 0xB9F, 0xBCD, 0xB9F, 0xBC1],
      [0xB95, 0xBCA, 0xBB3, 0xBCD, 0xBB3, 0xBC8], [0xBAE, 0xBCB, 0xB9A, 0xB9F, 0xBBF],
      [0xB95, 0xBC8, 0xBA4, 0xBC1],
      [0xBA4, 0xBBE, 0xB95, 0xBCD, 0xB95, 0xBC1, 0xBA4, 0xBB2, 0xBCD],
      [0xBB5, 0xBA9, 0xBCD, 0xBAE, 0xBC1, 0xBB1, 0xBC8], [0x905, 0x92A, 0x930, 0x93E, 0x927],
      [0x92A, 0x941, 0x932, 0x93F, 0x938], [0x939, 0x924, 0x94D, 0x92F, 0x93E],
      [0x91A, 0x94B, 0x930, 0x940], [0x921, 0x915, 0x948, 0x924, 0x940],
      [0x918, 0x94B, 0x91F, 0x93E, 0x932, 0x93E],
      [0x927, 0x94B, 0x916, 0x93E, 0x927, 0x921, 0x93C, 0x940],
      [0x917, 0x93F, 0x930, 0x92B, 0x94D, 0x924, 0x93E, 0x930, 0x940],
      [0x939, 0x92E, 0x932, 0x93E], [0x939, 0x93F, 0x902, 0x938, 0x93E],
      [0x985, 0x9AA, 0x9B0, 0x9BE, 0x9A7], [0x9AA, 0x9C1, 0x9B2, 0x9BF, 0x9B6],
      [0x996, 0x9C1, 0x9A8], [0x99A, 0x9C1, 0x9B0, 0x9BF],
      [0x9A1, 0x9BE, 0x995, 0x9BE, 0x9A4, 0x9BF],
      [0x995, 0x9C7, 0x9B2, 0x9C7, 0x999, 0x9CD, 0x995, 0x9BE, 0x9B0, 0x9BF],
      [0x99C, 0x9BE, 0x9B2, 0x9BF, 0x9AF, 0x9BC, 0x9BE, 0x9A4, 0x9BF],
      [0x997, 0x9CD, 0x9B0, 0x9C7, 0x9AB, 0x9A4, 0x9BE, 0x9B0],
      [0x986, 0x995, 0x9CD, 0x9B0, 0x9AE, 0x9A3],
      [0x9B8, 0x9B9, 0x9BF, 0x982, 0x9B8, 0x9A4, 0x9BE], [0xA85, 0xAAA, 0xAB0, 0xABE, 0xAA7],
      [0xAAA, 0xACB, 0xAB2, 0xAC0, 0xAB8], [0xAB9, 0xAA4, 0xACD, 0xAAF, 0xABE],
      [0xA9A, 0xACB, 0xAB0, 0xAC0], [0xAA1, 0xA95, 0xABE, 0xA88],
      [0xA98, 0xACB, 0xA9F, 0xABE, 0xAB2, 0xACB],
      [0xAA7, 0xACB, 0xA95, 0xABE, 0xAA7, 0xAA1, 0xAC0],
      [0xA97, 0xABF, 0xAB0, 0xAAB, 0xAA4, 0xABE, 0xAB0, 0xAC0],
      [0xAB9, 0xAC1, 0xAAE, 0xAB2, 0xACB], [0xAB9, 0xABF, 0xA82, 0xAB8, 0xABE],
      [0x917, 0x941, 0x928, 0x94D, 0x939, 0x93E], [0x92A, 0x94B, 0x932, 0x93F, 0x938],
      [0x916, 0x942, 0x928], [0x91A, 0x94B, 0x930, 0x940], [0x926, 0x930, 0x94B, 0x921, 0x93E],
      [0x918, 0x94B, 0x91F, 0x93E, 0x933, 0x93E], [0x92B, 0x938, 0x935, 0x923, 0x942, 0x915],
      [0x905, 0x91F, 0x915], [0x939, 0x932, 0x94D, 0x932, 0x93E],
      [0x939, 0x93F, 0x902, 0x938, 0x93E]]"

definition dict :: "(ustring \<times> ustring list) list" where
  "dict =
     [(u ''politics'', dict_politics),
      (u ''sports'', dict_sports),
      (u ''entertainment'', dict_entertainment),
      (u ''technology'', dict_technology),
      (u ''health'', dict_health),
      (u ''business'', dict_business),
      (u ''education'', dict_education),
      (u ''crime'', dict_crime)]"

definition computeCategoryFromText ::
    "unicode \<Rightarrow> ustring \<Rightarrow> ustring \<Rightarrow> ustring \<Rightarrow> ustring option \<Rightarrow> ustring" where
  "computeCategoryFromText uc title summary content language =
     (let text = normalizeText uc (title @ u '' '' @ summary @ u '' '' @ content);
          lang = normalizedLang uc language;
          (best, bestScore) = bestLoop text lang dict (u ''general'') 0
      in if bestScore > 0 then best else u ''general'')"

text \<open>
  Two notions for stating what the classifier does: the stem of a keyword, as
  \<open>partialMatch\<close> takes it, and the keywords of the dictionary that occur in a text as
  they are written, each with its category.
\<close>

definition stemOf :: "ustring \<Rightarrow> ustring" where
  "stemOf k = take (max 3 ((length k * 7) div 10)) k"

definition keywordsIn :: "ustring \<Rightarrow> (ustring \<times> ustring) list" where
  "keywordsIn t = concat (map (\<lambda>(cat, keys). map (Pair cat) (filter (includesStr t) keys)) dict)"

text \<open>
  \<open>ScrapingService.determineCategory\<close> (src/lib/mongoose.ts, lines 726--750): the first
  category of a fixed English table one of whose keywords occurs in the lower-cased title
  and summary; without a match the first category the source declares, or \<open>null\<close>. The
  caller, \<open>scrapeArticle\<close>, puts \<open>general\<close> in the place of \<open>null\<close>. There is no
  language parameter.
\<close>

definition categoryKeywords :: "(ustring \<times> ustring list) list" where
  "categoryKeywords =
     [(u ''politics'', [u ''politics'', u ''government'', u ''election'', u ''president'', u ''senate'']),
      (u ''world'', [u ''world'', u ''international'', u ''global'', u ''foreign'']),
      (u ''sports'', [u ''sports'', u ''football'', u ''basketball'', u ''soccer'', u ''tennis'']),
      (u ''tech'', [u ''technology'', u ''tech'', u ''software'', u ''ai'', u ''computer'', u ''internet'']),
      (u ''health'', [u ''health'', u ''medical'', u ''doctor'', u ''hospital'', u ''medicine'']),
      (u ''ai'', [u ''ai'', u ''artificial intelligence'', u ''machine learning'']),
      (u ''cyber'', [u ''cybersecurity'', u ''hacking'', u ''malware'', u ''ransomware'', u ''breach'']),
      (u ''movies'', [u ''movies'', u ''film'', u ''cinema'', u ''bollywood'', u ''hollywood'']),
      (u ''stocks'', [u ''stocks'', u ''market'', u ''shares'', u ''trading'', u ''equity'']),
      (u ''hindi'', [u ''hindi'']),
      (u ''telugu'', [u ''telugu''])]"

fun firstKeywordMatch :: "ustring \<Rightarrow> (ustring \<times> ustring list) list \<Rightarrow> ustring option" where
  "firstKeywordMatch text [] = None"
| "firstKeywordMatch text ((key, kws) # rest) =
     (if list_ex (\<lambda>kw. includesStr text kw) kws then Some key else firstKeywordMatch text rest)"

definition determineCategory ::
    "unicode \<Rightarrow> ustring \<Rightarrow> ustring \<Rightarrow> ustring list option \<Rightarrow> ustring option" where
  "determineCategory uc title summary sourceCategories =
     (let text = toLowerCase uc (title @ u '' '' @ summary) in
      case firstKeywordMatch text categoryKeywords of
        Some key \<Rightarrow> Some key
      | None \<Rightarrow> (case sourceCategories of None \<Rightarrow> None | Some cs \<Rightarrow> at_index cs 0))"

definition categoryOrGeneral :: "ustring option \<Rightarrow> ustring" where
  "categoryOrGeneral category = (case category of None \<Rightarrow> u ''general'' | Some c \<Rightarrow> c)"

section \<open>The document store\<close>

text \<open>
  Errors are values. A rejected promise or a thrown exception is \<open>Inl\<close> of one of these;
  \<open>HttpError\<close> carries \<open>error.response.status\<close> and \<open>NetworkError\<close> carries \<open>error.code\<close>.
\<close>

datatype error =
    HttpError nat
  | NetworkError ustring
  | ParseError
  | TypeError
  | DuplicateKey
  | ValidationError
  | OtherError ustring

text \<open>The documents of the collections \<open>Article\<close> and \<open>Category\<close>, with the fields the scrapers write.\<close>

record image =
  img_url :: ustring
  img_alt :: ustring
  img_caption :: "ustring option"
  img_width :: "jsnum option"
  img_height :: "jsnum option"
  img_source :: "ustring option"

record article =
  art_title :: ustring
  art_slug :: ustring
  art_summary :: ustring
  art_content :: ustring
  art_images :: "image list"
  art_category :: "nat option"
  art_categories :: "ustring list"
  art_categoryDetected :: "ustring option"
  art_tags :: "ustring list"
  art_author :: "ustring option"
  art_language :: ustring
  art_sourceName :: "ustring option"
  art_sourceUrl :: "ustring option"
  art_sourceId :: "ustring option"
  art_status :: ustring
  art_publishedAt :: jsnum
  art_scrapedAt :: nat
  art_canonicalUrl :: ustring
  art_thumbnail :: "ustring option"
  art_wordCount :: nat
  art_readingTime :: nat
  art_metaDescription :: ustring
  art_hash :: ustring

record category =
  cat_id :: nat
  cat_key :: ustring
  cat_label :: ustring
  cat_icon :: ustring
  cat_color :: ustring
  cat_parent :: "nat option"
  cat_order :: nat
  cat_active :: bool
  cat_language :: "ustring option"
  cat_isDynamic :: bool

record db =
  db_articles :: "article list"
  db_categories :: "category list"
  db_nextId :: nat

section \<open>Dynamic categories of the scraper script\<close>

text \<open>
  The schema of \<open>Category\<close> (src/models/Category.ts): \<open>key\<close> is required, unique, trimmed
  and lower-cased; \<open>label\<close> is required and trimmed; \<open>language\<close> is trimmed and lower-cased;
  \<open>parent\<close> defaults to \<open>null\<close>. \<open>Category.create\<close> applies the setters, validates and
  inserts; a second document with a stored key throws.
\<close>

definition storedForm :: "unicode \<Rightarrow> ustring \<Rightarrow> ustring" where
  "storedForm uc s = toLowerCase uc (trim s)"

record category_input =
  ci_key :: ustring
  ci_label :: ustring
  ci_icon :: ustring
  ci_color :: ustring
  ci_order :: nat
  ci_active :: bool
  ci_language :: "ustring option"
  ci_isDynamic :: bool

definition Category_create :: "unicode \<Rightarrow> category_input \<Rightarrow> db \<Rightarrow> (error + category) \<times> db" where
  "Category_create uc ci d =
     (let doc = \<lparr> cat_id = db_nextId d,
                  cat_key = storedForm uc (ci_key ci),
                  cat_label = trim (ci_label ci),
                  cat_icon = ci_icon ci,
                  cat_color = ci_color ci,
                  cat_parent = None,
                  cat_order = ci_order ci,
                  cat_active = ci_active ci,
                  cat_language = map_option (storedForm uc) (ci_language ci),
                  cat_isDynamic = ci_isDynamic ci \<rparr>
      in if cat_key doc = [] \<or> cat_label doc = [] \<or> cat_icon doc = [] \<or> cat_color doc = []
         then (Inl ValidationError, d)
         else if list_ex (\<lambda>c. cat_key c = cat_key doc) (db_categories d)
         then (Inl DuplicateKey, d)
         else (Inr doc, d\<lparr> db_categories := db_categories d @ [doc], db_nextId := db_nextId d + 1 \<rparr>))"

text \<open>
  \<open>createDynamicCategory\<close> (scripts/runScraper.ts, lines 416--479). The first query is
  \<^verbatim>\<open>{key, $or: [{language}, {language: {$exists: false}}]}\<close>; the count is over
  \<^verbatim>\<open>{language, $or: [{categories: detected}, {categoryDetected: detected}]}\<close>, where a
  value matches an array field when the array contains it. Mongoose casts the values of
  a filter with the schema, setters included, so \<open>key\<close> and \<open>language\<close> of the first
  query are trimmed and lower-cased before they are compared. The arguments the caller
  passes (a key of the classifier's dictionary, a language code of a source) are
  lower-case and trimmed already, and \<open>findCategory\<close> compares them as they are: it is
  the query for arguments in stored form (\<open>storedForm uc key = key\<close>, and the same for the
  language), and for no others.
\<close>

definition findCategory :: "ustring \<Rightarrow> ustring \<Rightarrow> db \<Rightarrow> category option" where
  "findCategory key language d =
     find (\<lambda>c. cat_key c = key \<and> (cat_language c = Some language \<or> cat_language c = None))
       (db_categories d)"

definition articleCount :: "ustring \<Rightarrow> ustring \<Rightarrow> db \<Rightarrow> nat" where
  "articleCount detectedCategory language d =
     length (filter (\<lambda>a. art_language a = language
                          \<and> (detectedCategory \<in> set (art_categories a)
                               \<or> art_categoryDetected a = Some detectedCategory))
               (db_articles d))"

definition categoryLabels :: "(ustring \<times> ustring) list" where
  "categoryLabels =
     [(u ''general'', u ''General''), (u ''politics'', u ''Politics''), (u ''sports'', u ''Sports''),
      (u ''entertainment'', u ''Entertainment''), (u ''technology'', u ''Technology''),
      (u ''health'', u ''Health''), (u ''business'', u ''Business''),
      (u ''education'', u ''Education''), (u ''crime'', u ''Crime''), (u ''weather'', u ''Weather''),
      (u ''science'', u ''Science''), (u ''travel'', u ''Travel''), (u ''food'', u ''Food''),
      (u ''fashion'', u ''Fashion''), (u ''automobile'', u ''Automobile''),
      (u ''realestate'', u ''Real Estate'')]"

definition categoryIcons :: "(ustring \<times> ustring) list" where
  "categoryIcons =
     [(u ''general'', u ''newspaper''), (u ''politics'', u ''landmark''), (u ''sports'', u ''trophy''),
      (u ''entertainment'', u ''film''), (u ''technology'', u ''laptop''), (u ''health'', u ''heart''),
      (u ''business'', u ''briefcase''), (u ''education'', u ''graduation-cap''),
      (u ''crime'', u ''shield''), (u ''weather'', u ''cloud-sun''), (u ''science'', u ''flask''),
      (u ''travel'', u ''map''), (u ''food'', u ''utensils''), (u ''fashion'', u ''shirt''),
      (u ''automobile'', u ''car''), (u ''realestate'', u ''home'')]"

definition categoryColors :: "(ustring \<times> ustring) list" where
  "categoryColors =
     [(u ''general'', u ''#9CA3AF''), (u ''politics'', u ''#EF4444''), (u ''sports'', u ''#10B981''),
      (u ''entertainment'', u ''#8B5CF6''), (u ''technology'', u ''#3B82F6''),
      (u ''health'', u ''#F59E0B''), (u ''business'', u ''#06B6D4''),
      (u ''education'', u ''#84CC16''), (u ''crime'', u ''#DC2626''), (u ''weather'', u ''#0EA5E9''),
      (u ''science'', u ''#7C3AED''), (u ''travel'', u ''#059669''), (u ''food'', u ''#D97706''),
      (u ''fashion'', u ''#EC4899''), (u ''automobile'', u ''#6B7280''),
      (u ''realestate'', u ''#B45309'')]"

definition upperUnit :: "nat \<Rightarrow> nat" where
  "upperUnit c = (if 97 \<le> c \<and> c \<le> 122 then c - 32 else c)"

definition toUpperCase :: "unicode \<Rightarrow> ustring \<Rightarrow> ustring" where
  "toUpperCase uc s = concat (map (\<lambda>c. if c < 128 then [upperUnit c] else upperMap uc c) s)"

definition capitalize :: "unicode \<Rightarrow> ustring \<Rightarrow> ustring" where
  "capitalize uc s = toUpperCase uc (take 1 s) @ drop 1 s"

text \<open>
  \<open>table[key] || d\<close> for a key that the table has or that no object has. The tables are
  object literals, so a key that names a member of \<open>Object.prototype\<close> (\<open>constructor\<close>,
  \<open>toString\<close>, \<open>valueOf\<close> and the like) finds that member, which is not a string;
  \<open>lookupOr\<close> does not cover such keys. The caller passes categories of the classifier,
  none of which is such a name.
\<close>

definition lookupOr :: "(ustring \<times> ustring) list \<Rightarrow> ustring \<Rightarrow> ustring \<Rightarrow> ustring" where
  "lookupOr table key d = orString (map_of table key) d"

definition createDynamicCategory ::
    "unicode \<Rightarrow> ustring \<Rightarrow> ustring \<Rightarrow> db \<Rightarrow> (error + nat option) \<times> db" where
  "createDynamicCategory uc detectedCategory language d =
     (if detectedCategory = [] \<or> detectedCategory = u ''general''
         \<or> detectedCategory = u ''uncategorized''
      then (Inr None, d)
      else case findCategory detectedCategory language d of
        Some existingCategory \<Rightarrow> (Inr (Some (cat_id existingCategory)), d)
      | None \<Rightarrow>
          if articleCount detectedCategory language d \<ge> 10
          then (case Category_create uc
                  \<lparr> ci_key = detectedCategory,
                    ci_label = lookupOr categoryLabels detectedCategory (capitalize uc detectedCategory),
                    ci_icon = lookupOr categoryIcons detectedCategory (u ''newspaper''),
                    ci_color = lookupOr categoryColors detectedCategory (u ''#9CA3AF''),
                    ci_order = 100,
                    ci_active = True,
                    ci_language = Some language,
                    ci_isDynamic = True \<rparr> d of
                  (Inl e, d1) \<Rightarrow> (Inl e, d1)
                | (Inr newCategory, d1) \<Rightarrow> (Inr (Some (cat_id newCategory)), d1))
          else (Inr None, d))"

section \<open>Content hashes\<close>

text \<open>
  \<open>crypto.createHash(alg).update(content).digest("hex")\<close>: the string is encoded as UTF-8
  (an unpaired surrogate becomes U+FFFD), digested, and the digest written as lower-case
  hexadecimal. SHA-256 is the digest of the scraping service, MD5 that of the scraper
  script.
\<close>

definition utf8CodePoint :: "nat \<Rightarrow> nat list" where
  "utf8CodePoint cp =
     (if cp < 0x80 then [cp]
      else if cp < 0x800 then [0xC0 + cp div 0x40, 0x80 + cp mod 0x40]
      else if cp < 0x10000 then [0xE0 + cp div 0x1000, 0x80 + (cp div 0x40) mod 0x40, 0x80 + cp mod 0x40]
      else [0xF0 + cp div 0x40000, 0x80 + (cp div 0x1000) mod 0x40,
            0x80 + (cp div 0x40) mod 0x40, 0x80 + cp mod 0x40])"

fun utf8 :: "ustring \<Rightarrow> nat list" where
  "utf8 [] = []"
| "utf8 [c] =
     (if isHighSurrogate c \<or> isLowSurrogate c then [0xEF, 0xBF, 0xBD] else utf8CodePoint c)"
| "utf8 (c # d # cs) =
     (if isHighSurrogate c \<and> isLowSurrogate d then utf8CodePoint (codePoint c d) @ utf8 cs
      else if isHighSurrogate c \<or> isLowSurrogate c then [0xEF, 0xBF, 0xBD] @ utf8 (d # cs)
      else utf8CodePoint c @ utf8 (d # cs))"

definition hexDigit :: "nat \<Rightarrow> nat" where
  "hexDigit n = (if n < 10 then 48 + n else 87 + n)"

definition hexBytes :: "nat list \<Rightarrow> ustring" where
  "hexBytes bs = concat (map (\<lambda>b. [hexDigit (b div 16), hexDigit (b mod 16)]) bs)"

text \<open>Padding of both digests: a one bit, zeros up to 56 modulo 64 bytes, the bit length in 8 bytes.\<close>

definition zeroPad :: "nat \<Rightarrow> nat list" where
  "zeroPad len = replicate ((119 - len mod 64) mod 64) 0"

definition bytesBE :: "nat \<Rightarrow> nat \<Rightarrow> nat list" where
  "bytesBE k n = map (\<lambda>i. (n div 256 ^ (k - 1 - i)) mod 256) [0..<k]"

definition bytesLE :: "nat \<Rightarrow> nat \<Rightarrow> nat list" where
  "bytesLE k n = map (\<lambda>i. (n div 256 ^ i) mod 256) [0..<k]"

fun chunks :: "nat \<Rightarrow> nat \<Rightarrow> 'a list \<Rightarrow> 'a list list" where
  "chunks 0 n xs = []"
| "chunks (Suc k) n xs = take n xs # chunks k n (drop n xs)"

definition blocks :: "nat list \<Rightarrow> nat list list" where
  "blocks bs = chunks (length bs div 64) 64 bs"

definition wordBE :: "nat list \<Rightarrow> 32 word" where
  "wordBE bs = of_nat (foldl (\<lambda>acc b. acc * 256 + b) 0 bs)"

definition wordLE :: "nat list \<Rightarrow> 32 word" where
  "wordLE bs = of_nat (foldr (\<lambda>b acc. acc * 256 + b) bs 0)"

text \<open>Rotation of a 32-bit word by \<open>n\<close> places, \<open>0 < n < 32\<close>.\<close>

definition rotl :: "nat \<Rightarrow> 32 word \<Rightarrow> 32 word" where
  "rotl n w = push_bit n w OR drop_bit (32 - n) w"

definition rotr :: "nat \<Rightarrow> 32 word \<Rightarrow> 32 word" where
  "rotr n w = drop_bit n w OR push_bit (32 - n) w"

subsection \<open>SHA-256\<close>

type_synonym sha256_state =
  "32 word \<times> 32 word \<times> 32 word \<times> 32 word \<times> 32 word \<times> 32 word \<times> 32 word \<times> 32 word"

definition sha256K :: "32 word list" where
  "sha256K =
     [0x428A2F98, 0x71374491, 0xB5C0FBCF, 0xE9B5DBA5, 0x3956C25B, 0x59F111F1,
      0x923F82A4, 0xAB1C5ED5, 0xD807AA98, 0x12835B01, 0x243185BE, 0x550C7DC3,
      0x72BE5D74, 0x80DEB1FE, 0x9BDC06A7, 0xC19BF174, 0xE49B69C1, 0xEFBE4786,
      0x0FC19DC6, 0x240CA1CC, 0x2DE92C6F, 0x4A7484AA, 0x5CB0A9DC, 0x76F988DA,
      0x983E5152, 0xA831C66D, 0xB00327C8, 0xBF597FC7, 0xC6E00BF3, 0xD5A79147,
      0x06CA6351, 0x14292967, 0x27B70A85, 0x2E1B2138, 0x4D2C6DFC, 0x53380D13,
      0x650A7354, 0x766A0ABB, 0x81C2C92E, 0x92722C85, 0xA2BFE8A1, 0xA81A664B,
      0xC24B8B70, 0xC76C51A3, 0xD192E819, 0xD6990624, 0xF40E3585, 0x106AA070,
      0x19A4C116, 0x1E376C08, 0x2748774C, 0x34B0BCB5, 0x391C0CB3, 0x4ED8AA4A,
      0x5B9CCA4F, 0x682E6FF3, 0x748F82EE, 0x78A5636F, 0x84C87814, 0x8CC70208,
      0x90BEFFFA, 0xA4506CEB, 0xBEF9A3F7, 0xC67178F2]"

definition sha256H0 :: sha256_state where
  "sha256H0 =
     (0x6A09E667, 0xBB67AE85, 0x3C6EF372, 0xA54FF53A,
      0x510E527F, 0x9B05688C, 0x1F83D9AB, 0x5BE0CD19)"

definition ssig0 :: "32 word \<Rightarrow> 32 word" where
  "ssig0 x = rotr 7 x XOR rotr 18 x XOR drop_bit 3 x"

definition ssig1 :: "32 word \<Rightarrow> 32 word" where
  "ssig1 x = rotr 17 x XOR rotr 19 x XOR drop_bit 10 x"

definition bsig0 :: "32 word \<Rightarrow> 32 word" where
  "bsig0 x = rotr 2 x XOR rotr 13 x XOR rotr 22 x"

definition bsig1 :: "32 word \<Rightarrow> 32 word" where
  "bsig1 x = rotr 6 x XOR rotr 11 x XOR rotr 25 x"

text \<open>The message schedule, kept newest first while it is extended.\<close>

fun schedule :: "nat \<Rightarrow> 32 word list \<Rightarrow> 32 word list" where
  "schedule 0 ws = ws"
| "schedule (Suc k) ws =
     schedule k ((ssig1 (ws ! 1) + ws ! 6 + ssig0 (ws ! 14) + ws ! 15) # ws)"

fun sha256Rounds :: "sha256_state \<Rightarrow> (32 word \<times> 32 word) list \<Rightarrow> sha256_state" where
  "sha256Rounds st [] = st"
| "sha256Rounds (a, b, c, d, e, f, g, h) ((k, w) # kws) =
     (let t1 = h + bsig1 e + ((e AND f) XOR (NOT e AND g)) + k + w;
          t2 = bsig0 a + ((a AND b) XOR (a AND c) XOR (b AND c))
      in sha256Rounds (t1 + t2, a, b, c, d + t1, e, f, g) kws)"

definition sha256Add :: "sha256_state \<Rightarrow> sha256_state \<Rightarrow> sha256_state" where
  "sha256Add s t =
     (case (s, t) of ((a, b, c, d, e, f, g, h), (a', b', c', d', e', f', g', h')) \<Rightarrow>
        (a + a', b + b', c + c', d + d', e + e', f + f', g + g', h + h'))"

definition sha256Block :: "sha256_state \<Rightarrow> nat list \<Rightarrow> sha256_state" where
  "sha256Block st block =
     (let w16 = map wordBE (chunks 16 4 block);
          ws = rev (schedule 48 (rev w16))
      in sha256Add st (sha256Rounds st (zip sha256K ws)))"

definition sha256 :: "nat list \<Rightarrow> nat list" where
  "sha256 msg =
     (let padded = msg @ [0x80] @ zeroPad (length msg) @ bytesBE 8 (8 * length msg)
      in case foldl sha256Block sha256H0 (blocks padded) of (a, b, c, d, e, f, g, h) \<Rightarrow>
           concat (map (\<lambda>w. bytesBE 4 (unat w)) [a, b, c, d, e, f, g, h]))"

subsection \<open>MD5\<close>

definition md5T :: "32 word list" where
  "md5T =
     [0xD76AA478, 0xE8C7B756, 0x242070DB, 0xC1BDCEEE, 0xF57C0FAF, 0x4787C62A,
      0xA8304613, 0xFD469501, 0x698098D8, 0x8B44F7AF, 0xFFFF5BB1, 0x895CD7BE,
      0x6B901122, 0xFD987193, 0xA679438E, 0x49B40821, 0xF61E2562, 0xC040B340,
      0x265E5A51, 0xE9B6C7AA, 0xD62F105D, 0x02441453, 0xD8A1E681, 0xE7D3FBC8,
      0x21E1CDE6, 0xC33707D6, 0xF4D50D87, 0x455A14ED, 0xA9E3E905, 0xFCEFA3F8,
      0x676F02D9, 0x8D2A4C8A, 0xFFFA3942, 0x8771F681, 0x6D9D6122, 0xFDE5380C,
      0xA4BEEA44, 0x4BDECFA9, 0xF6BB4B60, 0xBEBFBC70, 0x289B7EC6, 0xEAA127FA,
      0xD4EF3085, 0x04881D05, 0xD9D4D039, 0xE6DB99E5, 0x1FA27CF8, 0xC4AC5665,
      0xF4292244, 0x432AFF97, 0xAB9423A7, 0xFC93A039, 0x655B59C3, 0x8F0CCC92,
      0xFFEFF47D, 0x85845DD1, 0x6FA87E4F, 0xFE2CE6E0, 0xA3014314, 0x4E0811A1,
      0xF7537E82, 0xBD3AF235, 0x2AD7D2BB, 0xEB86D391]"

definition md5S :: "nat list" where
  "md5S =
     [7, 12, 17, 22, 7, 12, 17, 22, 7, 12, 17, 22, 7, 12, 17, 22,
      5, 9, 14, 20, 5, 9, 14, 20, 5, 9, 14, 20, 5, 9, 14, 20,
      4, 11, 16, 23, 4, 11, 16, 23, 4, 11, 16, 23, 4, 11, 16, 23,
      6, 10, 15, 21, 6, 10, 15, 21, 6, 10, 15, 21, 6, 10, 15, 21]"

definition md5F :: "nat \<Rightarrow> 32 word \<Rightarrow> 32 word \<Rightarrow> 32 word \<Rightarrow> 32 word" where
  "md5F i b c d =
     (if i < 16 then (b AND c) OR (NOT b AND d)
      else if i < 32 then (d AND b) OR (NOT d AND c)
      else if i < 48 then b XOR c XOR d
      else c XOR (b OR NOT d))"

definition md5G :: "nat \<Rightarrow> nat" where
  "md5G i =
     (if i < 16 then i
      else if i < 32 then (5 * i + 1) mod 16
      else if i < 48 then (3 * i + 5) mod 16
      else (7 * i) mod 16)"

type_synonym md5_state = "32 word \<times> 32 word \<times> 32 word \<times> 32 word"

fun md5Step :: "32 word list \<Rightarrow> md5_state \<Rightarrow> nat \<Rightarrow> md5_state" where
  "md5Step m (a, b, c, d) i =
     (d, b + rotl (md5S ! i) (md5F i b c d + a + md5T ! i + m ! md5G i), b, c)"

fun md5Add :: "md5_state \<Rightarrow> md5_state \<Rightarrow> md5_state" where
  "md5Add (a0, b0, c0, d0) (a, b, c, d) = (a0 + a, b0 + b, c0 + c, d0 + d)"

definition md5Block :: "md5_state \<Rightarrow> nat list \<Rightarrow> md5_state" where
  "md5Block st block = md5Add st (foldl (md5Step (map wordLE (chunks 16 4 block))) st [0..<64])"

fun md5Bytes :: "md5_state \<Rightarrow> nat list" where
  "md5Bytes (a, b, c, d) = concat (map (\<lambda>w. bytesLE 4 (unat w)) [a, b, c, d])"

definition md5 :: "nat list \<Rightarrow> nat list" where
  "md5 msg =
     md5Bytes (foldl md5Block (0x67452301, 0xEFCDAB89, 0x98BADCFE, 0x10325476)
       (blocks (msg @ [0x80] @ zeroPad (length msg) @ bytesLE 8 (8 * length msg))))"

definition sha256Hex :: "ustring \<Rightarrow> ustring" where
  "sha256Hex content = hexBytes (sha256 (utf8 content))"

definition md5Hex :: "ustring \<Rightarrow> ustring" where
  "md5Hex content = hexBytes (md5 (utf8 content))"

section \<open>Text helpers of the scraping service\<close>

text \<open>Decimal notation of a natural number, as a template literal prints it.\<close>

fun dec :: "nat \<Rightarrow> ustring" where
  "dec n = (if n < 10 then [48 + n] else dec (n div 10) @ [48 + n mod 10])"

declare dec.simps [simp del]

text \<open>
  \<open>parseInt(s)\<close> without a radix, as \<open>extractImages\<close> applies it to a \<open>width\<close> or
  \<open>height\<close> attribute: leading white space and one sign are skipped; a prefix \<open>0x\<close> or
  \<open>0X\<close> selects base sixteen, otherwise the base is ten; the longest run of digits of the
  base is read, and without a digit the result is \<open>NaN\<close>. The result is a double: the
  integer read is rounded to 53 significant bits, ties to even, and is an infinity when
  the rounded value reaches \<open>2 ^ 1024\<close>. (Past twenty significant decimal digits the
  language standard lets an implementation approximate the integer before it rounds; the
  rounding here is exact.)
\<close>

definition isDigit :: "nat \<Rightarrow> bool" where
  "isDigit c = (48 \<le> c \<and> c \<le> 57)"

definition digitsValue :: "ustring \<Rightarrow> nat" where
  "digitsValue ds = foldl (\<lambda>acc c. acc * 10 + (c - 48)) 0 ds"

definition isHexDigit :: "nat \<Rightarrow> bool" where
  "isHexDigit c = (isDigit c \<or> (65 \<le> c \<and> c \<le> 70) \<or> (97 \<le> c \<and> c \<le> 102))"

definition hexDigitValue :: "nat \<Rightarrow> nat" where
  "hexDigitValue c = (if isDigit c then c - 48 else if c \<le> 70 then c - 55 else c - 87)"

definition hexValue :: "ustring \<Rightarrow> nat" where
  "hexValue ds = foldl (\<lambda>acc c. acc * 16 + hexDigitValue c) 0 ds"

function bitLength :: "nat \<Rightarrow> nat" where
  "bitLength n = (if n = 0 then 0 else Suc (bitLength (n div 2)))"
  by pat_completeness auto
termination
  by (relation "measure id") auto

declare bitLength.simps [simp del]

text \<open>The double nearest to a natural number; \<open>None\<close> is infinity.\<close>

definition toDouble :: "nat \<Rightarrow> nat option" where
  "toDouble n =
     (if n < 2 ^ 53 then Some n
      else (let e = bitLength n - 53;
                q = n div 2 ^ e;
                r = n mod 2 ^ e;
                q' = (if 2 * r > 2 ^ e \<or> (2 * r = 2 ^ e \<and> odd q) then q + 1 else q)
            in if q' * 2 ^ e \<ge> 2 ^ 1024 then None else Some (q' * 2 ^ e)))"

definition signedNumber :: "bool \<Rightarrow> nat \<Rightarrow> jsnum" where
  "signedNumber negative n =
     (case toDouble n of
        None \<Rightarrow> if negative then NegInfinity else PosInfinity
      | Some m \<Rightarrow> Num (if negative then - int m else int m))"

definition parseInt :: "ustring \<Rightarrow> jsnum" where
  "parseInt s =
     (let t = dropWhile isSpace s;
          negative = (t \<noteq> [] \<and> hd t = 45);
          body = (if t \<noteq> [] \<and> (hd t = 45 \<or> hd t = 43) then tl t else t);
          hex = (startsWith body (u ''0x'') \<or> startsWith body (u ''0X''));
          ds = (if hex then takeWhile isHexDigit (drop 2 body) else takeWhile isDigit body)
      in if ds = [] then NaN
         else signedNumber negative (if hex then hexValue ds else digitsValue ds))"

text \<open>Case-insensitive search for an ASCII pattern, as a regular expression with the \<open>i\<close> flag does it.\<close>

definition asciiLower :: "ustring \<Rightarrow> ustring" where
  "asciiLower s = map lowerUnit s"

definition includesIgnoreCase :: "ustring \<Rightarrow> ustring \<Rightarrow> bool" where
  "includesIgnoreCase s pattern = includesStr (asciiLower s) pattern"

text \<open>
  \<open>extractTags\<close>: the lower-cased text is split at runs of characters outside
  \<open>[A-Za-z0-9_]\<close>; of the pieces longer than four units, the first ten, without
  repetition.
\<close>

definition isWordChar :: "nat \<Rightarrow> bool" where
  "isWordChar c = ((48 \<le> c \<and> c \<le> 57) \<or> (65 \<le> c \<and> c \<le> 90) \<or> c = 95 \<or> (97 \<le> c \<and> c \<le> 122))"

function runs :: "(nat \<Rightarrow> bool) \<Rightarrow> ustring \<Rightarrow> ustring list" where
  "runs P [] = []"
| "runs P (c # cs) =
     (if P c then takeWhile P (c # cs) # runs P (dropWhile P cs) else runs P cs)"
  by pat_completeness auto
termination
  by (relation "measure (\<lambda>(P, s). length s)") (auto simp: length_dropWhile_le less_Suc_eq_le)

definition splitWords :: "ustring \<Rightarrow> ustring list" where
  "splitWords s = runs isWordChar s"

fun uniqueInOrder :: "'a list \<Rightarrow> 'a list \<Rightarrow> 'a list" where
  "uniqueInOrder seen [] = []"
| "uniqueInOrder seen (x # xs) =
     (if x \<in> set seen then uniqueInOrder seen xs else x # uniqueInOrder (x # seen) xs)"

definition extractTags :: "unicode \<Rightarrow> ustring \<Rightarrow> ustring \<Rightarrow> ustring \<Rightarrow> ustring list" where
  "extractTags uc title summary content =
     (let words = filter (\<lambda>w. length w > 4)
                    (splitWords (toLowerCase uc (title @ u '' '' @ summary @ u '' '' @ content)))
      in uniqueInOrder [] (take 10 words))"

text \<open>
  \<open>extractAuthor\<close>: the first match of \<^verbatim>\<open>/By ([A-Z][a-z]+ [A-Z][a-z]+)/\<close>, the two
  capitalised words after \<open>By\<close>.
\<close>

definition isUpper :: "nat \<Rightarrow> bool" where
  "isUpper c = (65 \<le> c \<and> c \<le> 90)"

definition isLower :: "nat \<Rightarrow> bool" where
  "isLower c = (97 \<le> c \<and> c \<le> 122)"

definition capitalisedWord :: "ustring \<Rightarrow> (ustring \<times> ustring) option" where
  "capitalisedWord s =
     (case s of
        [] \<Rightarrow> None
      | c # cs \<Rightarrow>
          if isUpper c \<and> takeWhile isLower cs \<noteq> []
          then Some (c # takeWhile isLower cs, dropWhile isLower cs)
          else None)"

definition authorAt :: "ustring \<Rightarrow> ustring option" where
  "authorAt s =
     (if startsWith s (u ''By '')
      then (case capitalisedWord (drop 3 s) of
              None \<Rightarrow> None
            | Some (first, rest) \<Rightarrow>
                (case rest of
                   [] \<Rightarrow> None
                 | sp # rest' \<Rightarrow>
                     if sp = 32
                     then (case capitalisedWord rest' of
                             None \<Rightarrow> None
                           | Some (second, _) \<Rightarrow> Some (first @ [32] @ second))
                     else None))
      else None)"

fun extractAuthor :: "ustring \<Rightarrow> ustring option" where
  "extractAuthor [] = None"
| "extractAuthor (c # cs) =
     (case authorAt (c # cs) of Some name \<Rightarrow> Some name | None \<Rightarrow> extractAuthor cs)"

section \<open>The scraping service\<close>

text \<open>
  \<open>ScrapingService\<close> (src/lib/mongoose.ts, lines 26--812). A feed item and an API article
  are the same record: a field the parser did not set is \<open>None\<close>.
\<close>

record item =
  i_title :: "ustring option"
  i_link :: "ustring option"
  i_url :: "ustring option"
  i_contentSnippet :: "ustring option"
  i_description :: "ustring option"
  i_content :: "ustring option"
  i_pubDate :: "ustring option"
  i_publishedAt :: "ustring option"
  i_author :: "ustring option"
  i_urlToImage :: "ustring option"
  i_enclosureUrl :: "ustring option"
  i_enclosureUrlFlat :: "ustring option"
  i_mediaContentUrl :: "ustring option"
  i_mediaNestedUrl :: "ustring option"
  i_mediaContentUrlFlat :: "ustring option"
  i_thumbnail :: "ustring option"
  i_image :: "ustring option"

record feed =
  feed_items :: "item list option"

text \<open>\<open>s_oid\<close> is \<open>source._id\<close>, \<open>s_id\<close> is \<open>source.id\<close>.\<close>

record source =
  s_oid :: "ustring option"
  s_id :: "ustring option"
  s_name :: "ustring option"
  s_url :: "ustring option"
  s_rssUrls :: "ustring list option"
  s_type :: "ustring option"
  s_apiUrl :: "ustring option"
  s_categories :: "ustring list option"
  s_lang :: "ustring option"

record og_data =
  og_image :: "ustring option"
  og_title :: "ustring option"
  og_description :: "ustring option"

definition emptyOg :: og_data where
  "emptyOg = \<lparr> og_image = None, og_title = None, og_description = None \<rparr>"

record img_element =
  el_src :: "ustring option"
  el_dataSrc :: "ustring option"
  el_alt :: "ustring option"
  el_width :: "ustring option"
  el_height :: "ustring option"

record scraped =
  sc_title :: ustring
  sc_summary :: ustring
  sc_content :: ustring
  sc_images :: "image list"
  sc_category :: ustring
  sc_tags :: "ustring list"
  sc_author :: "ustring option"
  sc_lang :: ustring
  sc_sourceUrl :: ustring
  sc_publishedAt :: jsnum
  sc_hash :: ustring
  sc_openGraph :: og_data

text \<open>
  What the service does to the outside is recorded, in order, in a trace. The outside
  answers through oracles, which are parameters: the clock, the network, the feed parser,
  the HTML parser, the URL resolver, \<open>slugify\<close>, the validation of the \<open>Article\<close> schema
  (which is not among the sources) and the faults of the database connection. An oracle
  that can answer differently from one call to the next takes the number of events so
  far.
\<close>

datatype event =
    ClockRead
  | FindSources
  | UpdateSource "ustring option"
  | FindOneByHash ustring
  | FindOneByUrl ustring
  | FindOneBySlug ustring
  | Create article
  | ParseURL ustring
  | HttpGet ustring "ustring option" ustring

record env =
  e_unicode :: unicode
  e_now :: "nat \<Rightarrow> nat"
  e_parseDate :: "ustring \<Rightarrow> jsnum"
  e_slugify :: "ustring \<Rightarrow> ustring"
  e_activeSources :: "nat \<Rightarrow> error + source list"
  e_dbFault :: "nat \<Rightarrow> bool"
  e_rejects :: "article list \<Rightarrow> article \<Rightarrow> error option"
  e_parseURL :: "nat \<Rightarrow> ustring \<Rightarrow> error + feed"
  e_parseString :: "ustring \<Rightarrow> error + feed"
  e_httpGet :: "nat \<Rightarrow> ustring \<Rightarrow> error + ustring"
  e_apiGet :: "nat \<Rightarrow> ustring \<Rightarrow> error + item list option"
  e_metaTags :: "ustring \<Rightarrow> error + og_data"
  e_selectImages :: "ustring \<Rightarrow> ustring \<Rightarrow> error + img_element list"
  e_containerText :: "ustring \<Rightarrow> error + ustring"
  e_resolveUrl :: "ustring \<Rightarrow> ustring \<Rightarrow> ustring option"
  e_timedOut :: "nat \<Rightarrow> bool"

record world =
  w_articles :: "article list"
  w_module :: module_state
  w_trace :: "event list"

type_synonym 'a io = "world \<Rightarrow> (error + 'a) \<times> world"

definition ret :: "'a \<Rightarrow> 'a io" where
  "ret a w = (Inr a, w)"

definition throwError :: "error \<Rightarrow> 'a io" where
  "throwError e w = (Inl e, w)"

definition andThen :: "'a io \<Rightarrow> ('a \<Rightarrow> 'b io) \<Rightarrow> 'b io" where
  "andThen m f w = (case m w of (Inl e, w1) \<Rightarrow> (Inl e, w1) | (Inr a, w1) \<Rightarrow> f a w1)"

definition tryCatch :: "'a io \<Rightarrow> (error \<Rightarrow> 'a io) \<Rightarrow> 'a io" where
  "tryCatch m handler w = (case m w of (Inl e, w1) \<Rightarrow> handler e w1 | (Inr a, w1) \<Rightarrow> (Inr a, w1))"

definition tick :: "world \<Rightarrow> nat" where
  "tick w = length (w_trace w)"

definition emit :: "event \<Rightarrow> world \<Rightarrow> world" where
  "emit ev w = w\<lparr> w_trace := w_trace w @ [ev] \<rparr>"

definition dateNow :: "env \<Rightarrow> world \<Rightarrow> nat \<times> world" where
  "dateNow env w = (e_now env (tick w), emit ClockRead w)"

definition dbError :: error where
  "dbError = OtherError (u ''database operation failed'')"

definition findOneByHash :: "env \<Rightarrow> ustring \<Rightarrow> article option io" where
  "findOneByHash env hash w =
     (if e_dbFault env (tick w) then Inl dbError
      else Inr (find (\<lambda>a. art_hash a = hash) (w_articles w)),
      emit (FindOneByHash hash) w)"

definition findOneByUrl :: "env \<Rightarrow> ustring \<Rightarrow> article option io" where
  "findOneByUrl env canonicalUrl w =
     (if e_dbFault env (tick w) then Inl dbError
      else Inr (find (\<lambda>a. art_canonicalUrl a = canonicalUrl) (w_articles w)),
      emit (FindOneByUrl canonicalUrl) w)"

definition findOneBySlug :: "env \<Rightarrow> ustring \<Rightarrow> article option io" where
  "findOneBySlug env slug w =
     (if e_dbFault env (tick w) then Inl dbError
      else Inr (find (\<lambda>a. art_slug a = slug) (w_articles w)),
      emit (FindOneBySlug slug) w)"

definition Article_create :: "env \<Rightarrow> article \<Rightarrow> article io" where
  "Article_create env doc w =
     (if e_dbFault env (tick w) then (Inl dbError, emit (Create doc) w)
      else case e_rejects env (w_articles w) doc of
        Some e \<Rightarrow> (Inl e, emit (Create doc) w)
      | None \<Rightarrow> (Inr doc, (emit (Create doc) w)\<lparr> w_articles := w_articles w @ [doc] \<rparr>))"

text \<open>\<open>createAxiosInstance\<close> draws the next identity, and the next proxy when asked to.\<close>

definition createAxiosInstance ::
    "scraping_service \<Rightarrow> bool \<Rightarrow> world \<Rightarrow> (ustring option \<times> proxy option) \<times> world" where
  "createAxiosInstance this useProxy w =
     (let (userAgent, m1) = getNextUserAgent this (w_module w) in
      if useProxy \<and> length PROXY_LIST > 0
      then (let (proxy, m2) = getNextProxy this m1 in ((userAgent, proxy), w\<lparr> w_module := m2 \<rparr>))
      else ((userAgent, None), w\<lparr> w_module := m1 \<rparr>))"

text \<open>A request carries the identity of the instance and an \<open>Accept\<close> header.\<close>

definition acceptHtml :: ustring where
  "acceptHtml = u ''text/html,application/xhtml+xml,application/xml;q=0.9,image/webp,*/*;q=0.8''"

definition acceptFeed :: ustring where
  "acceptFeed = u ''application/rss+xml, application/xml, text/xml;q=0.9,*/*;q=0.8''"

definition axiosGet ::
    "env \<Rightarrow> ustring option \<times> proxy option \<Rightarrow> ustring \<Rightarrow> ustring \<Rightarrow> ustring io" where
  "axiosGet env instance url accept w =
     (e_httpGet env (tick w) url, emit (HttpGet url (fst instance) accept) w)"

text \<open>
  \<open>rateLimit\<close> reads the clock twice and records the time of the request; the wait in
  between changes nothing else. \<open>retryRequest\<close> makes up to \<open>maxRetries\<close> attempts and
  gives up at once on an error that is not retryable.
\<close>

definition rateLimit :: "env \<Rightarrow> world \<Rightarrow> world" where
  "rateLimit env w =
     (let (now, w1) = dateNow env w;
          (now', w2) = dateNow env w1
      in w2\<lparr> w_module := (w_module w2)\<lparr> lastRequestTime := now' \<rparr> \<rparr>)"

definition isRetryableError :: "error \<Rightarrow> bool" where
  "isRetryableError e =
     (case e of
        HttpError status \<Rightarrow> status \<ge> 500 \<or> status = 429
      | NetworkError code \<Rightarrow> code = u ''ECONNRESET'' \<or> code = u ''ETIMEDOUT''
      | _ \<Rightarrow> False)"

fun retryAttempts :: "env \<Rightarrow> nat \<Rightarrow> 'a io \<Rightarrow> 'a io" where
  "retryAttempts env 0 requestFn w = (Inl (OtherError (u ''Max retries exceeded'')), w)"
| "retryAttempts env (Suc remaining) requestFn w =
     (case requestFn (rateLimit env w) of
        (Inr a, w1) \<Rightarrow> (Inr a, w1)
      | (Inl e, w1) \<Rightarrow>
          if remaining = 0 \<or> \<not> isRetryableError e then (Inl e, w1)
          else retryAttempts env remaining requestFn w1)"

definition retryRequest :: "env \<Rightarrow> 'a io \<Rightarrow> 'a io" where
  "retryRequest env requestFn = retryAttempts env 3 requestFn"

definition fetchArticleContent :: "env \<Rightarrow> scraping_service \<Rightarrow> ustring \<Rightarrow> ustring io" where
  "fetchArticleContent env this url =
     tryCatch
       (retryRequest env
          (\<lambda>w. let (axiosInstance, w1) = createAxiosInstance this False w
               in axiosGet env axiosInstance url acceptHtml w1))
       (\<lambda>err. ret [])"

definition extractOpenGraphFromHtml :: "env \<Rightarrow> ustring \<Rightarrow> og_data" where
  "extractOpenGraphFromHtml env html =
     (case e_metaTags env html of Inl e \<Rightarrow> emptyOg | Inr og \<Rightarrow> og)"

definition extractOpenGraphData :: "env \<Rightarrow> scraping_service \<Rightarrow> ustring \<Rightarrow> og_data io" where
  "extractOpenGraphData env this url =
     tryCatch
       (retryRequest env
          (\<lambda>w. let (axiosInstance, w1) = createAxiosInstance this False w
               in andThen (axiosGet env axiosInstance url acceptHtml)
                    (\<lambda>data. case e_metaTags env data of
                               Inl e \<Rightarrow> throwError e
                             | Inr og \<Rightarrow> ret og) w1))
       (\<lambda>err. ret emptyOg)"

text \<open>\<open>extractImages\<close> (lines 611--668).\<close>

definition articleSelectors :: "ustring list" where
  "articleSelectors =
     [u ''article img'', u ''[itemprop=\"articleBody\"] img'', u ''.article-content img'',
      u ''.post-content img'', u ''.entry-content img'', u ''main img'']"

definition imageOfElement :: "env \<Rightarrow> ustring \<Rightarrow> img_element \<Rightarrow> image list" where
  "imageOfElement env baseUrl el =
     (let src = orElse (el_src el) (el_dataSrc el);
          alt = orString (el_alt el) (u ''Article image'');
          width = parseInt (orString (el_width el) (u ''0''));
          height = parseInt (orString (el_height el) (u ''0''))
      in case src of
           None \<Rightarrow> []
         | Some s \<Rightarrow>
             if s \<noteq> [] \<and> isValidArticleImage (e_unicode env) s alt width height
             then (case (if startsWith s (u ''http'') then Some s else e_resolveUrl env s baseUrl) of
                     None \<Rightarrow> []
                   | Some fullUrl \<Rightarrow>
                       [\<lparr> img_url = fullUrl, img_alt = alt, img_caption = None,
                          img_width = Some width, img_height = Some height,
                          img_source = Some (u ''scraped'') \<rparr>])
             else [])"

fun selectorLoop :: "env \<Rightarrow> ustring \<Rightarrow> ustring \<Rightarrow> ustring list \<Rightarrow> error + image list" where
  "selectorLoop env html baseUrl [] = Inr []"
| "selectorLoop env html baseUrl (selector # rest) =
     (case e_selectImages env html selector of
        Inl e \<Rightarrow> Inl e
      | Inr els \<Rightarrow>
          (let images = concat (map (imageOfElement env baseUrl) els) in
           if images \<noteq> [] then Inr images else selectorLoop env html baseUrl rest))"

definition dedupeByUrl :: "image list \<Rightarrow> image list" where
  "dedupeByUrl images =
     map (\<lambda>key. last (filter (\<lambda>img. img_url img = key) images))
       (uniqueInOrder [] (map img_url images))"

definition looksLikePlaceholderUrl :: "ustring \<Rightarrow> bool" where
  "looksLikePlaceholderUrl url =
     (list_ex (includesIgnoreCase url)
        [u ''placeholder'', u ''default'', u ''sprite'', u ''spacer'', u ''1x1''])"

definition extractImages :: "env \<Rightarrow> ustring \<Rightarrow> ustring \<Rightarrow> error + image list" where
  "extractImages env html baseUrl =
     (case selectorLoop env html baseUrl articleSelectors of
        Inl e \<Rightarrow> Inl e
      | Inr found \<Rightarrow>
          (case (if found = [] then
                   (case e_selectImages env html (u ''img'') of
                      Inl e \<Rightarrow> Inl e
                    | Inr els \<Rightarrow> Inr (concat (map (imageOfElement env baseUrl) els)))
                 else Inr found) of
             Inl e \<Rightarrow> Inl e
           | Inr images \<Rightarrow>
               Inr (take 5
                  (filter (\<lambda>img. \<not> looksLikePlaceholderUrl (img_url img)
                       \<and> \<not> (includesStr (toLowerCase (e_unicode env) (img_url img)) (u ''google'')
                            \<and> includesStr (toLowerCase (e_unicode env) (img_url img)) (u ''preferred'')))
                     (dedupeByUrl images)))))"

text \<open>\<open>cleanContent\<close> (lines 762--811): the text of the content container, white space collapsed, at most 5000 units.\<close>

definition cleanContent :: "env \<Rightarrow> ustring \<Rightarrow> error + ustring" where
  "cleanContent env html =
     (if html = [] then Inr []
      else case e_containerText env html of
        Inl e \<Rightarrow> Inl e
      | Inr content \<Rightarrow> Inr (take 5000 (trim (collapseSpace content))))"

text \<open>\<open>generateHash\<close> (lines 706--708).\<close>

definition generateHash :: "ustring \<Rightarrow> ustring" where
  "generateHash content = sha256Hex content"

text \<open>\<open>scrapeArticle\<close> (lines 431--518).\<close>

definition rssImage :: "env \<Rightarrow> item \<Rightarrow> ustring \<Rightarrow> ustring \<Rightarrow> image list" where
  "rssImage env item title link =
     (let enclosureUrl = orElse (orElse (i_enclosureUrl item) (i_enclosureUrl item)) (i_enclosureUrlFlat item);
          mediaContent = orElse (orElse (i_mediaContentUrl item) (i_mediaNestedUrl item))
                           (i_mediaContentUrlFlat item);
          thumb = orElse (i_thumbnail item) (i_image item);
          rssImg = orElse (orElse enclosureUrl mediaContent) thumb
      in case rssImg of
           None \<Rightarrow> []
         | Some r \<Rightarrow>
             if r \<noteq> [] \<and> isValidArticleImage (e_unicode env) r title (Num 0) (Num 0)
             then (case (if startsWith r (u ''http'') then Some r else e_resolveUrl env r link) of
                     None \<Rightarrow> []
                   | Some fullUrl \<Rightarrow>
                       [\<lparr> img_url = fullUrl, img_alt = title, img_caption = None,
                          img_width = None, img_height = None, img_source = Some (u ''rss'') \<rparr>])
             else [])"

definition apiImage :: "item \<Rightarrow> ustring \<Rightarrow> image list" where
  "apiImage item title =
     (case i_urlToImage item of
        None \<Rightarrow> []
      | Some url \<Rightarrow>
          if url = [] then []
          else [\<lparr> img_url = url, img_alt = title, img_caption = None,
                  img_width = None, img_height = None, img_source = Some (u ''api'') \<rparr>])"

definition openGraphImage :: "env \<Rightarrow> og_data \<Rightarrow> ustring \<Rightarrow> image list" where
  "openGraphImage env openGraphData title =
     (case og_image openGraphData of
        None \<Rightarrow> []
      | Some ogImage \<Rightarrow>
          if ogImage = [] then []
          else (let ogLower = toLowerCase (e_unicode env) ogImage;
                    looksLikePlaceholder =
                      (includesStr ogLower (u ''logo'') \<or> includesStr ogLower (u ''icon'')
                       \<or> includesStr ogLower (u ''placeholder'') \<or> includesStr ogLower (u ''default'')
                       \<or> (includesStr ogLower (u ''google'') \<and> includesStr ogLower (u ''preferred'')))
                in if looksLikePlaceholder then []
                   else [\<lparr> img_url = ogImage, img_alt = title,
                           img_caption = Some (u ''Open Graph image''),
                           img_width = None, img_height = None,
                           img_source = Some (u ''opengraph'') \<rparr>]))"

definition itemTitle :: "item \<Rightarrow> ustring" where
  "itemTitle item = orString (i_title item) []"

definition itemLink :: "item \<Rightarrow> ustring" where
  "itemLink item = orString (orElse (i_link item) (i_url item)) []"

definition itemSummary :: "item \<Rightarrow> ustring" where
  "itemSummary item =
     orString (orElse (orElse (i_contentSnippet item) (i_description item)) (i_content item)) []"

definition itemPublishedAt :: "env \<Rightarrow> item \<Rightarrow> world \<Rightarrow> jsnum \<times> world" where
  "itemPublishedAt env item w =
     (case (if truthy (i_pubDate item) then i_pubDate item
            else if truthy (i_publishedAt item) then i_publishedAt item else None) of
        Some d \<Rightarrow> (e_parseDate env d, w)
      | None \<Rightarrow> (let (now, w1) = dateNow env w in (Num (int now), w1)))"

definition isFastMode :: "ustring option \<Rightarrow> bool" where
  "isFastMode mode = (mode = Some (u ''fast''))"

definition finishArticle ::
    "env \<Rightarrow> item \<Rightarrow> source \<Rightarrow> bool \<Rightarrow> ustring \<Rightarrow> ustring \<Rightarrow> ustring \<Rightarrow> jsnum \<Rightarrow> ustring
       \<Rightarrow> ustring \<Rightarrow> og_data \<Rightarrow> image list \<Rightarrow> scraped option io" where
  "finishArticle env item source fastMode title link summary publishedAt hash fullContent
       openGraphData scrapedImages =
     (let images1 = scrapedImages;
          images2 = (if images1 = [] then rssImage env item title link else images1);
          images3 = (if images2 = [] \<and> truthy (i_urlToImage item) then apiImage item title else images2);
          images = (if \<not> fastMode \<and> images3 = [] \<and> truthy (og_image openGraphData)
                    then openGraphImage env openGraphData title else images3);
          category = determineCategory (e_unicode env) title summary (s_categories source);
          tags = extractTags (e_unicode env) title summary fullContent
      in case (if fastMode then Inr (take 1000 summary) else cleanContent env fullContent) of
           Inl e \<Rightarrow> throwError e
         | Inr content \<Rightarrow>
             ret (Some \<lparr> sc_title = title,
                          sc_summary = take 300 summary,
                          sc_content = content,
                          sc_images = images,
                          sc_category = categoryOrGeneral category,
                          sc_tags = tags,
                          sc_author = orElse (orElse (i_author item) (extractAuthor fullContent))
                                        (s_name source),
                          sc_lang = orString (s_lang source) (u ''en''),
                          sc_sourceUrl = link,
                          sc_publishedAt = publishedAt,
                          sc_hash = hash,
                          sc_openGraph = openGraphData \<rparr>))"

text \<open>What \<open>scrapeArticle\<close> does once the hash lookup has found no article (lines 453--512).\<close>

definition afterLookup ::
    "env \<Rightarrow> scraping_service \<Rightarrow> item \<Rightarrow> source \<Rightarrow> bool \<Rightarrow> ustring \<Rightarrow> ustring \<Rightarrow> ustring
       \<Rightarrow> jsnum \<Rightarrow> ustring \<Rightarrow> scraped option io" where
  "afterLookup env this item source fastMode title link summary publishedAt hash =
     andThen
       (if fastMode \<or> s_type source = Some (u ''api'') then ret []
        else fetchArticleContent env this link)
       (\<lambda>fullContent.
          andThen
            (if fastMode then ret emptyOg
             else if fullContent \<noteq> []
             then ret (extractOpenGraphFromHtml env fullContent)
             else extractOpenGraphData env this link)
            (\<lambda>openGraphData.
               case (if \<not> fastMode \<and> fullContent \<noteq> []
                     then extractImages env fullContent link else Inr []) of
                 Inl e \<Rightarrow> throwError e
               | Inr scrapedImages \<Rightarrow>
                   finishArticle env item source fastMode title link summary
                     publishedAt hash fullContent openGraphData scrapedImages))"

definition scrapeArticleTry ::
    "env \<Rightarrow> scraping_service \<Rightarrow> item \<Rightarrow> source \<Rightarrow> ustring option \<Rightarrow> scraped option io" where
  "scrapeArticleTry env this item source mode w0 =
     (let title = itemTitle item;
          link = itemLink item;
          summary = itemSummary item;
          (publishedAt, w) = itemPublishedAt env item w0
      in if title = [] \<or> link = [] then (Inr None, w)
         else case s_id source of
           None \<Rightarrow> (Inl TypeError, w)
         | Some sourceId \<Rightarrow>
             (let hash = generateHash (title @ summary @ sourceId)
              in andThen (findOneByHash env hash)
                   (\<lambda>existing.
                      if existing \<noteq> None then ret None
                      else afterLookup env this item source (isFastMode mode) title link summary
                             publishedAt hash)
                   w))"

definition scrapeArticle ::
    "env \<Rightarrow> scraping_service \<Rightarrow> item \<Rightarrow> source \<Rightarrow> ustring option \<Rightarrow> scraped option io" where
  "scrapeArticle env this item source mode =
     tryCatch (scrapeArticleTry env this item source mode) (\<lambda>err. ret None)"

text \<open>
  \<open>scrapeSource\<close> (lines 345--429). The feed is read inside \<open>retryRequest\<close>: the structured
  parse of the URL first and, when that throws, a plain request for the document and the
  parse of its text. Each item is scraped in a race against a timer; the scrape is not
  cancelled when the timer wins, so its effects stay and only its result is dropped.
\<close>

definition parseURL :: "env \<Rightarrow> ustring \<Rightarrow> feed io" where
  "parseURL env url w = (e_parseURL env (tick w) url, emit (ParseURL url) w)"

definition fetchFeed :: "env \<Rightarrow> scraping_service \<Rightarrow> ustring \<Rightarrow> feed io" where
  "fetchFeed env this rssUrl =
     retryRequest env
       (tryCatch (parseURL env rssUrl)
          (\<lambda>e w. let (axiosInstance, w1) = createAxiosInstance this False w
                  in andThen (axiosGet env axiosInstance rssUrl acceptFeed)
                       (\<lambda>data w2. (e_parseString env data, w2)) w1))"

definition feedItems :: "feed \<Rightarrow> item list" where
  "feedItems feed = (case feed_items feed of None \<Rightarrow> [] | Some items \<Rightarrow> items)"

definition scrapeWithTimeout ::
    "env \<Rightarrow> scraping_service \<Rightarrow> item \<Rightarrow> source \<Rightarrow> ustring option \<Rightarrow> world
       \<Rightarrow> scraped option \<times> world" where
  "scrapeWithTimeout env this item source mode w =
     (case scrapeArticle env this item source mode w of
        (Inl e, w1) \<Rightarrow> (None, w1)
      | (Inr r, w1) \<Rightarrow> (if e_timedOut env (tick w) then None else r, w1))"

fun scrapeItems ::
    "env \<Rightarrow> scraping_service \<Rightarrow> source \<Rightarrow> ustring option \<Rightarrow> item list \<Rightarrow> world
       \<Rightarrow> scraped list \<times> world" where
  "scrapeItems env this source mode [] w = ([], w)"
| "scrapeItems env this source mode (item # items) w =
     (let (r, w1) = scrapeWithTimeout env this item source mode w;
          (rest, w2) = scrapeItems env this source mode items w1
      in ((case r of None \<Rightarrow> [] | Some a \<Rightarrow> [a]) @ rest, w2))"

record source_meta =
  m_rssUrls :: nat
  m_rssFetched :: nat
  m_rssFailed :: nat
  m_itemsSeen :: nat

fun scrapeFeeds ::
    "env \<Rightarrow> scraping_service \<Rightarrow> source \<Rightarrow> ustring option \<Rightarrow> ustring list \<Rightarrow> world
       \<Rightarrow> (scraped list \<times> nat \<times> nat \<times> nat) \<times> world" where
  "scrapeFeeds env this source mode [] w = (([], 0, 0, 0), w)"
| "scrapeFeeds env this source mode (rssUrl # rssUrls) w =
     (case fetchFeed env this rssUrl w of
        (Inl e, w1) \<Rightarrow>
          (let ((articles, rssFetched, rssFailed, itemsSeen), w2) =
                 scrapeFeeds env this source mode rssUrls w1
           in ((articles, rssFetched, rssFailed + 1, itemsSeen), w2))
      | (Inr feed, w1) \<Rightarrow>
          (let items = feedItems feed;
               (found, w2) = scrapeItems env this source mode items w1;
               ((articles, rssFetched, rssFailed, itemsSeen), w3) =
                 scrapeFeeds env this source mode rssUrls w2
           in ((found @ articles, rssFetched + 1, rssFailed, itemsSeen + length items), w3)))"

definition apiRequest :: "env \<Rightarrow> scraping_service \<Rightarrow> ustring \<Rightarrow> item list option io" where
  "apiRequest env this apiUrl =
     retryRequest env
       (\<lambda>w. let (axiosInstance, w1) = createAxiosInstance this False w
            in (e_apiGet env (tick w1) apiUrl, emit (HttpGet apiUrl (fst axiosInstance) acceptHtml) w1))"

definition scrapeApi ::
    "env \<Rightarrow> scraping_service \<Rightarrow> source \<Rightarrow> ustring option \<Rightarrow> world \<Rightarrow> scraped list \<times> world" where
  "scrapeApi env this source mode w =
     (case s_apiUrl source of
        None \<Rightarrow> ([], w)
      | Some apiUrl \<Rightarrow>
          if s_type source = Some (u ''api'') \<and> apiUrl \<noteq> []
          then (case apiRequest env this apiUrl w of
                  (Inl e, w1) \<Rightarrow> ([], w1)
                | (Inr articles, w1) \<Rightarrow>
                    scrapeItems env this source mode
                      (case articles of None \<Rightarrow> [] | Some items \<Rightarrow> items) w1)
          else ([], w))"

definition sourceRssUrls :: "source \<Rightarrow> ustring list" where
  "sourceRssUrls source = (case s_rssUrls source of None \<Rightarrow> [] | Some urls \<Rightarrow> urls)"

definition scrapeSource ::
    "env \<Rightarrow> scraping_service \<Rightarrow> source \<Rightarrow> ustring option \<Rightarrow> world
       \<Rightarrow> (scraped list \<times> source_meta) \<times> world" where
  "scrapeSource env this source mode w =
     (let ((feedArticles, rssFetched, rssFailed, itemsSeen), w1) =
            scrapeFeeds env this source mode (sourceRssUrls source) w;
          (apiArticles, w2) = scrapeApi env this source mode w1
      in ((feedArticles @ apiArticles,
           \<lparr> m_rssUrls = length (sourceRssUrls source), m_rssFetched = rssFetched,
             m_rssFailed = rssFailed, m_itemsSeen = itemsSeen \<rparr>), w2))"

text \<open>
  The slug of a new article (lines 250--259): the slug of the title, and while an article
  with the candidate slug exists, the base slug followed by the time and a counter.
\<close>

lemma dec_bound: "n < 10 ^ length (dec n)"
proof (induction n rule: dec.induct)
  case (1 n)
  show ?case
  proof (cases "n < 10")
    case True
    then show ?thesis by (simp add: dec.simps [of n])
  next
    case False
    then have "n div 10 < 10 ^ length (dec (n div 10))" using 1 by simp
    then have "n < 10 * 10 ^ length (dec (n div 10))" by simp
    with False show ?thesis by (simp add: dec.simps [of n])
  qed
qed

definition maxLength :: "ustring list \<Rightarrow> nat" where
  "maxLength xs = foldr (\<lambda>x m. max (length x) m) xs 0"

lemma maxLength_ge: "x \<in> set xs \<Longrightarrow> length x \<le> maxLength xs"
  by (induction xs) (auto simp: maxLength_def)

definition slugCandidate :: "ustring \<Rightarrow> nat \<Rightarrow> nat \<Rightarrow> ustring" where
  "slugCandidate baseSlug now slugSuffix = baseSlug @ u ''-'' @ dec now @ u ''-'' @ dec slugSuffix"

lemma slugCandidate_bound:
  assumes "slugCandidate baseSlug now slugSuffix \<in> set slugs"
  shows "slugSuffix < 10 ^ maxLength slugs"
proof -
  have "length (dec slugSuffix) \<le> length (slugCandidate baseSlug now slugSuffix)"
    by (simp add: slugCandidate_def)
  also have "\<dots> \<le> maxLength slugs" using assms by (rule maxLength_ge)
  finally have "length (dec slugSuffix) \<le> maxLength slugs" .
  then have "(10::nat) ^ length (dec slugSuffix) \<le> 10 ^ maxLength slugs"
    by (rule power_increasing) simp
  with dec_bound [of slugSuffix] show ?thesis by (rule less_le_trans)
qed

lemma find_SomeD: "find P xs = Some x \<Longrightarrow> x \<in> set xs \<and> P x"
  by (induction xs) (auto split: if_splits)

function slugLoop :: "env \<Rightarrow> ustring \<Rightarrow> nat \<Rightarrow> ustring io" where
  "slugLoop env baseSlug slugSuffix w =
     (case findOneBySlug env (slugCandidate baseSlug (fst (dateNow env w)) slugSuffix)
             (snd (dateNow env w)) of
        (Inl e, w2) \<Rightarrow> (Inl e, w2)
      | (Inr None, w2) \<Rightarrow> (Inr (slugCandidate baseSlug (fst (dateNow env w)) slugSuffix), w2)
      | (Inr (Some slugCollision), w2) \<Rightarrow> slugLoop env baseSlug (slugSuffix + 1) w2)"
  by pat_completeness auto
termination
proof (relation "measure (\<lambda>(env, baseSlug, slugSuffix, w).
    10 ^ maxLength (map art_slug (w_articles w)) - slugSuffix)", goal_cases)
  case 1
  then show ?case by simp
next
  case (2 env baseSlug slugSuffix w x1 w2 x2 slugCollision)
  let ?slug = "slugCandidate baseSlug (fst (dateNow env w)) slugSuffix"
  from 2 have found: "find (\<lambda>a. art_slug a = ?slug) (w_articles w) = Some slugCollision"
    and same: "w_articles w2 = w_articles w"
    by (auto simp: findOneBySlug_def dateNow_def emit_def split: if_splits)
  from found have "?slug \<in> set (map art_slug (w_articles w))"
    using find_SomeD [OF found] by force
  then have "slugSuffix < 10 ^ maxLength (map art_slug (w_articles w))"
    by (rule slugCandidate_bound)
  with same show ?case by simp
qed

declare slugLoop.simps [simp del]

definition resolveSlug :: "env \<Rightarrow> ustring \<Rightarrow> ustring io" where
  "resolveSlug env baseSlug =
     andThen (findOneBySlug env baseSlug)
       (\<lambda>slugCollision. case slugCollision of
            None \<Rightarrow> ret baseSlug
          | Some a \<Rightarrow> slugLoop env baseSlug 1)"

text \<open>The document handed to \<open>Article.create\<close> (lines 260--282).\<close>

definition countWords :: "ustring \<Rightarrow> nat" where
  "countWords content = length (runs (\<lambda>c. \<not> isSpace c) content)"

definition firstTruthy :: "ustring list \<Rightarrow> ustring" where
  "firstTruthy xs = (case filter (\<lambda>s. s \<noteq> []) xs of [] \<Rightarrow> [] | s # rest \<Rightarrow> s)"

definition newArticle :: "source \<Rightarrow> scraped \<Rightarrow> ustring \<Rightarrow> nat \<Rightarrow> article" where
  "newArticle source scraped slug scrapedAt =
     (let wc = countWords (sc_content scraped) in
      \<lparr> art_title = sc_title scraped,
        art_slug = slug,
        art_summary = take 300 (sc_summary scraped),
        art_content = sc_content scraped,
        art_images = sc_images scraped,
        art_category = None,
        art_categories = (if sc_category scraped \<noteq> [] then [sc_category scraped] else []),
        art_categoryDetected = (if sc_category scraped \<noteq> [] then Some (sc_category scraped) else None),
        art_tags = sc_tags scraped,
        art_author = orElse (sc_author scraped) (s_name source),
        art_language = orString (s_lang source) (u ''en''),
        art_sourceName = s_name source,
        art_sourceUrl = s_url source,
        art_sourceId = s_oid source,
        art_status = u ''scraped'',
        art_publishedAt = sc_publishedAt scraped,
        art_scrapedAt = scrapedAt,
        art_canonicalUrl = sc_sourceUrl scraped,
        art_thumbnail = (case sc_images scraped of [] \<Rightarrow> None | img # rest \<Rightarrow> Some (img_url img)),
        art_wordCount = wc,
        art_readingTime = (if (wc + 199) div 200 = 0 then 1 else (wc + 199) div 200),
        art_metaDescription =
          take 160 (firstTruthy [sc_summary scraped, sc_content scraped, sc_title scraped]),
        art_hash = sc_hash scraped \<rparr>)"

text \<open>The base slug (line 250): \<open>slugify\<close> of the title, of \<open>untitled\<close> without one.\<close>

definition baseSlugOf :: "env \<Rightarrow> scraped \<Rightarrow> ustring" where
  "baseSlugOf env scraped =
     e_slugify env (if sc_title scraped \<noteq> [] then sc_title scraped else u ''untitled'')"

text \<open>
  One round of the insertion loop of \<open>scrapeAllSources\<close> (lines 232--287). The result says
  whether the article was inserted; whatever is thrown inside is caught and logged.
\<close>

definition insertTry :: "env \<Rightarrow> source \<Rightarrow> scraped \<Rightarrow> bool io" where
  "insertTry env source scraped =
     (if sc_sourceUrl scraped = [] then ret False
      else if \<not> truthy (s_oid source) then ret False
      else andThen (findOneByUrl env (sc_sourceUrl scraped))
             (\<lambda>existingByUrl.
                if existingByUrl \<noteq> None then ret False
                else andThen (resolveSlug env (baseSlugOf env scraped))
                       (\<lambda>slug w.
                          let (scrapedAt, w1) = dateNow env w
                          in andThen (Article_create env (newArticle source scraped slug scrapedAt))
                               (\<lambda>created. ret True) w1)))"

definition insertScraped :: "env \<Rightarrow> source \<Rightarrow> scraped \<Rightarrow> world \<Rightarrow> bool \<times> world" where
  "insertScraped env source scraped w =
     (case insertTry env source scraped w of
        (Inl e, w1) \<Rightarrow> (False, w1)
      | (Inr inserted, w1) \<Rightarrow> (inserted, w1))"

fun insertAll :: "env \<Rightarrow> source \<Rightarrow> scraped list \<Rightarrow> world \<Rightarrow> nat \<times> world" where
  "insertAll env source [] w = (0, w)"
| "insertAll env source (scraped # articles) w =
     (let (inserted, w1) = insertScraped env source scraped w;
          (insertedCount, w2) = insertAll env source articles w1
      in ((if inserted then 1 else 0) + insertedCount, w2))"

text \<open>
  \<open>scrapeAllSources\<close> (lines 203--343). The active sources are taken five at a time; the
  sources of a batch are scraped first (against the store as it is then), and their
  articles inserted afterwards, source by source. \<open>scrapeSource\<close> catches what it throws,
  so every source of a batch is fulfilled. An error outside the loops (listing the
  sources, updating \<open>lastScraped\<close>) ends the run with no articles and the error as its
  statistics.

  The code starts the sources of a batch together (\<open>Promise.allSettled\<close>) and lets them
  interleave wherever one of them awaits; \<open>scrapeBatch\<close> runs them one after another. The
  difference is in the order of the events of a batch, and so in which answer of the
  outside a request meets and which identity it carries. Scraping writes nothing to the
  store, and the insertion loop that follows is sequential in the code as well.
\<close>

definition SOURCE_BATCH_SIZE :: nat where
  "SOURCE_BATCH_SIZE = 5"

function batches :: "nat \<Rightarrow> 'a list \<Rightarrow> 'a list list" where
  "batches n xs = (if n = 0 \<or> xs = [] then [] else take n xs # batches n (drop n xs))"
  by pat_completeness auto
termination
  by (relation "measure (\<lambda>(n, xs). length xs)") auto

declare batches.simps [simp del]

record per_source =
  ps_sourceId :: "ustring option"
  ps_name :: "ustring option"
  ps_rssUrls :: nat
  ps_rssFetched :: nat
  ps_rssFailed :: nat
  ps_itemsSeen :: nat
  ps_scrapedOk :: nat
  ps_inserted :: nat

record run_state =
  rs_allArticles :: "scraped list"
  rs_successCount :: nat
  rs_failCount :: nat
  rs_perSource :: "per_source list"

record stats =
  st_sources :: nat
  st_success :: nat
  st_failed :: nat
  st_itemsSeen :: nat
  st_scrapedOk :: nat
  st_inserted :: nat
  st_perSource :: "per_source list"

fun scrapeBatch ::
    "env \<Rightarrow> scraping_service \<Rightarrow> ustring option \<Rightarrow> source list \<Rightarrow> world
       \<Rightarrow> (source \<times> scraped list \<times> source_meta) list \<times> world" where
  "scrapeBatch env this mode [] w = ([], w)"
| "scrapeBatch env this mode (source # rest) w =
     (let ((articles, meta), w1) = scrapeSource env this source mode w;
          (results, w2) = scrapeBatch env this mode rest w1
      in ((source, articles, meta) # results, w2))"

text \<open>
  \<open>Source.findByIdAndUpdate(source._id, { lastScraped: new Date() })\<close> (lines 292--294): the
  clock is read for the argument, then the update is sent.
\<close>

definition updateLastScraped :: "env \<Rightarrow> source \<Rightarrow> unit io" where
  "updateLastScraped env source w =
     (let (lastScraped, w1) = dateNow env w
      in (if e_dbFault env (tick w1) then Inl dbError else Inr (),
          emit (UpdateSource (s_oid source)) w1))"

definition recordSource ::
    "env \<Rightarrow> source \<times> scraped list \<times> source_meta \<Rightarrow> run_state \<Rightarrow> run_state io" where
  "recordSource env result st w =
     (case result of (source, articles, meta) \<Rightarrow>
        (let (insertedCount, w1) = insertAll env source articles w;
             st1 = st\<lparr> rs_allArticles := rs_allArticles st @ articles,
                       rs_successCount := rs_successCount st + 1 \<rparr>
         in andThen (updateLastScraped env source)
              (\<lambda>done. ret (st1\<lparr> rs_perSource := rs_perSource st1 @
                   [\<lparr> ps_sourceId = s_oid source, ps_name = s_name source,
                      ps_rssUrls = length (sourceRssUrls source),
                      ps_rssFetched = m_rssFetched meta, ps_rssFailed = m_rssFailed meta,
                      ps_itemsSeen = m_itemsSeen meta, ps_scrapedOk = length articles,
                      ps_inserted = insertedCount \<rparr>] \<rparr>)) w1))"

fun recordBatch ::
    "env \<Rightarrow> (source \<times> scraped list \<times> source_meta) list \<Rightarrow> run_state \<Rightarrow> run_state io" where
  "recordBatch env [] st w = (Inr st, w)"
| "recordBatch env (result # results) st w =
     (case recordSource env result st w of
        (Inl e, w1) \<Rightarrow> (Inl e, w1)
      | (Inr st1, w1) \<Rightarrow> recordBatch env results st1 w1)"

fun runBatches ::
    "env \<Rightarrow> scraping_service \<Rightarrow> ustring option \<Rightarrow> source list list \<Rightarrow> run_state \<Rightarrow> run_state io" where
  "runBatches env this mode [] st w = (Inr st, w)"
| "runBatches env this mode (batch # rest) st w =
     (let (results, w1) = scrapeBatch env this mode batch w in
      case recordBatch env results st w1 of
        (Inl e, w2) \<Rightarrow> (Inl e, w2)
      | (Inr st1, w2) \<Rightarrow> runBatches env this mode rest st1 w2)"

definition findActiveSources :: "env \<Rightarrow> source list io" where
  "findActiveSources env w = (e_activeSources env (tick w), emit FindSources w)"

definition summarise :: "nat \<Rightarrow> run_state \<Rightarrow> stats" where
  "summarise n st =
     \<lparr> st_sources = n, st_success = rs_successCount st, st_failed = rs_failCount st,
       st_itemsSeen = sum_list (map ps_itemsSeen (rs_perSource st)),
       st_scrapedOk = sum_list (map ps_scrapedOk (rs_perSource st)),
       st_inserted = sum_list (map ps_inserted (rs_perSource st)),
       st_perSource = rs_perSource st \<rparr>"

definition scrapeAllSources ::
    "env \<Rightarrow> scraping_service \<Rightarrow> ustring option \<Rightarrow> world
       \<Rightarrow> (scraped list \<times> (error + stats)) \<times> world" where
  "scrapeAllSources env this mode w =
     (case andThen (findActiveSources env)
             (\<lambda>sources. andThen
                (runBatches env this mode (batches SOURCE_BATCH_SIZE sources)
                   \<lparr> rs_allArticles = [], rs_successCount = 0, rs_failCount = 0, rs_perSource = [] \<rparr>)
                (\<lambda>st. ret (rs_allArticles st, summarise (length sources) st))) w of
        (Inl e, w1) \<Rightarrow> (([], Inl e), w1)
      | (Inr (allArticles, stats), w1) \<Rightarrow> ((allArticles, Inr stats), w1))"

section \<open>The scraper script: the hash of an item\<close>

text \<open>
  scripts/runScraper.ts, line 299 and lines 562--564. The \<open>generateHash\<close> of the script is MD5,
  and what the script hashes is the link of the item; the title when there is no link; the
  first 200 units of the item's JSON text when there is neither. \<open>JSON.stringify\<close> is a
  parameter.
\<close>

definition script_generateHash :: "ustring \<Rightarrow> ustring" where
  "script_generateHash input = md5Hex input"

definition itemHashInput :: "(item \<Rightarrow> ustring) \<Rightarrow> item \<Rightarrow> ustring" where
  "itemHashInput stringify item =
     orString (orElse (i_link item) (i_title item)) (take 200 (stringify item))"

definition itemHash :: "(item \<Rightarrow> ustring) \<Rightarrow> item \<Rightarrow> ustring" where
  "itemHash stringify item = script_generateHash (itemHashInput stringify item)"

section \<open>The scraper script: reading a feed\<close>

text \<open>
  scripts/runScraper.ts, lines 236--292 and 502--537. \<open>pickUA\<close> draws an identity at random;
  the random index and \<open>encodeURIComponent\<close> (which throws on a lone surrogate) are
  parameters. \<open>fetchWithFallback\<close> asks for the URL itself, then for a cached copy, then
  for a relayed copy; the last request sets no \<open>Accept\<close> header and goes out with the
  default of the HTTP client.
\<close>

record script_env =
  x_random :: "nat \<Rightarrow> nat"
  x_encodeURIComponent :: "ustring \<Rightarrow> ustring option"

definition SCRIPT_USER_AGENTS :: "ustring list" where
  "SCRIPT_USER_AGENTS =
     [u ''Mozilla/5.0 (Windows NT 10.0; Win64; x64) AppleWebKit/537.36 (KHTML, like Gecko) Chrome/120.0.0.0 Safari/537.36'',
      u ''Mozilla/5.0 (Macintosh; Intel Mac OS X 10_15_7) AppleWebKit/605.1.15 (KHTML, like Gecko) Version/17.1 Safari/605.1.15'',
      u ''Mozilla/5.0 (X11; Linux x86_64) AppleWebKit/537.36 (KHTML, like Gecko) Chrome/119.0.0.0 Safari/537.36'',
      u ''Mozilla/5.0 (Windows NT 10.0; Win64; x64; rv:118.0) Gecko/20100101 Firefox/118.0'']"

definition pickUA :: "script_env \<Rightarrow> world \<Rightarrow> ustring option" where
  "pickUA x w = at_index SCRIPT_USER_AGENTS (x_random x (tick w) mod length SCRIPT_USER_AGENTS)"

definition acceptDefault :: ustring where
  "acceptDefault = u ''application/json, text/plain, */*''"

definition scriptGet :: "env \<Rightarrow> script_env \<Rightarrow> ustring \<Rightarrow> ustring \<Rightarrow> ustring io" where
  "scriptGet env x url accept w =
     (e_httpGet env (tick w) url, emit (HttpGet url (pickUA x w) accept) w)"

definition relayGet :: "env \<Rightarrow> script_env \<Rightarrow> ustring \<Rightarrow> ustring \<Rightarrow> ustring \<Rightarrow> ustring io" where
  "relayGet env x relay url accept =
     (case x_encodeURIComponent x url of
        None \<Rightarrow> throwError (OtherError (u ''URI malformed''))
      | Some encoded \<Rightarrow> scriptGet env x (relay @ encoded) accept)"

definition fetchWithFallback :: "env \<Rightarrow> script_env \<Rightarrow> ustring \<Rightarrow> ustring io" where
  "fetchWithFallback env x url =
     tryCatch (scriptGet env x url acceptHtml)
       (\<lambda>err. tryCatch (relayGet env x (u ''https://r.jina.ai/'') url acceptFeed)
                (\<lambda>err2. relayGet env x (u ''https://api.allorigins.win/raw?url='') url
                           acceptDefault))"

text \<open>
  The feed of one URL (lines 502--537): the structured parse; when it throws, the raw
  document and the parse of its text; and when there is still no feed with an item, the
  same once more. \<open>hasItems\<close> is the test \<open>feed && Array.isArray(feed.items) &&
  feed.items.length > 0\<close>.
\<close>

definition hasItems :: "feed option \<Rightarrow> bool" where
  "hasItems feed =
     (case feed of
        None \<Rightarrow> False
      | Some f \<Rightarrow> (case feed_items f of None \<Rightarrow> False | Some items \<Rightarrow> items \<noteq> []))"

definition fallbackFeed ::
    "env \<Rightarrow> script_env \<Rightarrow> ustring \<Rightarrow> feed option \<Rightarrow> world \<Rightarrow> feed option \<times> world" where
  "fallbackFeed env x rssUrl feed w =
     (case andThen (fetchWithFallback env x rssUrl) (\<lambda>data w1. (e_parseString env data, w1)) w of
        (Inl rssErr, w1) \<Rightarrow> (feed, w1)
      | (Inr parsed, w1) \<Rightarrow> (if hasItems (Some parsed) then Some parsed else feed, w1))"

definition readFeed :: "env \<Rightarrow> script_env \<Rightarrow> ustring \<Rightarrow> world \<Rightarrow> feed option \<times> world" where
  "readFeed env x rssUrl w =
     (let (feed1, w1) = (case parseURL env rssUrl w of
                           (Inl parseErr, w1) \<Rightarrow> fallbackFeed env x rssUrl None w1
                         | (Inr feed, w1) \<Rightarrow> (Some feed, w1))
      in if \<not> hasItems feed1 then fallbackFeed env x rssUrl feed1 w1 else (feed1, w1))"

section \<open>What a run leaves behind\<close>

text \<open>
  \<open>extends w w'\<close>: from \<open>w\<close> to \<open>w'\<close> the article store is the same and the trace has only
  grown. Everything the service does before the insertion loop is of this kind.
\<close>

definition extends :: "world \<Rightarrow> world \<Rightarrow> bool" where
  "extends w w' \<longleftrightarrow> w_articles w' = w_articles w \<and> (\<exists>evs. w_trace w' = w_trace w @ evs)"

definition readsOnly :: "'a io \<Rightarrow> bool" where
  "readsOnly m \<longleftrightarrow> (\<forall>w. extends w (snd (m w)))"

text \<open>
  The events of a run: what the trace has gained. A fetch is a request for a page or the
  structured parse of a feed URL. Reading the date of an item costs a look at the clock
  when the item carries no date.
\<close>

definition newEvents :: "world \<Rightarrow> world \<Rightarrow> event list" where
  "newEvents w w' = drop (length (w_trace w)) (w_trace w')"

fun isFetch :: "event \<Rightarrow> bool" where
  "isFetch (HttpGet url userAgent accept) = True"
| "isFetch (ParseURL url) = True"
| "isFetch ev = False"

definition publishedAtEvents :: "item \<Rightarrow> event list" where
  "publishedAtEvents item =
     (if truthy (i_pubDate item) \<or> truthy (i_publishedAt item) then [] else [ClockRead])"






section \<open>A small scenario\<close>

text \<open>
  One source with one feed of one item, an outside world that answers every page request
  with 404, and the article that the item becomes once it is stored.
\<close>

definition budgetItem :: item where
  "budgetItem =
     \<lparr> i_title = Some (u ''Budget vote today''), i_link = Some (u ''https://example.org/a''),
       i_url = None, i_contentSnippet = Some (u ''Parliament votes''), i_description = None,
       i_content = None, i_pubDate = None, i_publishedAt = None, i_author = None,
       i_urlToImage = None, i_enclosureUrl = None, i_enclosureUrlFlat = None,
       i_mediaContentUrl = None, i_mediaNestedUrl = None, i_mediaContentUrlFlat = None,
       i_thumbnail = None, i_image = None \<rparr>"

definition untitledItem :: item where
  "untitledItem = budgetItem\<lparr> i_title := None \<rparr>"

definition dailySource :: source where
  "dailySource =
     \<lparr> s_oid = Some (u ''65a1''), s_id = Some (u ''65a1''), s_name = Some (u ''Daily''),
       s_url = Some (u ''https://example.org''), s_rssUrls = Some [u ''https://example.org/feed''],
       s_type = Some (u ''rss''), s_apiUrl = None, s_categories = None, s_lang = Some (u ''en'') \<rparr>"

definition anonymousSource :: source where
  "anonymousSource = dailySource\<lparr> s_id := None \<rparr>"

definition quietEnv :: env where
  "quietEnv =
     \<lparr> e_unicode = plainUnicode,
       e_now = (\<lambda>n. 1730000000000 + n),
       e_parseDate = (\<lambda>d. NaN),
       e_slugify = (\<lambda>s. s),
       e_activeSources = (\<lambda>n. Inr [dailySource]),
       e_dbFault = (\<lambda>n. False),
       e_rejects = (\<lambda>articles doc. None),
       e_parseURL = (\<lambda>n url. Inr \<lparr> feed_items = Some [budgetItem] \<rparr>),
       e_parseString = (\<lambda>body. Inl ParseError),
       e_httpGet = (\<lambda>n url. Inl (HttpError 404)),
       e_apiGet = (\<lambda>n url. Inr None),
       e_metaTags = (\<lambda>html. Inr emptyOg),
       e_selectImages = (\<lambda>html selector. Inr []),
       e_containerText = (\<lambda>html. Inr []),
       e_resolveUrl = (\<lambda>src base. None),
       e_timedOut = (\<lambda>n. False) \<rparr>"

definition theService :: scraping_service where
  "theService = \<lparr> rssParser = 0 \<rparr>"

definition budgetScraped :: scraped where
  "budgetScraped =
     \<lparr> sc_title = u ''Budget vote today'', sc_summary = u ''Parliament votes'',
       sc_content = u ''Parliament votes'', sc_images = [], sc_category = u ''politics'',
       sc_tags = [], sc_author = None, sc_lang = u ''en'', sc_sourceUrl = u ''https://example.org/a'',
       sc_publishedAt = Num 1730000000000,
       sc_hash = generateHash (u ''Budget vote today'' @ u ''Parliament votes'' @ u ''65a1''),
       sc_openGraph = emptyOg \<rparr>"

definition budgetArticle :: article where
  "budgetArticle = newArticle dailySource budgetScraped (u ''Budget vote today'') 1730000000007"

definition emptyWorld :: world where
  "emptyWorld = \<lparr> w_articles = [], w_module = initialModule, w_trace = [] \<rparr>"

definition storedWorld :: world where
  "storedWorld = emptyWorld\<lparr> w_articles := [budgetArticle] \<rparr>"

text \<open>The same item under another link, and a stand-in for \<open>JSON.stringify\<close>.\<close>

definition movedItem :: item where
  "movedItem = budgetItem\<lparr> i_link := Some (u ''https://example.org/b'') \<rparr>"

definition titleAsJson :: "item \<Rightarrow> ustring" where
  "titleAsJson item = u ''{\"title\":\"'' @ itemTitle item @ u ''\"}''"

definition fastOption :: "ustring option" where
  "fastOption = Some (u ''fast'')"

text \<open>
  An outside world where the structured parse of a feed URL gives a feed without items,
  while the document behind the URL, parsed as text, has one.
\<close>

definition emptyFeedEnv :: env where
  "emptyFeedEnv =
     quietEnv\<lparr> e_parseURL := (\<lambda>n url. Inr \<lparr> feed_items = Some [] \<rparr>),
               e_httpGet := (\<lambda>n url. Inr (u ''<rss><channel><item/></channel></rss>'')),
               e_parseString := (\<lambda>body. Inr \<lparr> feed_items = Some [budgetItem] \<rparr>) \<rparr>"

definition brokenFeedEnv :: env where
  "brokenFeedEnv = emptyFeedEnv\<lparr> e_parseURL := (\<lambda>n url. Inl ParseError) \<rparr>"

definition plainScript :: script_env where
  "plainScript = \<lparr> x_random = (\<lambda>n. n), x_encodeURIComponent = (\<lambda>url. Some url) \<rparr>"

definition feedUrl :: ustring where
  "feedUrl = u ''https://example.org/feed''"

text \<open>A second scraped article with the title of the first, from another page.\<close>

definition movedScraped :: scraped where
  "movedScraped = budgetScraped\<lparr> sc_sourceUrl := u ''https://example.org/b'' \<rparr>"

section \<open>Facts about strings\<close>

lemma startsWith_iff: "startsWith s p \<longleftrightarrow> (\<exists>b. s = p @ b)"
  by (induction s p rule: startsWith.induct) auto

lemma includes_iff: "includesStr s p \<longleftrightarrow> (\<exists>a b. s = a @ p @ b)"
proof (induction s)
  case Nil
  then show ?case by auto
next
  case (Cons c cs)
  show ?case
  proof
    assume "includesStr (c # cs) p"
    then consider "startsWith (c # cs) p" | "includesStr cs p" by auto
    then show "\<exists>a b. c # cs = a @ p @ b"
    proof cases
      case 1
      then obtain b where "c # cs = p @ b" using startsWith_iff by blast
      then have "c # cs = [] @ p @ b" by simp
      then show ?thesis by blast
    next
      case 2
      then obtain a b where "cs = a @ p @ b" using Cons.IH by blast
      then have "c # cs = (c # a) @ p @ b" by simp
      then show ?thesis by blast
    qed
  next
    assume "\<exists>a b. c # cs = a @ p @ b"
    then obtain a b where ab: "c # cs = a @ p @ b" by blast
    show "includesStr (c # cs) p"
    proof (cases a)
      case Nil
      with ab have "startsWith (c # cs) p" using startsWith_iff by auto
      then show ?thesis by simp
    next
      case (Cons a0 as)
      with ab have "cs = as @ p @ b" by simp
      then have "includesStr cs p" using Cons.IH by blast
      then show ?thesis by simp
    qed
  qed
qed


lemma toLowerCase_fixed:
  "\<forall>c \<in> set p. c < 128 \<and> \<not> (65 \<le> c \<and> c \<le> 90) \<Longrightarrow> toLowerCase uc p = p"
  by (induction p) (auto simp: toLowerCase_def lowerUnit_def)





section \<open>Image filter: claim C8\<close>






section \<open>Identity rotation: claim C9\<close>

lemma length_USER_AGENTS: "length USER_AGENTS = 8"
  by (simp add: USER_AGENTS_def)

lemma length_PROXY_LIST: "length PROXY_LIST = 2"
  by (simp add: PROXY_LIST_def)

lemma getNextUserAgent_index:
  "currentUserAgentIndex (snd (getNextUserAgent this m))
     = (currentUserAgentIndex m + 1) mod length USER_AGENTS"
  by (simp add: getNextUserAgent_def)

lemma upt_shift: "[0..<Suc n] = 0 # map Suc [0..<n]"
  by (simp add: upt_conv_Cons map_Suc_upt del: upt_Suc)

lemma drawAll_round_robin:
  "currentUserAgentIndex m < length USER_AGENTS \<Longrightarrow>
   fst (drawAll svcs m)
     = map (\<lambda>k. at_index USER_AGENTS ((currentUserAgentIndex m + k) mod length USER_AGENTS))
         [0..<length svcs]"
proof (induction svcs arbitrary: m)
  case Nil
  then show ?case by simp
next
  case (Cons this rest)
  let ?m1 = "snd (getNextUserAgent this m)"
  have step: "fst (drawAll (this # rest) m)
      = fst (getNextUserAgent this m) # fst (drawAll rest ?m1)"
    by (simp add: split_beta Let_def)
  have hd: "fst (getNextUserAgent this m)
      = at_index USER_AGENTS (currentUserAgentIndex m)"
    by (simp add: getNextUserAgent_def)
  have "currentUserAgentIndex ?m1 < length USER_AGENTS"
    by (simp add: getNextUserAgent_index length_USER_AGENTS)
  then have tl: "fst (drawAll rest ?m1)
      = map (\<lambda>k. at_index USER_AGENTS ((currentUserAgentIndex m + Suc k) mod length USER_AGENTS))
          [0..<length rest]"
    by (simp add: Cons.IH getNextUserAgent_index mod_add_left_eq)
  show ?case
    unfolding step hd tl using Cons.prems
    by (simp add: upt_shift comp_def del: upt_Suc)
qed


text \<open>
  C9, as the code has it. The rotation indices belong to the module, so they are shared
  by every \<open>ScrapingService\<close> of the process: a draw hands out the same identity and
  leaves the same state whichever instance makes it, the identity an instance draws is the
  successor (cyclically, in pool order) of the one drawn just before by any instance, and
  a schedule of draws hands out the pool in round-robin order whatever instances the
  draws are made through. The same holds for the proxy index.
\<close>

theorem rotation_is_module_wide:
  "getNextUserAgent a m = getNextUserAgent b m
   \<and> getNextProxy a m = getNextProxy b m
   \<and> fst (getNextUserAgent b (snd (getNextUserAgent a m)))
       = at_index USER_AGENTS ((currentUserAgentIndex m + 1) mod length USER_AGENTS)
   \<and> fst (getNextProxy b (snd (getNextProxy a m)))
       = at_index PROXY_LIST ((currentProxyIndex m + 1) mod length PROXY_LIST)
   \<and> (currentUserAgentIndex m < length USER_AGENTS \<longrightarrow>
        fst (drawAll svcs m)
          = map (\<lambda>k. at_index USER_AGENTS ((currentUserAgentIndex m + k) mod length USER_AGENTS))
              [0..<length svcs])"
proof (intro conjI impI)
  show "getNextUserAgent a m = getNextUserAgent b m"
    by (simp add: getNextUserAgent_def)
  show "getNextProxy a m = getNextProxy b m"
    by (simp add: getNextProxy_def)
  show "fst (getNextUserAgent b (snd (getNextUserAgent a m)))
      = at_index USER_AGENTS ((currentUserAgentIndex m + 1) mod length USER_AGENTS)"
    by (simp add: getNextUserAgent_def)
  show "fst (getNextProxy b (snd (getNextProxy a m)))
      = at_index PROXY_LIST ((currentProxyIndex m + 1) mod length PROXY_LIST)"
    by (simp add: getNextProxy_def)
next
  assume "currentUserAgentIndex m < length USER_AGENTS"
  then show "fst (drawAll svcs m)
      = map (\<lambda>k. at_index USER_AGENTS ((currentUserAgentIndex m + k) mod length USER_AGENTS))
          [0..<length svcs]"
    by (rule drawAll_round_robin)
qed

theorem rotation_is_module_wide_witness:
  "currentUserAgentIndex initialModule < length USER_AGENTS
   \<and> fst (drawAll [\<lparr>rssParser = 1\<rparr>, \<lparr>rssParser = 2\<rparr>, \<lparr>rssParser = 1\<rparr>] initialModule)
       = [at_index USER_AGENTS 0, at_index USER_AGENTS 1, at_index USER_AGENTS 2]"
proof -
  have h: "currentUserAgentIndex initialModule < length USER_AGENTS"
    by (simp add: initialModule_def length_USER_AGENTS)
  have "fst (drawAll [\<lparr>rssParser = 1\<rparr>, \<lparr>rssParser = 2\<rparr>, \<lparr>rssParser = 1\<rparr>] initialModule)
      = map (\<lambda>k. at_index USER_AGENTS ((currentUserAgentIndex initialModule + k) mod length USER_AGENTS))
          [0..<length [\<lparr>rssParser = 1\<rparr>, \<lparr>rssParser = 2\<rparr>, \<lparr>rssParser = (1::nat)\<rparr>]]"
    using rotation_is_module_wide [of "\<lparr>rssParser = 1\<rparr>" initialModule "\<lparr>rssParser = 2\<rparr>"
        "[\<lparr>rssParser = 1\<rparr>, \<lparr>rssParser = 2\<rparr>, \<lparr>rssParser = 1\<rparr>]"] h
    by blast
  also have "\<dots> = [at_index USER_AGENTS 0, at_index USER_AGENTS 1, at_index USER_AGENTS 2]"
    by (simp add: initialModule_def length_USER_AGENTS upt_conv_Cons numeral_2_eq_2)
  finally show ?thesis using h by blast
qed

text \<open>
  C9 as the specification words it says that a draw through one instance never changes
  what another instance draws next. From the initial state, a second instance draws the
  first identity of the pool; after one draw through a first instance it draws the second.
\<close>

theorem rotation_private_counterexample:
  "fst (getNextUserAgent \<lparr>rssParser = 2\<rparr> (snd (getNextUserAgent \<lparr>rssParser = 1\<rparr> initialModule)))
     \<noteq> fst (getNextUserAgent \<lparr>rssParser = 2\<rparr> initialModule)"
  by (simp add: getNextUserAgent_def initialModule_def at_index_def USER_AGENTS_def u_def)

section \<open>Keyword classifier: claim C7\<close>

lemma scoreLoop_none:
  "\<forall>k \<in> set ks. \<not> partialMatch t k \<Longrightarrow> scoreLoop t ks score = score"
  by (induction ks arbitrary: score) auto

lemma scoreLoop_mono: "score \<le> scoreLoop t ks score"
proof (induction ks arbitrary: score)
  case Nil
  then show ?case by simp
next
  case (Cons k ks)
  have "score \<le> score + weight k" by simp
  also have "\<dots> \<le> scoreLoop t ks (score + weight k)" by (rule Cons.IH)
  finally have "score \<le> scoreLoop t ks (score + weight k)" .
  with Cons.IH [of score] show ?case by simp
qed

lemma scoreLoop_some:
  "\<exists>k \<in> set ks. partialMatch t k \<Longrightarrow> score < scoreLoop t ks score"
proof (induction ks arbitrary: score)
  case Nil
  then show ?case by simp
next
  case (Cons k ks)
  show ?case
  proof (cases "partialMatch t k")
    case True
    have "score < score + weight k" by (simp add: weight_def)
    also have "\<dots> \<le> scoreLoop t ks (score + weight k)" by (rule scoreLoop_mono)
    finally show ?thesis using True by simp
  next
    case False
    with Cons.prems have "\<exists>k \<in> set ks. partialMatch t k" by auto
    then have "score < scoreLoop t ks score" by (rule Cons.IH)
    with False show ?thesis by simp
  qed
qed

lemma bestLoop_none:
  "\<forall>(cat, keys) \<in> set entries. \<not> list_ex (partialMatch t) (langWords lang keys)
   \<Longrightarrow> bestLoop t lang entries best bestScore = (best, bestScore)"
proof (induction entries arbitrary: best bestScore)
  case Nil
  then show ?case by simp
next
  case (Cons e entries)
  obtain cat keys where e: "e = (cat, keys)" by (cases e)
  from Cons.prems e have "\<forall>k \<in> set (langWords lang keys). \<not> partialMatch t k"
    by (simp add: list_ex_iff)
  then have "scoreLoop t (langWords lang keys) 0 = 0" by (rule scoreLoop_none)
  moreover from Cons.prems
  have "\<forall>(cat, keys) \<in> set entries. \<not> list_ex (partialMatch t) (langWords lang keys)"
    by simp
  ultimately show ?case using e Cons.IH by simp
qed

lemma bestLoop_single:
  assumes pre: "\<forall>(cat, keys) \<in> set pre. \<not> list_ex (partialMatch t) (langWords lang keys)"
    and post: "\<forall>(cat, keys) \<in> set post. \<not> list_ex (partialMatch t) (langWords lang keys)"
    and hit: "list_ex (partialMatch t) (langWords lang keys)"
  shows "\<exists>score > 0. bestLoop t lang (pre @ (cat, keys) # post) best 0 = (cat, score)"
proof -
  from hit have pos: "0 < scoreLoop t (langWords lang keys) 0"
    using scoreLoop_some [of "langWords lang keys" t 0] by (simp add: list_ex_iff)
  have split: "bestLoop t lang (xs @ ys) b s
      = bestLoop t lang ys (fst (bestLoop t lang xs b s)) (snd (bestLoop t lang xs b s))"
    for xs ys b s
    by (induction xs arbitrary: b s) (auto simp: Let_def)
  have "bestLoop t lang (pre @ (cat, keys) # post) best 0
      = bestLoop t lang ((cat, keys) # post) best 0"
    using bestLoop_none [OF pre] by (simp add: split)
  also have "\<dots> = bestLoop t lang post cat (scoreLoop t (langWords lang keys) 0)"
    using pos by simp
  also have "\<dots> = (cat, scoreLoop t (langWords lang keys) 0)"
    using bestLoop_none [OF post] by simp
  finally show ?thesis using pos by blast
qed

lemma normalizedLang_te: "normalizedLang uc (Some (u ''te'')) = u ''telugu''"
  by (simp add: normalizedLang_def langMap_def toLowerCase_def lowerUnit_def orString_def u_def)

lemma telugu_not_ascii: "inBlock 0xC00 0xC7F k \<Longrightarrow> \<not> asciiLetters k"
  by (fastforce simp: inBlock_def asciiLetters_def list_ex_iff list_all_iff)

lemma langWords_telugu:
  "k \<in> set (langWords (u ''telugu'') keys) \<Longrightarrow> inBlock 0xC00 0xC7F k"
  by (simp add: langWords_def keepWord_def)

lemma dict_split:
  "dict = [(u ''politics'', dict_politics)] @ (u ''sports'', dict_sports) #
     [(u ''entertainment'', dict_entertainment), (u ''technology'', dict_technology),
      (u ''health'', dict_health), (u ''business'', dict_business),
      (u ''education'', dict_education), (u ''crime'', dict_crime)]"
  by (simp add: dict_def)

lemma dict_sports_only:
  assumes "\<forall>(cat, keys) \<in> set dict. cat \<noteq> u ''sports''
      \<longrightarrow> \<not> list_ex (partialMatch t) (langWords lang keys)"
  shows "\<forall>(cat, keys) \<in> set [(u ''politics'', dict_politics)].
      \<not> list_ex (partialMatch t) (langWords lang keys)"
    and "\<forall>(cat, keys) \<in> set [(u ''entertainment'', dict_entertainment),
        (u ''technology'', dict_technology), (u ''health'', dict_health),
        (u ''business'', dict_business), (u ''education'', dict_education),
        (u ''crime'', dict_crime)].
      \<not> list_ex (partialMatch t) (langWords lang keys)"
  using assms by (simp_all add: dict_def u_def)

text \<open>
  A Telugu title, the word for cricket (U+0C15 U+0C4D U+0C30 U+0C3F U+0C15 U+0C46 U+0C1F
  U+0C4D), with empty summary and body.
\<close>

lemma cricket_text:
  "normalizeText plainUnicode
     ([0xC15, 0xC4D, 0xC30, 0xC3F, 0xC15, 0xC46, 0xC1F, 0xC4D] @ u '' '' @ [] @ u '' '' @ [])
   = [0xC15, 0xC4D, 0xC30, 0xC3F, 0xC15, 0xC46, 0xC1F, 0xC4D]"
  by (simp add: normalizeText_def toLowerCase_def lowerUnit_def plainUnicode_def asciiPunct_def
      removeZeroWidth_def isHighSurrogate_def trim_def isSpace_def u_def)

lemma cricket_sports:
  "list_ex (partialMatch [0xC15, 0xC4D, 0xC30, 0xC3F, 0xC15, 0xC46, 0xC1F, 0xC4D])
     (langWords (u ''telugu'') dict_sports)"
  by (simp add: langWords_def keepWord_def inBlock_def dict_sports_def u_def partialMatch_def)

lemma cricket_politics:
  "\<not> list_ex (partialMatch [0xC15, 0xC4D, 0xC30, 0xC3F, 0xC15, 0xC46, 0xC1F, 0xC4D])
     (langWords (u ''telugu'') dict_politics)"
  by (simp add: langWords_def keepWord_def inBlock_def dict_politics_def u_def partialMatch_def)

lemma cricket_entertainment:
  "\<not> list_ex (partialMatch [0xC15, 0xC4D, 0xC30, 0xC3F, 0xC15, 0xC46, 0xC1F, 0xC4D])
     (langWords (u ''telugu'') dict_entertainment)"
  by (simp add: langWords_def keepWord_def inBlock_def dict_entertainment_def u_def partialMatch_def)

lemma cricket_technology:
  "\<not> list_ex (partialMatch [0xC15, 0xC4D, 0xC30, 0xC3F, 0xC15, 0xC46, 0xC1F, 0xC4D])
     (langWords (u ''telugu'') dict_technology)"
  by (simp add: langWords_def keepWord_def inBlock_def dict_technology_def u_def partialMatch_def)

lemma cricket_health:
  "\<not> list_ex (partialMatch [0xC15, 0xC4D, 0xC30, 0xC3F, 0xC15, 0xC46, 0xC1F, 0xC4D])
     (langWords (u ''telugu'') dict_health)"
  by (simp add: langWords_def keepWord_def inBlock_def dict_health_def u_def partialMatch_def)

lemma cricket_business:
  "\<not> list_ex (partialMatch [0xC15, 0xC4D, 0xC30, 0xC3F, 0xC15, 0xC46, 0xC1F, 0xC4D])
     (langWords (u ''telugu'') dict_business)"
  by (simp add: langWords_def keepWord_def inBlock_def dict_business_def u_def partialMatch_def)

lemma cricket_education:
  "\<not> list_ex (partialMatch [0xC15, 0xC4D, 0xC30, 0xC3F, 0xC15, 0xC46, 0xC1F, 0xC4D])
     (langWords (u ''telugu'') dict_education)"
  by (simp add: langWords_def keepWord_def inBlock_def dict_education_def u_def partialMatch_def)

lemma cricket_crime:
  "\<not> list_ex (partialMatch [0xC15, 0xC4D, 0xC30, 0xC3F, 0xC15, 0xC46, 0xC1F, 0xC4D])
     (langWords (u ''telugu'') dict_crime)"
  by (simp add: langWords_def keepWord_def inBlock_def dict_crime_def u_def partialMatch_def)

lemma hello_text:
  "normalizeText plainUnicode (u ''Hello world'' @ u '' '' @ [] @ u '' '' @ []) = u ''hello world''"
  by (simp add: normalizeText_def toLowerCase_def lowerUnit_def plainUnicode_def asciiPunct_def
      removeZeroWidth_def isHighSurrogate_def trim_def isSpace_def u_def)

lemma normalizedLang_en: "normalizedLang uc (Some (u ''en'')) = u ''english''"
  by (simp add: normalizedLang_def langMap_def toLowerCase_def lowerUnit_def orString_def u_def)

lemma hello_politics:
  "\<not> list_ex (partialMatch (u ''hello world'')) (langWords (u ''english'') dict_politics)"
  by (simp add: langWords_def keepWord_def asciiLetters_def u_def partialMatch_def dict_politics_def)

lemma hello_sports:
  "\<not> list_ex (partialMatch (u ''hello world'')) (langWords (u ''english'') dict_sports)"
  by (simp add: langWords_def keepWord_def asciiLetters_def u_def partialMatch_def dict_sports_def)

lemma hello_entertainment:
  "\<not> list_ex (partialMatch (u ''hello world'')) (langWords (u ''english'') dict_entertainment)"
  by (simp add: langWords_def keepWord_def asciiLetters_def u_def partialMatch_def dict_entertainment_def)

lemma hello_technology:
  "\<not> list_ex (partialMatch (u ''hello world'')) (langWords (u ''english'') dict_technology)"
  by (simp add: langWords_def keepWord_def asciiLetters_def u_def partialMatch_def dict_technology_def)

lemma hello_health:
  "\<not> list_ex (partialMatch (u ''hello world'')) (langWords (u ''english'') dict_health)"
  by (simp add: langWords_def keepWord_def asciiLetters_def u_def partialMatch_def dict_health_def)

lemma hello_business:
  "\<not> list_ex (partialMatch (u ''hello world'')) (langWords (u ''english'') dict_business)"
  by (simp add: langWords_def keepWord_def asciiLetters_def u_def partialMatch_def dict_business_def)

lemma hello_education:
  "\<not> list_ex (partialMatch (u ''hello world'')) (langWords (u ''english'') dict_education)"
  by (simp add: langWords_def keepWord_def asciiLetters_def u_def partialMatch_def dict_education_def)

lemma hello_crime:
  "\<not> list_ex (partialMatch (u ''hello world'')) (langWords (u ''english'') dict_crime)"
  by (simp add: langWords_def keepWord_def asciiLetters_def u_def partialMatch_def dict_crime_def)

lemma hello_no_match:
  "\<forall>(cat, keys) \<in> set dict.
     \<not> list_ex (partialMatch (u ''hello world'')) (langWords (u ''english'') keys)"
  by (simp add: dict_def hello_politics hello_sports hello_entertainment hello_technology
      hello_health hello_business hello_education hello_crime)

lemma cricket_others:
  "\<forall>(cat, keys) \<in> set dict. cat \<noteq> u ''sports'' \<longrightarrow>
     \<not> list_ex (partialMatch [0xC15, 0xC4D, 0xC30, 0xC3F, 0xC15, 0xC46, 0xC1F, 0xC4D])
         (langWords (u ''telugu'') keys)"
  by (simp add: dict_def cricket_politics cricket_entertainment cricket_technology
      cricket_health cricket_business cricket_education cricket_crime)

lemma hello_there_keywords:
  "firstKeywordMatch (toLowerCase plainUnicode (u ''Hello there'' @ u '' '' @ [])) categoryKeywords = None"
  by (simp add: categoryKeywords_def toLowerCase_def lowerUnit_def u_def)

lemma length_u: "length (u s) = length s"
  by (simp add: u_def)

lemma short_politics: "list_all (\<lambda>k. length k < 90) dict_politics"
  by (simp add: dict_politics_def length_u)

lemma short_sports: "list_all (\<lambda>k. length k < 90) dict_sports"
  by (simp add: dict_sports_def length_u)

lemma short_entertainment: "list_all (\<lambda>k. length k < 90) dict_entertainment"
  by (simp add: dict_entertainment_def length_u)

lemma short_technology: "list_all (\<lambda>k. length k < 90) dict_technology"
  by (simp add: dict_technology_def length_u)

lemma short_health: "list_all (\<lambda>k. length k < 90) dict_health"
  by (simp add: dict_health_def length_u)

lemma short_business: "list_all (\<lambda>k. length k < 90) dict_business"
  by (simp add: dict_business_def length_u)

lemma short_education: "list_all (\<lambda>k. length k < 90) dict_education"
  by (simp add: dict_education_def length_u)

lemma short_crime: "list_all (\<lambda>k. length k < 90) dict_crime"
  by (simp add: dict_crime_def length_u)

lemma dict_keywords_short: "\<forall>(cat, keys) \<in> set dict. \<forall>k \<in> set keys. length k < 90"
  using short_politics short_sports short_entertainment short_technology
    short_health short_business short_education short_crime
  by (simp add: dict_def list_all_iff)

text \<open>
  A keyword is matched when it has three units or more and its stem occurs in the text;
  a text in which the keyword occurs has the stem too.
\<close>

lemma includesStr_take: "includesStr t k \<Longrightarrow> includesStr t (take n k)"
proof -
  assume "includesStr t k"
  then obtain a b where "t = a @ k @ b" by (auto simp: includes_iff)
  then have "t = a @ take n k @ (drop n k @ b)" by simp
  then show ?thesis unfolding includes_iff by blast
qed

lemma includesStr_length: "includesStr t k \<Longrightarrow> length k \<le> length t"
  by (auto simp: includes_iff)

lemma partialMatch_iff: "partialMatch t k \<longleftrightarrow> 3 \<le> length k \<and> includesStr t (stemOf k)"
proof (cases "3 \<le> length k")
  case False
  then show ?thesis by (simp add: partialMatch_def)
next
  case True
  then have "3 \<le> length (stemOf k)" by (simp add: stemOf_def)
  with True show ?thesis
    by (auto simp: partialMatch_def Let_def stemOf_def dest: includesStr_take)
qed

lemma partialMatch_keyword: "3 \<le> length k \<Longrightarrow> includesStr t k \<Longrightarrow> partialMatch t k"
  by (auto simp: partialMatch_def)

lemma partialMatch_short_text: "length t < 3 \<Longrightarrow> \<not> partialMatch t k"
proof
  assume "length t < 3" and "partialMatch t k"
  then have "3 \<le> length (stemOf k)" "includesStr t (stemOf k)"
    by (simp_all add: partialMatch_iff stemOf_def)
  with \<open>length t < 3\<close> show False by (auto dest: includesStr_length)
qed

lemma no_match_iff:
  "\<not> list_ex (partialMatch t) (langWords lang keys)
     \<longleftrightarrow> (\<forall>k \<in> set (langWords lang keys). 3 \<le> length k \<longrightarrow> \<not> includesStr t (stemOf k))"
  by (auto simp: list_ex_iff partialMatch_iff)

text \<open>What the loop over the categories returns, in terms of the scores.\<close>

lemma bestLoop_scores:
  assumes "bestLoop t lang entries best bestScore = (best', bestScore')"
  shows "((best' = best \<and> bestScore' = bestScore)
        \<or> (bestScore < bestScore' \<and> best' \<in> fst ` set entries))
    \<and> (\<forall>(cat, keys) \<in> set entries. scoreLoop t (langWords lang keys) 0 \<le> bestScore')"
  using assms
proof (induction entries arbitrary: best bestScore)
  case Nil
  then show ?case by simp
next
  case (Cons e entries)
  obtain cat keys where e: "e = (cat, keys)" by (cases e)
  let ?score = "scoreLoop t (langWords lang keys) 0"
  show ?case
  proof (cases "?score > bestScore")
    case True
    with Cons.prems e have "bestLoop t lang entries cat ?score = (best', bestScore')"
      by (simp add: Let_def)
    from Cons.IH [OF this] True e show ?thesis by fastforce
  next
    case False
    with Cons.prems e have "bestLoop t lang entries best bestScore = (best', bestScore')"
      by (simp add: Let_def)
    from Cons.IH [OF this] False e show ?thesis by fastforce
  qed
qed

lemma general_not_key: "u ''general'' \<notin> fst ` set dict"
  by (simp add: dict_def u_def)

lemma computeCategoryFromText_general:
  "computeCategoryFromText uc title summary content language = u ''general''
     \<longleftrightarrow> (\<forall>(cat, keys) \<in> set dict.
          \<not> list_ex (partialMatch (normalizeText uc (title @ u '' '' @ summary @ u '' '' @ content)))
              (langWords (normalizedLang uc language) keys))"
proof
  let ?nt = "normalizeText uc (title @ u '' '' @ summary @ u '' '' @ content)"
  let ?lang = "normalizedLang uc language"
  obtain best bestScore where r: "bestLoop ?nt ?lang dict (u ''general'') 0 = (best, bestScore)"
    by (cases "bestLoop ?nt ?lang dict (u ''general'') 0")
  note scores = bestLoop_scores [OF r]
  {
    assume g: "computeCategoryFromText uc title summary content language = u ''general''"
    have "bestScore = 0"
    proof (rule ccontr)
      assume "bestScore \<noteq> 0"
      then have "0 < bestScore" by simp
      with scores have "best \<in> fst ` set dict" by blast
      moreover from g r \<open>0 < bestScore\<close> have "best = u ''general''"
        by (simp add: computeCategoryFromText_def Let_def)
      ultimately show False using general_not_key by simp
    qed
    with scores have zero: "\<forall>(cat, keys) \<in> set dict. scoreLoop ?nt (langWords ?lang keys) 0 = 0"
      by auto
    show "\<forall>(cat, keys) \<in> set dict. \<not> list_ex (partialMatch ?nt) (langWords ?lang keys)"
    proof (intro ballI, clarify)
      fix cat keys
      assume "(cat, keys) \<in> set dict" and hit: "list_ex (partialMatch ?nt) (langWords ?lang keys)"
      with zero have "scoreLoop ?nt (langWords ?lang keys) 0 = 0" by blast
      moreover from hit have "0 < scoreLoop ?nt (langWords ?lang keys) 0"
        using scoreLoop_some [of "langWords ?lang keys" ?nt 0] by (simp add: list_ex_iff)
      ultimately show False by simp
    qed
  }
  {
    assume "\<forall>(cat, keys) \<in> set dict. \<not> list_ex (partialMatch ?nt) (langWords ?lang keys)"
    then have "bestLoop ?nt ?lang dict (u ''general'') 0 = (u ''general'', 0)"
      by (rule bestLoop_none)
    then show "computeCategoryFromText uc title summary content language = u ''general''"
      by (simp add: computeCategoryFromText_def Let_def)
  }
qed

lemma telugu_words: "langWords (u ''telugu'') keys = filter (inBlock 0xC00 0xC7F) keys"
  by (simp add: langWords_def keepWord_def cong: filter_cong)

lemma no_match_telugu:
  "\<not> list_ex (partialMatch t) (langWords (u ''telugu'') keys)
     \<longleftrightarrow> (\<forall>k \<in> set keys. inBlock 0xC00 0xC7F k \<and> 3 \<le> length k \<longrightarrow> \<not> includesStr t (stemOf k))"
  unfolding no_match_iff by (auto simp: telugu_words)

lemma stems_others:
  assumes "\<forall>(cat, keys) \<in> set dict. cat \<noteq> u ''sports'' \<longrightarrow>
            (\<forall>k \<in> set keys. inBlock 0xC00 0xC7F k \<and> 3 \<le> length k \<longrightarrow>
               \<not> includesStr t (stemOf k))"
  shows "\<forall>(cat, keys) \<in> set dict. cat \<noteq> u ''sports''
      \<longrightarrow> \<not> list_ex (partialMatch t) (langWords (u ''telugu'') keys)"
  using assms unfolding no_match_telugu .

lemma keyword_hit:
  assumes "k \<in> set dict_sports" "inBlock 0xC00 0xC7F k" "3 \<le> length k" "includesStr t k"
  shows "list_ex (partialMatch t) (langWords (u ''telugu'') dict_sports)"
proof -
  from assms have "k \<in> set (langWords (u ''telugu'') dict_sports)" "partialMatch t k"
    by (simp_all add: telugu_words partialMatch_keyword)
  then show ?thesis unfolding list_ex_iff by blast
qed

text \<open>
  C7, as the code has it. In \<open>computeCategoryFromText\<close> the language code \<open>te\<close> selects, in
  every category, exactly the keywords that contain a code unit of the Telugu block
  U+0C00..U+0C7F; none of them is an ASCII word. A keyword counts when it has three units
  or more and the normalised text contains its stem, so in particular when the text
  contains the keyword. If the normalised text contains a Telugu keyword of \<open>sports\<close> of
  three units or more, and the stem of no Telugu keyword of three units or more of any
  other category, the result is \<open>sports\<close>. For any language, the result is \<open>general\<close>
  exactly when the normalised text contains the stem of no active keyword of three units
  or more. \<open>determineCategory\<close> of the scraping service has no language input; when none
  of its (English) keywords occurs in the text, the category of the article is the first
  one the source declares, and \<open>general\<close> only when the source declares none.
\<close>

theorem classification_script_scoped:
  "normalizedLang uc (Some (u ''te'')) = u ''telugu''
   \<and> (\<forall>(cat, keys) \<in> set dict.
        langWords (normalizedLang uc (Some (u ''te''))) keys = filter (inBlock 0xC00 0xC7F) keys
        \<and> (\<forall>k \<in> set (langWords (normalizedLang uc (Some (u ''te''))) keys). \<not> asciiLetters k))
   \<and> ((\<exists>k \<in> set dict_sports. inBlock 0xC00 0xC7F k \<and> 3 \<le> length k
           \<and> includesStr (normalizeText uc (title @ u '' '' @ summary @ u '' '' @ content)) k)
        \<and> (\<forall>(cat, keys) \<in> set dict. cat \<noteq> u ''sports'' \<longrightarrow>
              (\<forall>k \<in> set keys. inBlock 0xC00 0xC7F k \<and> 3 \<le> length k \<longrightarrow>
                 \<not> includesStr (normalizeText uc (title @ u '' '' @ summary @ u '' '' @ content))
                     (stemOf k)))
        \<longrightarrow> computeCategoryFromText uc title summary content (Some (u ''te'')) = u ''sports'')
   \<and> (computeCategoryFromText uc title summary content language = u ''general''
        \<longleftrightarrow> (\<forall>(cat, keys) \<in> set dict.
              \<forall>k \<in> set (langWords (normalizedLang uc language) keys). 3 \<le> length k \<longrightarrow>
                \<not> includesStr (normalizeText uc (title @ u '' '' @ summary @ u '' '' @ content))
                    (stemOf k)))
   \<and> (firstKeywordMatch (toLowerCase uc (title @ u '' '' @ summary)) categoryKeywords = None
        \<longrightarrow> categoryOrGeneral (determineCategory uc title summary sourceCategories)
            = (case sourceCategories of None \<Rightarrow> u ''general'' | Some [] \<Rightarrow> u ''general''
               | Some (c # cs) \<Rightarrow> c))"
proof (intro conjI impI)
  show "normalizedLang uc (Some (u ''te'')) = u ''telugu''" by (rule normalizedLang_te)
next
  show "\<forall>(cat, keys) \<in> set dict.
      langWords (normalizedLang uc (Some (u ''te''))) keys = filter (inBlock 0xC00 0xC7F) keys
      \<and> (\<forall>k \<in> set (langWords (normalizedLang uc (Some (u ''te''))) keys). \<not> asciiLetters k)"
  proof (intro ballI, clarify, intro conjI ballI)
    fix cat keys
    show "langWords (normalizedLang uc (Some (u ''te''))) keys = filter (inBlock 0xC00 0xC7F) keys"
      by (simp add: normalizedLang_te langWords_def keepWord_def cong: filter_cong)
  next
    fix cat keys k
    assume "k \<in> set (langWords (normalizedLang uc (Some (u ''te''))) keys)"
    then show "\<not> asciiLetters k"
      using langWords_telugu telugu_not_ascii by (simp add: normalizedLang_te)
  qed
next
  let ?nt = "normalizeText uc (title @ u '' '' @ summary @ u '' '' @ content)"
  assume h: "(\<exists>k \<in> set dict_sports. inBlock 0xC00 0xC7F k \<and> 3 \<le> length k \<and> includesStr ?nt k)
      \<and> (\<forall>(cat, keys) \<in> set dict. cat \<noteq> u ''sports'' \<longrightarrow>
            (\<forall>k \<in> set keys. inBlock 0xC00 0xC7F k \<and> 3 \<le> length k \<longrightarrow>
               \<not> includesStr ?nt (stemOf k)))"
  then have "\<forall>(cat, keys) \<in> set dict. cat \<noteq> u ''sports'' \<longrightarrow>
      (\<forall>k \<in> set keys. inBlock 0xC00 0xC7F k \<and> 3 \<le> length k \<longrightarrow>
         \<not> includesStr ?nt (stemOf k))" ..
  then have others: "\<forall>(cat, keys) \<in> set dict. cat \<noteq> u ''sports''
      \<longrightarrow> \<not> list_ex (partialMatch ?nt) (langWords (u ''telugu'') keys)"
    by (rule stems_others)
  from h obtain k where "k \<in> set dict_sports" "inBlock 0xC00 0xC7F k" "3 \<le> length k"
    "includesStr ?nt k"
    by blast
  then have hit: "list_ex (partialMatch ?nt) (langWords (u ''telugu'') dict_sports)"
    by (rule keyword_hit)
  obtain score where "score > 0"
    and "bestLoop ?nt (u ''telugu'') dict (u ''general'') 0 = (u ''sports'', score)"
    using bestLoop_single [OF dict_sports_only(1) [OF others] dict_sports_only(2) [OF others] hit,
        of "u ''sports''" "u ''general''"]
    unfolding dict_split [symmetric] by blast
  then show "computeCategoryFromText uc title summary content (Some (u ''te'')) = u ''sports''"
    by (simp add: computeCategoryFromText_def normalizedLang_te Let_def)
next
  show "computeCategoryFromText uc title summary content language = u ''general''
      \<longleftrightarrow> (\<forall>(cat, keys) \<in> set dict.
            \<forall>k \<in> set (langWords (normalizedLang uc language) keys). 3 \<le> length k \<longrightarrow>
              \<not> includesStr (normalizeText uc (title @ u '' '' @ summary @ u '' '' @ content))
                  (stemOf k))"
    unfolding computeCategoryFromText_general no_match_iff ..
next
  assume "firstKeywordMatch (toLowerCase uc (title @ u '' '' @ summary)) categoryKeywords = None"
  then show "categoryOrGeneral (determineCategory uc title summary sourceCategories)
      = (case sourceCategories of None \<Rightarrow> u ''general'' | Some [] \<Rightarrow> u ''general''
         | Some (c # cs) \<Rightarrow> c)"
    by (simp add: determineCategory_def categoryOrGeneral_def at_index_def
        split: option.splits list.splits)
qed

lemma cricket_keyword:
  "[0xC15, 0xC4D, 0xC30, 0xC3F, 0xC15, 0xC46, 0xC1F, 0xC4D] \<in> set dict_sports"
  by (simp add: dict_sports_def u_def)

lemma cricket_stems:
  "\<forall>(cat, keys) \<in> set dict. cat \<noteq> u ''sports'' \<longrightarrow>
     (\<forall>k \<in> set keys. inBlock 0xC00 0xC7F k \<and> 3 \<le> length k \<longrightarrow>
        \<not> includesStr [0xC15, 0xC4D, 0xC30, 0xC3F, 0xC15, 0xC46, 0xC1F, 0xC4D] (stemOf k))"
  using cricket_others unfolding no_match_telugu .

lemma hello_stems:
  "\<forall>(cat, keys) \<in> set dict.
     \<forall>k \<in> set (langWords (u ''english'') keys). 3 \<le> length k \<longrightarrow>
       \<not> includesStr (u ''hello world'') (stemOf k)"
  using hello_no_match unfolding no_match_iff .

theorem classification_script_scoped_witness:
  "computeCategoryFromText plainUnicode [0xC15, 0xC4D, 0xC30, 0xC3F, 0xC15, 0xC46, 0xC1F, 0xC4D] [] []
       (Some (u ''te'')) = u ''sports''
   \<and> computeCategoryFromText plainUnicode (u ''Hello world'') [] [] (Some (u ''en'')) = u ''general''
   \<and> categoryOrGeneral (determineCategory plainUnicode (u ''Hello there'') [] None) = u ''general''
   \<and> langWords (normalizedLang plainUnicode (Some (u ''te''))) dict_sports
       = filter (inBlock 0xC00 0xC7F) dict_sports"
proof -
  note t1 = classification_script_scoped [of plainUnicode
      "[0xC15, 0xC4D, 0xC30, 0xC3F, 0xC15, 0xC46, 0xC1F, 0xC4D]" "[]" "[]" "Some (u ''en'')" None]
  note t2 = classification_script_scoped [of plainUnicode
      "u ''Hello world''" "[]" "[]" "Some (u ''en'')" None]
  note t3 = classification_script_scoped [of plainUnicode
      "u ''Hello there''" "[]" "[]" "Some (u ''en'')" None]
  have "inBlock 0xC00 0xC7F [0xC15, 0xC4D, 0xC30, 0xC3F, 0xC15, 0xC46, 0xC1F, 0xC4D]"
    "includesStr [0xC15, 0xC4D, 0xC30, 0xC3F, 0xC15, 0xC46, 0xC1F, 0xC4D]
       [0xC15, 0xC4D, 0xC30, 0xC3F, 0xC15, 0xC46, 0xC1F, 0xC4D]"
    by (simp_all add: inBlock_def)
  with cricket_keyword
  have "\<exists>k \<in> set dict_sports. inBlock 0xC00 0xC7F k \<and> 3 \<le> length k
      \<and> includesStr [0xC15, 0xC4D, 0xC30, 0xC3F, 0xC15, 0xC46, 0xC1F, 0xC4D] k"
    by (intro bexI [of _ "[0xC15, 0xC4D, 0xC30, 0xC3F, 0xC15, 0xC46, 0xC1F, 0xC4D]"]) simp_all
  then have a: "computeCategoryFromText plainUnicode
      [0xC15, 0xC4D, 0xC30, 0xC3F, 0xC15, 0xC46, 0xC1F, 0xC4D] [] [] (Some (u ''te'')) = u ''sports''"
    using t1 cricket_stems unfolding cricket_text by blast
  have b: "computeCategoryFromText plainUnicode (u ''Hello world'') [] [] (Some (u ''en'')) = u ''general''"
    using t2 hello_stems unfolding hello_text normalizedLang_en by blast
  have c: "categoryOrGeneral (determineCategory plainUnicode (u ''Hello there'') [] None) = u ''general''"
    using t3 hello_there_keywords by simp
  have "(u ''sports'', dict_sports) \<in> set dict" by (simp add: dict_def)
  with t1 have d: "langWords (normalizedLang plainUnicode (Some (u ''te''))) dict_sports
      = filter (inBlock 0xC00 0xC7F) dict_sports" by blast
  from a b c d show ?thesis by blast
qed

text \<open>
  Two Telugu texts. The first is the word for game (U+0C06 U+0C1F), a keyword of
  \<open>sports\<close> of two units. The second is cup, a keyword of \<open>sports\<close>, followed by the
  word for ministers, which is no keyword but begins like the keyword for minister.
\<close>

lemma game_text:
  "normalizeText plainUnicode ([0xC06, 0xC1F] @ u '' '' @ [] @ u '' '' @ []) = [0xC06, 0xC1F]"
  by (simp add: normalizeText_def toLowerCase_def lowerUnit_def plainUnicode_def asciiPunct_def
      removeZeroWidth_def isHighSurrogate_def trim_def isSpace_def u_def)

lemma cup_text:
  "normalizeText plainUnicode
     ([0xC15, 0xC2A, 0xC4D, 0x20, 0xC2E, 0xC02, 0xC24, 0xC4D, 0xC30, 0xC41, 0xC32, 0xC41]
      @ u '' '' @ [] @ u '' '' @ [])
   = [0xC15, 0xC2A, 0xC4D, 0x20, 0xC2E, 0xC02, 0xC24, 0xC4D, 0xC30, 0xC41, 0xC32, 0xC41]"
  by (simp add: normalizeText_def toLowerCase_def lowerUnit_def plainUnicode_def asciiPunct_def
      removeZeroWidth_def isHighSurrogate_def trim_def isSpace_def u_def)

lemma game_in_politics: "filter (includesStr [0xC06, 0xC1F]) dict_politics = []"
  by (simp add: dict_politics_def u_def)

lemma game_in_sports: "filter (includesStr [0xC06, 0xC1F]) dict_sports = [[0xC06, 0xC1F]]"
  by (simp add: dict_sports_def u_def)

lemma game_in_entertainment: "filter (includesStr [0xC06, 0xC1F]) dict_entertainment = []"
  by (simp add: dict_entertainment_def u_def)

lemma game_in_technology: "filter (includesStr [0xC06, 0xC1F]) dict_technology = []"
  by (simp add: dict_technology_def u_def)

lemma game_in_health: "filter (includesStr [0xC06, 0xC1F]) dict_health = []"
  by (simp add: dict_health_def u_def)

lemma game_in_business: "filter (includesStr [0xC06, 0xC1F]) dict_business = []"
  by (simp add: dict_business_def u_def)

lemma game_in_education: "filter (includesStr [0xC06, 0xC1F]) dict_education = []"
  by (simp add: dict_education_def u_def)

lemma game_in_crime: "filter (includesStr [0xC06, 0xC1F]) dict_crime = []"
  by (simp add: dict_crime_def u_def)

lemma cup_in_politics:
  "filter (includesStr [0xC15, 0xC2A, 0xC4D, 0x20, 0xC2E, 0xC02, 0xC24, 0xC4D, 0xC30, 0xC41, 0xC32, 0xC41])
     dict_politics = []"
  by (simp add: dict_politics_def u_def)

lemma cup_in_sports:
  "filter (includesStr [0xC15, 0xC2A, 0xC4D, 0x20, 0xC2E, 0xC02, 0xC24, 0xC4D, 0xC30, 0xC41, 0xC32, 0xC41])
     dict_sports = [[0xC15, 0xC2A, 0xC4D]]"
  by (simp add: dict_sports_def u_def)

lemma cup_in_entertainment:
  "filter (includesStr [0xC15, 0xC2A, 0xC4D, 0x20, 0xC2E, 0xC02, 0xC24, 0xC4D, 0xC30, 0xC41, 0xC32, 0xC41])
     dict_entertainment = []"
  by (simp add: dict_entertainment_def u_def)

lemma cup_in_technology:
  "filter (includesStr [0xC15, 0xC2A, 0xC4D, 0x20, 0xC2E, 0xC02, 0xC24, 0xC4D, 0xC30, 0xC41, 0xC32, 0xC41])
     dict_technology = []"
  by (simp add: dict_technology_def u_def)

lemma cup_in_health:
  "filter (includesStr [0xC15, 0xC2A, 0xC4D, 0x20, 0xC2E, 0xC02, 0xC24, 0xC4D, 0xC30, 0xC41, 0xC32, 0xC41])
     dict_health = []"
  by (simp add: dict_health_def u_def)

lemma cup_in_business:
  "filter (includesStr [0xC15, 0xC2A, 0xC4D, 0x20, 0xC2E, 0xC02, 0xC24, 0xC4D, 0xC30, 0xC41, 0xC32, 0xC41])
     dict_business = []"
  by (simp add: dict_business_def u_def)

lemma cup_in_education:
  "filter (includesStr [0xC15, 0xC2A, 0xC4D, 0x20, 0xC2E, 0xC02, 0xC24, 0xC4D, 0xC30, 0xC41, 0xC32, 0xC41])
     dict_education = []"
  by (simp add: dict_education_def u_def)

lemma cup_in_crime:
  "filter (includesStr [0xC15, 0xC2A, 0xC4D, 0x20, 0xC2E, 0xC02, 0xC24, 0xC4D, 0xC30, 0xC41, 0xC32, 0xC41])
     dict_crime = []"
  by (simp add: dict_crime_def u_def)

lemma cup_score_politics:
  "scoreLoop [0xC15, 0xC2A, 0xC4D, 0x20, 0xC2E, 0xC02, 0xC24, 0xC4D, 0xC30, 0xC41, 0xC32, 0xC41]
     (langWords (u ''telugu'') dict_politics) 0 = 1"
  by (simp add: langWords_def keepWord_def inBlock_def dict_politics_def u_def partialMatch_def
      weight_def)

lemma cup_score_sports:
  "scoreLoop [0xC15, 0xC2A, 0xC4D, 0x20, 0xC2E, 0xC02, 0xC24, 0xC4D, 0xC30, 0xC41, 0xC32, 0xC41]
     (langWords (u ''telugu'') dict_sports) 0 = 1"
  by (simp add: langWords_def keepWord_def inBlock_def dict_sports_def u_def partialMatch_def
      weight_def)

lemma cup_score_entertainment:
  "scoreLoop [0xC15, 0xC2A, 0xC4D, 0x20, 0xC2E, 0xC02, 0xC24, 0xC4D, 0xC30, 0xC41, 0xC32, 0xC41]
     (langWords (u ''telugu'') dict_entertainment) 0 = 0"
  by (rule scoreLoop_none)
    (simp add: langWords_def keepWord_def inBlock_def dict_entertainment_def u_def partialMatch_def)

lemma cup_score_technology:
  "scoreLoop [0xC15, 0xC2A, 0xC4D, 0x20, 0xC2E, 0xC02, 0xC24, 0xC4D, 0xC30, 0xC41, 0xC32, 0xC41]
     (langWords (u ''telugu'') dict_technology) 0 = 0"
  by (rule scoreLoop_none)
    (simp add: langWords_def keepWord_def inBlock_def dict_technology_def u_def partialMatch_def)

lemma cup_score_health:
  "scoreLoop [0xC15, 0xC2A, 0xC4D, 0x20, 0xC2E, 0xC02, 0xC24, 0xC4D, 0xC30, 0xC41, 0xC32, 0xC41]
     (langWords (u ''telugu'') dict_health) 0 = 0"
  by (rule scoreLoop_none)
    (simp add: langWords_def keepWord_def inBlock_def dict_health_def u_def partialMatch_def)

lemma cup_score_business:
  "scoreLoop [0xC15, 0xC2A, 0xC4D, 0x20, 0xC2E, 0xC02, 0xC24, 0xC4D, 0xC30, 0xC41, 0xC32, 0xC41]
     (langWords (u ''telugu'') dict_business) 0 = 0"
  by (rule scoreLoop_none)
    (simp add: langWords_def keepWord_def inBlock_def dict_business_def u_def partialMatch_def)

lemma cup_score_education:
  "scoreLoop [0xC15, 0xC2A, 0xC4D, 0x20, 0xC2E, 0xC02, 0xC24, 0xC4D, 0xC30, 0xC41, 0xC32, 0xC41]
     (langWords (u ''telugu'') dict_education) 0 = 0"
  by (rule scoreLoop_none)
    (simp add: langWords_def keepWord_def inBlock_def dict_education_def u_def partialMatch_def)

lemma cup_score_crime:
  "scoreLoop [0xC15, 0xC2A, 0xC4D, 0x20, 0xC2E, 0xC02, 0xC24, 0xC4D, 0xC30, 0xC41, 0xC32, 0xC41]
     (langWords (u ''telugu'') dict_crime) 0 = 0"
  by (rule scoreLoop_none)
    (simp add: langWords_def keepWord_def inBlock_def dict_crime_def u_def partialMatch_def)

lemma game_keywords: "set (keywordsIn [0xC06, 0xC1F]) = {(u ''sports'', [0xC06, 0xC1F])}"
  by (simp add: keywordsIn_def dict_def game_in_politics game_in_sports game_in_entertainment
      game_in_technology game_in_health game_in_business game_in_education game_in_crime)

lemma cup_keywords:
  "set (keywordsIn [0xC15, 0xC2A, 0xC4D, 0x20, 0xC2E, 0xC02, 0xC24, 0xC4D, 0xC30, 0xC41, 0xC32, 0xC41])
     = {(u ''sports'', [0xC15, 0xC2A, 0xC4D])}"
  by (simp add: keywordsIn_def dict_def cup_in_politics cup_in_sports cup_in_entertainment
      cup_in_technology cup_in_health cup_in_business cup_in_education cup_in_crime)

lemma game_general:
  "computeCategoryFromText plainUnicode [0xC06, 0xC1F] [] [] (Some (u ''te'')) = u ''general''"
  unfolding computeCategoryFromText_general game_text
  by (simp add: partialMatch_short_text list_ex_iff)

lemma cup_best:
  "bestLoop [0xC15, 0xC2A, 0xC4D, 0x20, 0xC2E, 0xC02, 0xC24, 0xC4D, 0xC30, 0xC41, 0xC32, 0xC41]
     (u ''telugu'') dict (u ''general'') 0 = (u ''politics'', 1)"
  by (simp add: dict_def Let_def cup_score_politics cup_score_sports cup_score_entertainment
      cup_score_technology cup_score_health cup_score_business cup_score_education
      cup_score_crime)

lemma cup_politics:
  "computeCategoryFromText plainUnicode
     [0xC15, 0xC2A, 0xC4D, 0x20, 0xC2E, 0xC02, 0xC24, 0xC4D, 0xC30, 0xC41, 0xC32, 0xC41] [] []
     (Some (u ''te'')) = u ''politics''"
  unfolding computeCategoryFromText_def cup_text normalizedLang_te cup_best Let_def
  by simp

text \<open>
  C7 as the specification words it fails in three ways. A Telugu text whose only keyword
  is the sports keyword of two units is classified \<open>general\<close>, because keywords shorter
  than three units never count. A Telugu text whose only keyword is a sports keyword is
  classified \<open>politics\<close> when a word of it begins like a keyword of \<open>politics\<close>, because
  keywords are matched by their stems. And in the scraping service a title and summary in
  which no keyword occurs, from a source that declares the category \<open>sports\<close>, is
  classified \<open>sports\<close> and not \<open>general\<close>.
\<close>

theorem script_scoped_counterexample:
  "set (keywordsIn [0xC06, 0xC1F]) = {(u ''sports'', [0xC06, 0xC1F])}
   \<and> normalizeText plainUnicode ([0xC06, 0xC1F] @ u '' '' @ [] @ u '' '' @ []) = [0xC06, 0xC1F]
   \<and> computeCategoryFromText plainUnicode [0xC06, 0xC1F] [] [] (Some (u ''te'')) = u ''general''
   \<and> set (keywordsIn [0xC15, 0xC2A, 0xC4D, 0x20, 0xC2E, 0xC02, 0xC24, 0xC4D, 0xC30, 0xC41, 0xC32, 0xC41])
       = {(u ''sports'', [0xC15, 0xC2A, 0xC4D])}
   \<and> normalizeText plainUnicode
         ([0xC15, 0xC2A, 0xC4D, 0x20, 0xC2E, 0xC02, 0xC24, 0xC4D, 0xC30, 0xC41, 0xC32, 0xC41]
          @ u '' '' @ [] @ u '' '' @ [])
       = [0xC15, 0xC2A, 0xC4D, 0x20, 0xC2E, 0xC02, 0xC24, 0xC4D, 0xC30, 0xC41, 0xC32, 0xC41]
   \<and> computeCategoryFromText plainUnicode
         [0xC15, 0xC2A, 0xC4D, 0x20, 0xC2E, 0xC02, 0xC24, 0xC4D, 0xC30, 0xC41, 0xC32, 0xC41] [] []
         (Some (u ''te'')) = u ''politics''
   \<and> firstKeywordMatch (toLowerCase plainUnicode (u ''Hello there'' @ u '' '' @ [])) categoryKeywords
       = None
   \<and> categoryOrGeneral (determineCategory plainUnicode (u ''Hello there'') [] (Some [u ''sports'']))
       = u ''sports''
   \<and> u ''general'' \<noteq> u ''sports'' \<and> u ''politics'' \<noteq> u ''sports''"
proof -
  have "categoryOrGeneral (determineCategory plainUnicode (u ''Hello there'') [] (Some [u ''sports'']))
      = u ''sports''"
    using hello_there_keywords
    by (simp add: determineCategory_def categoryOrGeneral_def at_index_def)
  moreover have "u ''general'' \<noteq> u ''sports''" "u ''politics'' \<noteq> u ''sports''"
    by (simp_all add: u_def)
  ultimately show ?thesis
    using game_keywords game_text game_general cup_keywords cup_text cup_politics
      hello_there_keywords
    by blast
qed

section \<open>Dynamic categories: claim C5\<close>

lemma bestLoop_category:
  "fst (bestLoop t lang entries best bestScore) \<in> insert best (fst ` set entries)"
proof (induction entries arbitrary: best bestScore)
  case Nil
  then show ?case by simp
next
  case (Cons e entries)
  obtain cat keys where e: "e = (cat, keys)" by (cases e)
  show ?case
    using Cons.IH [of cat "scoreLoop t (langWords lang keys) 0"] Cons.IH [of best bestScore] e
    by (auto simp: Let_def)
qed

lemma computeCategoryFromText_range:
  "computeCategoryFromText uc title summary content language \<in> insert (u ''general'') (fst ` set dict)"
proof -
  let ?r = "bestLoop (normalizeText uc (title @ u '' '' @ summary @ u '' '' @ content))
      (normalizedLang uc language) dict (u ''general'') 0"
  obtain best bestScore where r: "?r = (best, bestScore)" by (cases ?r)
  have "fst ?r \<in> insert (u ''general'') (fst ` set dict)" by (rule bestLoop_category)
  with r have "best \<in> insert (u ''general'') (fst ` set dict)" by simp
  moreover have "computeCategoryFromText uc title summary content language
      = (if bestScore > 0 then best else u ''general'')"
    using r by (simp add: computeCategoryFromText_def Let_def)
  ultimately show ?thesis by simp
qed

lemma dict_keys:
  "fst ` set dict = {u ''politics'', u ''sports'', u ''entertainment'', u ''technology'',
     u ''health'', u ''business'', u ''education'', u ''crime''}"
  by (simp add: dict_def)

lemma trim_no_space: "\<forall>c \<in> set s. \<not> isSpace c \<Longrightarrow> trim s = s"
proof -
  assume a: "\<forall>c \<in> set s. \<not> isSpace c"
  then have "dropWhile isSpace (rev s) = rev s"
    by (cases "rev s") (auto simp: dropWhile_eq_self_iff)
  moreover from a have "dropWhile isSpace s = s"
    by (cases s) (auto simp: dropWhile_eq_self_iff)
  ultimately show ?thesis by (simp add: trim_def)
qed

lemma dict_key_stored:
  assumes "key \<in> fst ` set dict"
  shows "storedForm uc key = key" and "key \<noteq> []" and "key \<noteq> u ''general''"
    and "key \<noteq> u ''uncategorized''"
proof -
  from assms have k: "key \<in> {u ''politics'', u ''sports'', u ''entertainment'', u ''technology'',
      u ''health'', u ''business'', u ''education'', u ''crime''}"
    by (simp only: dict_keys)
  then have plain: "\<forall>c \<in> set key. \<not> isSpace c \<and> c < 128 \<and> \<not> (65 \<le> c \<and> c \<le> 90)"
    by (auto simp: u_def isSpace_def)
  then have "trim key = key" using trim_no_space by blast
  moreover have "toLowerCase uc key = key" using plain toLowerCase_fixed by blast
  ultimately show "storedForm uc key = key" by (simp add: storedForm_def)
  from k show "key \<noteq> []" and "key \<noteq> u ''general''" and "key \<noteq> u ''uncategorized''"
    by (auto simp: u_def)
qed

lemma dict_key_tables:
  assumes "key \<in> fst ` set dict"
  shows "trim (lookupOr categoryLabels key dflt) \<noteq> []"
    and "lookupOr categoryIcons key dflt \<noteq> []"
    and "lookupOr categoryColors key dflt \<noteq> []"
proof -
  from assms have k: "key \<in> {u ''politics'', u ''sports'', u ''entertainment'', u ''technology'',
      u ''health'', u ''business'', u ''education'', u ''crime''}"
    by (simp only: dict_keys)
  then show "trim (lookupOr categoryLabels key dflt) \<noteq> []"
    by (auto simp: lookupOr_def categoryLabels_def orString_def trim_def isSpace_def u_def)
  from k show "lookupOr categoryIcons key dflt \<noteq> []"
    by (auto simp: lookupOr_def categoryIcons_def orString_def u_def)
  from k show "lookupOr categoryColors key dflt \<noteq> []"
    by (auto simp: lookupOr_def categoryColors_def orString_def u_def)
qed

text \<open>
  C5, as the code has it. \<open>detectedCategory\<close> is a key of the classifier's dictionary (the
  only values other than \<open>general\<close> that the caller passes, lemma
  \<open>computeCategoryFromText_range\<close>) and no category with that key is visible for the
  language. The count is taken over the articles already persisted, before the article
  being classified is saved. With fewer than ten such articles nothing is created and the
  store is unchanged. With ten or more, a category is created with \<open>isDynamic\<close> set, the
  given key and the language, unless a category with that key exists for another
  language, in which case the unique index on \<open>key\<close> makes the creation throw.
\<close>

theorem dynamic_category_threshold:
  assumes "detectedCategory \<in> fst ` set dict"
    and "findCategory detectedCategory language d = None"
  shows "(articleCount detectedCategory language d < 10
            \<longrightarrow> createDynamicCategory uc detectedCategory language d = (Inr None, d))
       \<and> (articleCount detectedCategory language d \<ge> 10
            \<and> (\<forall>c \<in> set (db_categories d). cat_key c \<noteq> detectedCategory)
            \<longrightarrow> (\<exists>c. createDynamicCategory uc detectedCategory language d
                       = (Inr (Some (cat_id c)),
                          d\<lparr> db_categories := db_categories d @ [c], db_nextId := db_nextId d + 1 \<rparr>)
                     \<and> cat_isDynamic c \<and> cat_key c = detectedCategory
                     \<and> cat_language c = Some (storedForm uc language)
                     \<and> cat_id c = db_nextId d))
       \<and> (articleCount detectedCategory language d \<ge> 10
            \<and> (\<exists>c \<in> set (db_categories d). cat_key c = detectedCategory)
            \<longrightarrow> createDynamicCategory uc detectedCategory language d = (Inl DuplicateKey, d))"
proof -
  note key = dict_key_stored [OF assms(1)]
  note tab = dict_key_tables [OF assms(1)]
  have guard: "\<not> (detectedCategory = [] \<or> detectedCategory = u ''general''
      \<or> detectedCategory = u ''uncategorized'')"
    using key by simp
  have low: "articleCount detectedCategory language d < 10
      \<longrightarrow> createDynamicCategory uc detectedCategory language d = (Inr None, d)"
    using guard assms(2) by (simp add: createDynamicCategory_def)
  have fresh: "articleCount detectedCategory language d \<ge> 10
      \<and> (\<forall>c \<in> set (db_categories d). cat_key c \<noteq> detectedCategory)
      \<longrightarrow> (\<exists>c. createDynamicCategory uc detectedCategory language d
                 = (Inr (Some (cat_id c)),
                    d\<lparr> db_categories := db_categories d @ [c], db_nextId := db_nextId d + 1 \<rparr>)
               \<and> cat_isDynamic c \<and> cat_key c = detectedCategory
               \<and> cat_language c = Some (storedForm uc language)
               \<and> cat_id c = db_nextId d)"
  proof (intro impI, elim conjE)
    assume many: "articleCount detectedCategory language d \<ge> 10"
      and free: "\<forall>c \<in> set (db_categories d). cat_key c \<noteq> detectedCategory"
    define c where "c = \<lparr> cat_id = db_nextId d, cat_key = detectedCategory,
        cat_label = trim (lookupOr categoryLabels detectedCategory (capitalize uc detectedCategory)),
        cat_icon = lookupOr categoryIcons detectedCategory (u ''newspaper''),
        cat_color = lookupOr categoryColors detectedCategory (u ''#9CA3AF''),
        cat_parent = None, cat_order = 100, cat_active = True,
        cat_language = Some (storedForm uc language), cat_isDynamic = True \<rparr>"
    have "createDynamicCategory uc detectedCategory language d
        = (Inr (Some (cat_id c)),
           d\<lparr> db_categories := db_categories d @ [c], db_nextId := db_nextId d + 1 \<rparr>)"
      using guard assms(2) key(1) tab many free
      by (simp add: createDynamicCategory_def Category_create_def Let_def list_ex_iff c_def)
    moreover have "cat_isDynamic c \<and> cat_key c = detectedCategory
        \<and> cat_language c = Some (storedForm uc language) \<and> cat_id c = db_nextId d"
      by (simp add: c_def)
    ultimately show "\<exists>c. createDynamicCategory uc detectedCategory language d
                 = (Inr (Some (cat_id c)),
                    d\<lparr> db_categories := db_categories d @ [c], db_nextId := db_nextId d + 1 \<rparr>)
               \<and> cat_isDynamic c \<and> cat_key c = detectedCategory
               \<and> cat_language c = Some (storedForm uc language)
               \<and> cat_id c = db_nextId d"
      by blast
  qed
  have taken: "articleCount detectedCategory language d \<ge> 10
      \<and> (\<exists>c \<in> set (db_categories d). cat_key c = detectedCategory)
      \<longrightarrow> createDynamicCategory uc detectedCategory language d = (Inl DuplicateKey, d)"
    using guard assms(2) key(1) tab
    by (auto simp: createDynamicCategory_def Category_create_def Let_def list_ex_iff)
  from low fresh taken show ?thesis by blast
qed

text \<open>An article of language \<open>te\<close> whose detected category is \<open>technology\<close>, and stores with nine and ten of them.\<close>

definition teTechnologyArticle :: article where
  "teTechnologyArticle =
     \<lparr> art_title = u ''t'', art_slug = u ''t'', art_summary = [], art_content = [],
       art_images = [], art_category = None, art_categories = [],
       art_categoryDetected = Some (u ''technology''), art_tags = [], art_author = None,
       art_language = u ''te'', art_sourceName = None, art_sourceUrl = None,
       art_sourceId = None, art_status = u ''scraped'', art_publishedAt = Num 0,
       art_scrapedAt = 0, art_canonicalUrl = u ''https://example.org/t'', art_thumbnail = None,
       art_wordCount = 0, art_readingTime = 0, art_metaDescription = [], art_hash = u ''h'' \<rparr>"

definition storeWith :: "nat \<Rightarrow> db" where
  "storeWith n = \<lparr> db_articles = replicate n teTechnologyArticle, db_categories = [], db_nextId = 0 \<rparr>"

lemma storeWith_count: "articleCount (u ''technology'') (u ''te'') (storeWith n) = n"
  by (simp add: articleCount_def storeWith_def teTechnologyArticle_def)

lemma storeWith_find: "findCategory (u ''technology'') (u ''te'') (storeWith n) = None"
  by (simp add: findCategory_def storeWith_def)

lemma technology_key: "u ''technology'' \<in> fst ` set dict"
  by (simp add: dict_keys)

theorem dynamic_category_threshold_witness:
  "u ''technology'' \<in> fst ` set dict
   \<and> findCategory (u ''technology'') (u ''te'') (storeWith 10) = None
   \<and> articleCount (u ''technology'') (u ''te'') (storeWith 10) = 10
   \<and> (\<exists>c. createDynamicCategory plainUnicode (u ''technology'') (u ''te'') (storeWith 10)
           = (Inr (Some (cat_id c)),
              (storeWith 10)\<lparr> db_categories := [c], db_nextId := 1 \<rparr>)
         \<and> cat_isDynamic c \<and> cat_key c = u ''technology'')
   \<and> createDynamicCategory plainUnicode (u ''technology'') (u ''te'') (storeWith 8)
       = (Inr None, storeWith 8)"
proof -
  note t10 = dynamic_category_threshold [OF technology_key storeWith_find, of 10 plainUnicode]
  note t8 = dynamic_category_threshold [OF technology_key storeWith_find, of 8 plainUnicode]
  have "\<exists>c. createDynamicCategory plainUnicode (u ''technology'') (u ''te'') (storeWith 10)
           = (Inr (Some (cat_id c)),
              (storeWith 10)\<lparr> db_categories := db_categories (storeWith 10) @ [c],
                               db_nextId := db_nextId (storeWith 10) + 1 \<rparr>)
         \<and> cat_isDynamic c \<and> cat_key c = u ''technology''
         \<and> cat_language c = Some (storedForm plainUnicode (u ''te''))
         \<and> cat_id c = db_nextId (storeWith 10)"
    using t10 by (simp add: storeWith_count) (simp add: storeWith_def)
  then have a: "\<exists>c. createDynamicCategory plainUnicode (u ''technology'') (u ''te'') (storeWith 10)
           = (Inr (Some (cat_id c)), (storeWith 10)\<lparr> db_categories := [c], db_nextId := 1 \<rparr>)
         \<and> cat_isDynamic c \<and> cat_key c = u ''technology''"
    by (auto simp: storeWith_def)
  have b: "createDynamicCategory plainUnicode (u ''technology'') (u ''te'') (storeWith 8)
      = (Inr None, storeWith 8)"
    using t8 by (simp add: storeWith_count)
  from a b technology_key storeWith_find storeWith_count show ?thesis by blast
qed

text \<open>
  C5 as the specification words it says that with nine persisted articles the
  classification of a tenth creates the category. The tenth article is not yet saved when
  \<open>createDynamicCategory\<close> counts (the call is at line 596, the save at line 647): the count
  is nine and nothing is created.
\<close>

theorem ninth_article_counterexample:
  "findCategory (u ''technology'') (u ''te'') (storeWith 9) = None
   \<and> articleCount (u ''technology'') (u ''te'') (storeWith 9) = 9
   \<and> createDynamicCategory plainUnicode (u ''technology'') (u ''te'') (storeWith 9)
       = (Inr None, storeWith 9)"
proof -
  have "u ''technology'' \<noteq> [] \<and> u ''technology'' \<noteq> u ''general''
      \<and> u ''technology'' \<noteq> u ''uncategorized''"
    by (simp add: u_def)
  then show ?thesis
    by (simp add: storeWith_count storeWith_find createDynamicCategory_def)
qed

section \<open>What the scraping service leaves unchanged\<close>

lemma extends_refl: "extends w w"
  by (simp add: extends_def)

lemma extends_trans: "extends w w1 \<Longrightarrow> extends w1 w2 \<Longrightarrow> extends w w2"
  by (auto simp: extends_def)

lemma extends_emit: "extends w (emit ev w)"
  by (simp add: extends_def emit_def)

lemma extends_module: "extends w (w\<lparr> w_module := m \<rparr>)"
  by (simp add: extends_def)

lemma extends_dateNow: "extends w (snd (dateNow env w))"
  by (simp add: dateNow_def extends_emit)

lemma readsOnlyD: "readsOnly m \<Longrightarrow> extends w (snd (m w))"
  by (simp add: readsOnly_def)

lemma readsOnly_ret: "readsOnly (ret a)"
  by (simp add: readsOnly_def ret_def extends_refl)

lemma readsOnly_throwError: "readsOnly (throwError e)"
  by (simp add: readsOnly_def throwError_def extends_refl)

lemma readsOnly_andThen:
  assumes "readsOnly m" and "\<And>a. readsOnly (f a)"
  shows "readsOnly (andThen m f)"
proof (unfold readsOnly_def, intro allI)
  fix w
  obtain r w1 where m: "m w = (r, w1)" by (cases "m w")
  have 1: "extends w w1" using readsOnlyD [OF assms(1), of w] m by simp
  show "extends w (snd (andThen m f w))"
  proof (cases r)
    case (Inl e)
    with m 1 show ?thesis by (simp add: andThen_def)
  next
    case (Inr a)
    have "extends w1 (snd (f a w1))" using readsOnlyD [OF assms(2)] .
    with 1 have "extends w (snd (f a w1))" by (rule extends_trans)
    with m Inr show ?thesis by (simp add: andThen_def)
  qed
qed

lemma readsOnly_tryCatch:
  assumes "readsOnly m" and "\<And>e. readsOnly (h e)"
  shows "readsOnly (tryCatch m h)"
proof (unfold readsOnly_def, intro allI)
  fix w
  obtain r w1 where m: "m w = (r, w1)" by (cases "m w")
  have 1: "extends w w1" using readsOnlyD [OF assms(1), of w] m by simp
  show "extends w (snd (tryCatch m h w))"
  proof (cases r)
    case (Inl e)
    have "extends w1 (snd (h e w1))" using readsOnlyD [OF assms(2)] .
    with 1 have "extends w (snd (h e w1))" by (rule extends_trans)
    with m Inl show ?thesis by (simp add: tryCatch_def)
  next
    case (Inr a)
    with m 1 show ?thesis by (simp add: tryCatch_def)
  qed
qed

lemma readsOnly_findOneByHash: "readsOnly (findOneByHash env hash)"
  by (simp add: readsOnly_def findOneByHash_def extends_emit)

lemma readsOnly_findOneByUrl: "readsOnly (findOneByUrl env url)"
  by (simp add: readsOnly_def findOneByUrl_def extends_emit)

lemma readsOnly_findOneBySlug: "readsOnly (findOneBySlug env slug)"
  by (simp add: readsOnly_def findOneBySlug_def extends_emit)

lemma readsOnly_axiosGet: "readsOnly (axiosGet env instance url accept)"
  by (simp add: readsOnly_def axiosGet_def extends_emit)

lemma readsOnly_parseURL: "readsOnly (parseURL env url)"
  by (simp add: readsOnly_def parseURL_def extends_emit)

lemma extends_createAxiosInstance: "extends w (snd (createAxiosInstance this useProxy w))"
  by (simp add: createAxiosInstance_def Let_def split_beta extends_module)

lemma extends_rateLimit: "extends w (rateLimit env w)"
proof -
  have "extends w (snd (dateNow env (snd (dateNow env w))))"
    using extends_dateNow extends_trans by blast
  then show ?thesis
    by (auto simp: rateLimit_def Let_def split_beta extends_def)
qed

lemma readsOnly_retryAttempts:
  assumes "readsOnly requestFn"
  shows "readsOnly (retryAttempts env n requestFn)"
proof (unfold readsOnly_def, intro allI)
  fix w
  show "extends w (snd (retryAttempts env n requestFn w))"
  proof (induction n arbitrary: w)
    case 0
    then show ?case by (simp add: extends_refl)
  next
    case (Suc n)
    obtain r w1 where m: "requestFn (rateLimit env w) = (r, w1)"
      by (cases "requestFn (rateLimit env w)")
    have "extends (rateLimit env w) w1"
      using readsOnlyD [OF assms, of "rateLimit env w"] m by simp
    with extends_rateLimit have 1: "extends w w1" by (rule extends_trans)
    show ?case
    proof (cases r)
      case (Inl e)
      with m 1 Suc.IH [of w1] show ?thesis
        by (auto intro: extends_trans)
    next
      case (Inr a)
      with m 1 show ?thesis by simp
    qed
  qed
qed

lemma readsOnly_retryRequest: "readsOnly requestFn \<Longrightarrow> readsOnly (retryRequest env requestFn)"
  by (simp add: retryRequest_def readsOnly_retryAttempts)

lemma readsOnly_withInstance:
  assumes "\<And>instance. readsOnly (f instance)"
  shows "readsOnly (\<lambda>w. let (axiosInstance, w1) = createAxiosInstance this useProxy w
                       in f axiosInstance w1)"
proof (unfold readsOnly_def, intro allI)
  fix w
  obtain i w1 where c: "createAxiosInstance this useProxy w = (i, w1)"
    by (cases "createAxiosInstance this useProxy w")
  have "extends w w1" using extends_createAxiosInstance [of w this useProxy] c by simp
  moreover have "extends w1 (snd (f i w1))" using readsOnlyD [OF assms] .
  ultimately have "extends w (snd (f i w1))" by (rule extends_trans)
  with c show "extends w (snd (let (axiosInstance, w1) = createAxiosInstance this useProxy w
                       in f axiosInstance w1))" by simp
qed

lemma readsOnly_fetchArticleContent: "readsOnly (fetchArticleContent env this url)"
  unfolding fetchArticleContent_def
  by (intro readsOnly_tryCatch readsOnly_retryRequest readsOnly_withInstance
      readsOnly_axiosGet readsOnly_ret)

lemma readsOnly_metaTags:
  "readsOnly (case r of Inl e \<Rightarrow> throwError e | Inr og \<Rightarrow> ret og)"
  for r :: "error + og_data"
  by (cases r) (simp_all add: readsOnly_ret readsOnly_throwError)

lemma readsOnly_extractOpenGraphData: "readsOnly (extractOpenGraphData env this url)"
  unfolding extractOpenGraphData_def
  by (intro readsOnly_tryCatch readsOnly_retryRequest readsOnly_withInstance readsOnly_ret
      readsOnly_andThen readsOnly_axiosGet readsOnly_metaTags)

lemma readsOnly_finishArticle:
  "readsOnly (finishArticle env item source fastMode title link summary publishedAt hash
      fullContent openGraphData scrapedImages)"
  unfolding finishArticle_def Let_def
  by (cases "if fastMode then Inr (take 1000 summary) else cleanContent env fullContent")
    (simp_all add: readsOnly_ret readsOnly_throwError)

lemma extends_itemPublishedAt: "extends w (snd (itemPublishedAt env item w))"
  by (auto simp: itemPublishedAt_def split_beta extends_refl extends_dateNow split: option.splits)

lemma readsOnly_images:
  "readsOnly (case r of Inl e \<Rightarrow> throwError e
      | Inr scrapedImages \<Rightarrow> finishArticle env item source fastMode title link summary
          publishedAt hash fullContent openGraphData scrapedImages)"
  for r :: "error + image list"
  by (cases r) (simp_all add: readsOnly_throwError readsOnly_finishArticle)

lemma readsOnly_afterLookup:
  "readsOnly (afterLookup env this item source fastMode title link summary publishedAt hash)"
  unfolding afterLookup_def
  by (intro readsOnly_andThen readsOnly_images)
    (simp_all add: readsOnly_ret readsOnly_fetchArticleContent readsOnly_extractOpenGraphData)

lemma scrapeArticleTry_unfold:
  "scrapeArticleTry env this item source mode w0 =
     (if itemTitle item = [] \<or> itemLink item = [] then (Inr None, snd (itemPublishedAt env item w0))
      else case s_id source of
        None \<Rightarrow> (Inl TypeError, snd (itemPublishedAt env item w0))
      | Some sourceId \<Rightarrow>
          andThen (findOneByHash env (generateHash (itemTitle item @ itemSummary item @ sourceId)))
            (\<lambda>existing.
               if existing \<noteq> None then ret None
               else afterLookup env this item source (isFastMode mode) (itemTitle item)
                      (itemLink item) (itemSummary item) (fst (itemPublishedAt env item w0))
                      (generateHash (itemTitle item @ itemSummary item @ sourceId)))
            (snd (itemPublishedAt env item w0)))"
  by (simp add: scrapeArticleTry_def Let_def split_beta split: option.splits)

lemma readsOnly_scrapeArticleTry: "readsOnly (scrapeArticleTry env this item source mode)"
proof (unfold readsOnly_def, intro allI)
  fix w0
  let ?w = "snd (itemPublishedAt env item w0)"
  have 0: "extends w0 ?w" by (rule extends_itemPublishedAt)
  show "extends w0 (snd (scrapeArticleTry env this item source mode w0))"
  proof (cases "itemTitle item = [] \<or> itemLink item = []")
    case True
    with 0 show ?thesis by (simp add: scrapeArticleTry_unfold)
  next
    case False
    show ?thesis
    proof (cases "s_id source")
      case None
      with False 0 show ?thesis by (simp add: scrapeArticleTry_unfold)
    next
      case (Some sourceId)
      let ?h = "generateHash (itemTitle item @ itemSummary item @ sourceId)"
      have "readsOnly (andThen (findOneByHash env ?h)
          (\<lambda>existing. if existing \<noteq> None then ret None
             else afterLookup env this item source (isFastMode mode) (itemTitle item)
                    (itemLink item) (itemSummary item) (fst (itemPublishedAt env item w0)) ?h))"
        by (intro readsOnly_andThen readsOnly_findOneByHash)
          (simp add: readsOnly_ret readsOnly_afterLookup)
      from readsOnlyD [OF this, of ?w]
      have "extends ?w (snd (scrapeArticleTry env this item source mode w0))"
        using False Some by (simp add: scrapeArticleTry_unfold)
      with 0 show ?thesis by (rule extends_trans)
    qed
  qed
qed

lemma readsOnly_scrapeArticle: "readsOnly (scrapeArticle env this item source mode)"
  unfolding scrapeArticle_def
  by (intro readsOnly_tryCatch readsOnly_scrapeArticleTry readsOnly_ret)

section \<open>Facts about the scenario\<close>

lemma u_nonempty: "u (c # cs) \<noteq> []"
  by (simp add: u_def)

lemma budgetItem_fields:
  "itemTitle budgetItem = u ''Budget vote today''"
  "itemLink budgetItem = u ''https://example.org/a''"
  "itemSummary budgetItem = u ''Parliament votes''"
  "publishedAtEvents budgetItem = [ClockRead]"
  by (simp_all add: itemTitle_def itemLink_def itemSummary_def orString_def orElse_def truthy_def
      budgetItem_def publishedAtEvents_def u_nonempty)

lemma budgetArticle_keys:
  "art_hash budgetArticle
     = generateHash (u ''Budget vote today'' @ u ''Parliament votes'' @ u ''65a1'')"
  "art_canonicalUrl budgetArticle = u ''https://example.org/a''"
  "art_slug budgetArticle = u ''Budget vote today''"
  by (simp_all add: budgetArticle_def newArticle_def Let_def budgetScraped_def)

lemma storedWorld_articles: "w_articles storedWorld = [budgetArticle]"
  by (simp add: storedWorld_def emptyWorld_def)

section \<open>The per-item pipeline: claims C2, C3 and C10\<close>

lemma itemPublishedAt_trace:
  "w_trace (snd (itemPublishedAt env item w)) = w_trace w @ publishedAtEvents item"
  by (auto simp: itemPublishedAt_def publishedAtEvents_def dateNow_def emit_def truthy_def
      split: option.splits)

lemma itemTitle_empty: "itemTitle item = [] \<longleftrightarrow> \<not> truthy (i_title item)"
  by (auto simp: itemTitle_def orString_def truthy_def split: option.splits)

lemma itemLink_empty: "itemLink item = [] \<longleftrightarrow> \<not> truthy (orElse (i_link item) (i_url item))"
  by (auto simp: itemLink_def orString_def truthy_def split: option.splits)

lemma scrapeArticle_cases:
  "scrapeArticle env this item source mode w =
     (case scrapeArticleTry env this item source mode w of
        (Inl e, w1) \<Rightarrow> (Inr None, w1)
      | (Inr r, w1) \<Rightarrow> (Inr r, w1))"
  by (simp add: scrapeArticle_def tryCatch_def ret_def split: prod.splits sum.splits)

lemma finishArticle_result:
  assumes "finishArticle env item source fastMode title link summary publishedAt hash
      fullContent openGraphData scrapedImages w = (Inr (Some a), w')"
  shows "sc_hash a = hash \<and> sc_sourceUrl a = link \<and> sc_title a = title"
  using assms
  by (auto simp: finishArticle_def Let_def ret_def throwError_def split: sum.splits if_splits)

lemma afterLookup_result:
  assumes "afterLookup env this item source fastMode title link summary publishedAt hash w
      = (Inr (Some a), w')"
  shows "sc_hash a = hash \<and> sc_sourceUrl a = link \<and> sc_title a = title"
proof -
  let ?first = "if fastMode \<or> s_type source = Some (u ''api'') then ret []
      else fetchArticleContent env this link"
  obtain r1 w1 where f: "?first w = (r1, w1)" by (cases "?first w")
  from assms f obtain fullContent where r1: "r1 = Inr fullContent"
    by (cases r1) (auto simp: afterLookup_def andThen_def)
  let ?second = "if fastMode then ret emptyOg
      else if fullContent \<noteq> [] then ret (extractOpenGraphFromHtml env fullContent)
      else extractOpenGraphData env this link"
  obtain r2 w2 where s: "?second w1 = (r2, w2)" by (cases "?second w1")
  from assms f r1 s obtain openGraphData where r2: "r2 = Inr openGraphData"
    by (cases r2) (auto simp: afterLookup_def andThen_def)
  let ?images = "if \<not> fastMode \<and> fullContent \<noteq> [] then extractImages env fullContent link
      else Inr []"
  from assms f r1 s r2 obtain scrapedImages where
    "finishArticle env item source fastMode title link summary publishedAt hash
      fullContent openGraphData scrapedImages w2 = (Inr (Some a), w')"
    by (cases ?images) (auto simp: afterLookup_def andThen_def throwError_def)
  then show ?thesis by (rule finishArticle_result)
qed

lemma scrapeArticle_some:
  assumes "fst (scrapeArticle env this item source mode w) = Inr (Some a)"
  shows "itemTitle item \<noteq> [] \<and> itemLink item \<noteq> []
    \<and> (\<exists>sourceId. s_id source = Some sourceId
          \<and> sc_hash a = generateHash (itemTitle item @ itemSummary item @ sourceId)
          \<and> find (\<lambda>b. art_hash b = sc_hash a) (w_articles w) = None)
    \<and> sc_sourceUrl a = itemLink item \<and> sc_title a = itemTitle item"
proof -
  let ?w = "snd (itemPublishedAt env item w)"
  have stay: "w_articles ?w = w_articles w"
    using extends_itemPublishedAt [of w env item] by (simp add: extends_def)
  obtain r w' where t: "scrapeArticleTry env this item source mode w = (r, w')"
    by (cases "scrapeArticleTry env this item source mode w")
  with assms have r: "r = Inr (Some a)"
    by (cases r) (simp_all add: scrapeArticle_cases)
  from t r have ne: "itemTitle item \<noteq> [] \<and> itemLink item \<noteq> []"
    by (auto simp: scrapeArticleTry_unfold)
  from t r ne obtain sourceId where sid: "s_id source = Some sourceId"
    by (cases "s_id source") (auto simp: scrapeArticleTry_unfold)
  let ?h = "generateHash (itemTitle item @ itemSummary item @ sourceId)"
  obtain r0 w0 where l: "findOneByHash env ?h ?w = (r0, w0)" by (cases "findOneByHash env ?h ?w")
  from t r ne sid l have "r0 = Inr None"
    by (cases r0) (auto simp: scrapeArticleTry_unfold andThen_def ret_def split: if_splits)
  with l have none: "find (\<lambda>b. art_hash b = ?h) (w_articles w) = None"
    by (auto simp: findOneByHash_def stay split: if_splits)
  from t r ne sid l \<open>r0 = Inr None\<close>
  have "afterLookup env this item source (isFastMode mode) (itemTitle item) (itemLink item)
      (itemSummary item) (fst (itemPublishedAt env item w)) ?h w0 = (Inr (Some a), w')"
    by (simp add: scrapeArticleTry_unfold andThen_def)
  from afterLookup_result [OF this] ne sid none show ?thesis by simp
qed

text \<open>
  C10. \<open>scrapeArticle\<close> never passes an error on: its result is always a value. Without a
  title, or without a link (\<open>link\<close> or \<open>url\<close>), the value is \<open>null\<close>; when anything inside
  throws, the value is \<open>null\<close>; and in every case the article store is what it was.
\<close>

theorem scrapeArticle_total:
  "(\<exists>r. fst (scrapeArticle env this item source mode w) = Inr r)
   \<and> (\<not> truthy (i_title item) \<or> \<not> truthy (orElse (i_link item) (i_url item))
        \<longrightarrow> fst (scrapeArticle env this item source mode w) = Inr None)
   \<and> ((\<exists>e. fst (scrapeArticleTry env this item source mode w) = Inl e)
        \<longrightarrow> fst (scrapeArticle env this item source mode w) = Inr None)
   \<and> w_articles (snd (scrapeArticle env this item source mode w)) = w_articles w"
proof (intro conjI impI)
  show "\<exists>r. fst (scrapeArticle env this item source mode w) = Inr r"
    by (auto simp: scrapeArticle_cases split: prod.splits sum.splits)
  show "fst (scrapeArticle env this item source mode w) = Inr None"
    if "\<not> truthy (i_title item) \<or> \<not> truthy (orElse (i_link item) (i_url item))"
    using that by (auto simp: scrapeArticle_cases scrapeArticleTry_unfold itemTitle_empty itemLink_empty)
  show "fst (scrapeArticle env this item source mode w) = Inr None"
    if "\<exists>e. fst (scrapeArticleTry env this item source mode w) = Inl e"
    using that by (auto simp: scrapeArticle_cases split: prod.splits sum.splits)
  show "w_articles (snd (scrapeArticle env this item source mode w)) = w_articles w"
    using readsOnlyD [OF readsOnly_scrapeArticle] by (simp add: extends_def)
qed

theorem scrapeArticle_total_witness:
  "fst (scrapeArticle quietEnv theService untitledItem dailySource None emptyWorld) = Inr None
   \<and> fst (scrapeArticleTry quietEnv theService budgetItem anonymousSource None emptyWorld)
       = Inl TypeError
   \<and> fst (scrapeArticle quietEnv theService budgetItem anonymousSource None emptyWorld) = Inr None
   \<and> w_articles (snd (scrapeArticle quietEnv theService budgetItem dailySource None storedWorld))
       = [budgetArticle]"
  using scrapeArticle_total [of quietEnv theService untitledItem dailySource None emptyWorld]
    scrapeArticle_total [of quietEnv theService budgetItem anonymousSource None emptyWorld]
    scrapeArticle_total [of quietEnv theService budgetItem dailySource None storedWorld]
  by (simp add: scrapeArticleTry_unfold itemTitle_def itemLink_def orString_def orElse_def
      truthy_def untitledItem_def budgetItem_def anonymousSource_def dailySource_def
      storedWorld_def emptyWorld_def u_def)

lemma newEvents_append: "w_trace w' = w_trace w @ evs \<Longrightarrow> newEvents w w' = evs"
  by (simp add: newEvents_def)

lemma scrapeArticle_world:
  "snd (scrapeArticle env this item source mode w) = snd (scrapeArticleTry env this item source mode w)"
  by (simp add: scrapeArticle_cases split: prod.splits sum.splits)

lemma publishedAtEvents_quiet: "ev \<in> set (publishedAtEvents item) \<Longrightarrow> \<not> isFetch ev"
  by (auto simp: publishedAtEvents_def split: if_splits)

lemma find_hash_None:
  "find (\<lambda>a. art_hash a = h) articles = None \<longleftrightarrow> (\<forall>a\<in>set articles. art_hash a \<noteq> h)"
  by (auto simp: find_None_iff)

text \<open>
  The course of \<open>scrapeArticle\<close> for an item with a title and a link, from a source with an
  \<open>id\<close>: the date, the lookup by hash, and only when the lookup has answered that there
  is no such article, the rest.
\<close>

lemma scrapeArticle_course:
  fixes env :: env and this :: scraping_service and mode :: "ustring option" and w :: world
  assumes "itemTitle item \<noteq> []" and "itemLink item \<noteq> []" and "s_id source = Some sourceId"
  defines "h \<equiv> generateHash (itemTitle item @ itemSummary item @ sourceId)"
  defines "w' \<equiv> snd (scrapeArticle env this item source mode w)"
  shows "\<exists>post. newEvents w w' = publishedAtEvents item @ FindOneByHash h # post
      \<and> (post \<noteq> [] \<longrightarrow> (\<forall>a\<in>set (w_articles w). art_hash a \<noteq> h))
      \<and> ((\<exists>a\<in>set (w_articles w). art_hash a = h)
            \<longrightarrow> fst (scrapeArticle env this item source mode w) = Inr None)"
proof -
  let ?wp = "snd (itemPublishedAt env item w)"
  let ?w0 = "emit (FindOneByHash h) ?wp"
  have stay: "w_articles ?wp = w_articles w"
    using extends_itemPublishedAt [of w env item] by (simp add: extends_def)
  have t0: "w_trace ?w0 = w_trace w @ publishedAtEvents item @ [FindOneByHash h]"
    by (simp add: emit_def itemPublishedAt_trace)
  obtain r0 where l: "findOneByHash env h ?wp = (r0, ?w0)"
    by (simp add: findOneByHash_def)
  show ?thesis
  proof (cases "r0 = Inr None")
    case True
    let ?rest = "afterLookup env this item source (isFastMode mode) (itemTitle item)
        (itemLink item) (itemSummary item) (fst (itemPublishedAt env item w)) h"
    from True l have none: "\<forall>a\<in>set (w_articles w). art_hash a \<noteq> h"
      by (auto simp: findOneByHash_def stay find_hash_None split: if_splits)
    from assms(1-3) l True have "w' = snd (?rest ?w0)"
      by (simp add: w'_def scrapeArticle_world scrapeArticleTry_unfold andThen_def h_def)
    moreover have "extends ?w0 (snd (?rest ?w0))"
      by (rule readsOnlyD [OF readsOnly_afterLookup])
    then obtain evs where "w_trace (snd (?rest ?w0)) = w_trace ?w0 @ evs"
      unfolding extends_def by blast
    ultimately have "w_trace w' = w_trace w @ publishedAtEvents item @ FindOneByHash h # evs"
      by (simp add: t0)
    then have "newEvents w w' = publishedAtEvents item @ FindOneByHash h # evs"
      by (rule newEvents_append)
    with none show ?thesis by auto
  next
    case False
    from assms(1-3) l False have tried: "scrapeArticleTry env this item source mode w
        = (case r0 of Inl e \<Rightarrow> Inl e | Inr existing \<Rightarrow> Inr None, ?w0)"
      by (cases r0) (auto simp: scrapeArticleTry_unfold andThen_def ret_def h_def)
    then have "w' = ?w0"
      by (simp add: w'_def scrapeArticle_world)
    with t0 have "newEvents w w' = publishedAtEvents item @ FindOneByHash h # []"
      by (simp add: newEvents_append)
    moreover from tried have "fst (scrapeArticle env this item source mode w) = Inr None"
      by (cases r0) (simp_all add: scrapeArticle_cases)
    ultimately show ?thesis by blast
  qed
qed

text \<open>
  C3. When an article with the item's content hash is in the store, \<open>scrapeArticle\<close>
  returns \<open>null\<close> and has asked for no page and no feed: all it did is read the date of the
  item and look the hash up. Whenever a request does go out, the lookup by hash came
  before it and found no article.
\<close>

theorem hash_lookup_before_fetch:
  assumes "itemTitle item \<noteq> []" and "itemLink item \<noteq> []" and "s_id source = Some sourceId"
  shows "((\<exists>a\<in>set (w_articles w).
              art_hash a = generateHash (itemTitle item @ itemSummary item @ sourceId))
            \<longrightarrow> fst (scrapeArticle env this item source mode w) = Inr None
              \<and> newEvents w (snd (scrapeArticle env this item source mode w))
                  = publishedAtEvents item
                    @ [FindOneByHash (generateHash (itemTitle item @ itemSummary item @ sourceId))]
              \<and> (\<forall>ev\<in>set (newEvents w (snd (scrapeArticle env this item source mode w))).
                    \<not> isFetch ev))
      \<and> ((\<exists>ev\<in>set (newEvents w (snd (scrapeArticle env this item source mode w))). isFetch ev)
            \<longrightarrow> (\<forall>a\<in>set (w_articles w).
                    art_hash a \<noteq> generateHash (itemTitle item @ itemSummary item @ sourceId))
              \<and> (\<exists>post. newEvents w (snd (scrapeArticle env this item source mode w))
                    = publishedAtEvents item
                      @ FindOneByHash (generateHash (itemTitle item @ itemSummary item @ sourceId))
                      # post))"
proof -
  let ?h = "generateHash (itemTitle item @ itemSummary item @ sourceId)"
  let ?new = "newEvents w (snd (scrapeArticle env this item source mode w))"
  from scrapeArticle_course [OF assms, of w env this mode]
  obtain post where new: "?new = publishedAtEvents item @ FindOneByHash ?h # post"
    and post: "post \<noteq> [] \<longrightarrow> (\<forall>a\<in>set (w_articles w). art_hash a \<noteq> ?h)"
    and skip: "(\<exists>a\<in>set (w_articles w). art_hash a = ?h)
        \<longrightarrow> fst (scrapeArticle env this item source mode w) = Inr None"
    by blast
  have quiet: "\<forall>ev\<in>set (publishedAtEvents item @ [FindOneByHash ?h]). \<not> isFetch ev"
    by (auto dest: publishedAtEvents_quiet)
  show ?thesis
  proof (intro conjI impI)
    assume ex: "\<exists>a\<in>set (w_articles w). art_hash a = ?h"
    with skip show "fst (scrapeArticle env this item source mode w) = Inr None" by simp
    from ex post have "post = []" by blast
    with new show "?new = publishedAtEvents item @ [FindOneByHash ?h]" by simp
    with quiet show "\<forall>ev\<in>set ?new. \<not> isFetch ev" by simp
  next
    assume "\<exists>ev\<in>set ?new. isFetch ev"
    with new quiet have "post \<noteq> []" by auto
    with post show "\<forall>a\<in>set (w_articles w). art_hash a \<noteq> ?h" by simp
    from new show "\<exists>post. ?new = publishedAtEvents item @ FindOneByHash ?h # post" by blast
  qed
qed

theorem hash_lookup_before_fetch_witness:
  "fst (scrapeArticle quietEnv theService budgetItem dailySource None storedWorld) = Inr None
   \<and> newEvents storedWorld
         (snd (scrapeArticle quietEnv theService budgetItem dailySource None storedWorld))
       = [ClockRead,
          FindOneByHash (generateHash (u ''Budget vote today'' @ u ''Parliament votes'' @ u ''65a1''))]"
  using hash_lookup_before_fetch
    [of budgetItem dailySource "u ''65a1''" storedWorld quietEnv theService None]
  by (simp add: budgetItem_fields budgetArticle_keys storedWorld_articles u_nonempty
      dailySource_def)

section \<open>The content hash: claim C2\<close>

text \<open>In fast mode nothing is fetched: an item that passes the lookup is returned.\<close>

lemma scrapeArticle_fast:
  assumes "itemTitle item \<noteq> []" and "itemLink item \<noteq> []" and "s_id source = Some sourceId"
    and "\<not> e_dbFault env (tick (snd (itemPublishedAt env item w)))"
    and "\<forall>a\<in>set (w_articles w).
           art_hash a \<noteq> generateHash (itemTitle item @ itemSummary item @ sourceId)"
  shows "\<exists>a. fst (scrapeArticle env this item source (Some (u ''fast'')) w) = Inr (Some a)
      \<and> sc_title a = itemTitle item \<and> sc_sourceUrl a = itemLink item
      \<and> sc_hash a = generateHash (itemTitle item @ itemSummary item @ sourceId)"
proof -
  let ?wp = "snd (itemPublishedAt env item w)"
  have stay: "w_articles ?wp = w_articles w"
    using extends_itemPublishedAt [of w env item] by (simp add: extends_def)
  from assms(5) have "find (\<lambda>a. art_hash a
      = generateHash (itemTitle item @ itemSummary item @ sourceId)) (w_articles ?wp) = None"
    by (simp add: stay find_hash_None)
  with assms(1-4) show ?thesis
    by (simp add: scrapeArticle_cases scrapeArticleTry_unfold andThen_def findOneByHash_def
        afterLookup_def finishArticle_def isFastMode_def ret_def Let_def)
qed

lemma md5_chunks_numeral:
  "chunks (numeral k) n xs = take n xs # chunks (pred_numeral k) n (drop n xs)"
  by (simp add: numeral_eq_Suc)

lemma md5_replicate_numeral: "replicate (numeral k) x = x # replicate (pred_numeral k) x"
  by (simp add: numeral_eq_Suc)

lemma upt_from_0:
  "[0..<64] = 0 # 1 # [2..<64]" "[0..<8] = 0 # 1 # [2..<8]" "[0..<4] = 0 # 1 # [2..<4]"
  by (simp_all add: upt_rec)

lemmas md5_eval =
  md5Hex_def md5_def md5Block_def blocks_def zeroPad_def bytesLE_def hexBytes_def hexDigit_def
  wordLE_def md5T_def md5S_def md5F_def md5G_def u_def utf8CodePoint_def isHighSurrogate_def
  isLowSurrogate_def md5_chunks_numeral md5_replicate_numeral upt_from_0 rotl_def

lemma md5Hex_link_a:
  "md5Hex (u ''https://example.org/a'') = u ''5c31bd96c1d04a739e26947869bb5527''"
  by (simp add: md5_eval)

lemma md5Hex_link_b:
  "md5Hex (u ''https://example.org/b'') = u ''5a38a33b6b53a4be53600c66e39ef70f''"
  by (simp add: md5_eval)

lemma movedItem_fields:
  "itemTitle movedItem = u ''Budget vote today''"
  "itemLink movedItem = u ''https://example.org/b''"
  "itemSummary movedItem = u ''Parliament votes''"
  by (simp_all add: itemTitle_def itemLink_def itemSummary_def orString_def orElse_def truthy_def
      movedItem_def budgetItem_def u_nonempty)

lemma itemHash_link:
  assumes "i_link item = Some link" and "link \<noteq> []"
  shows "itemHash stringify item = md5Hex link"
  using assms
  by (simp add: itemHash_def script_generateHash_def itemHashInput_def orElse_def orString_def
      truthy_def)

lemma itemHash_title:
  assumes "\<not> truthy (i_link item)" and "i_title item = Some title" and "title \<noteq> []"
  shows "itemHash stringify item = md5Hex title"
  using assms
  by (simp add: itemHash_def script_generateHash_def itemHashInput_def orElse_def orString_def)

text \<open>
  C2, as the code has it. In the scraping service the hash of a returned article is the
  SHA-256 digest, in hexadecimal, of title, summary and \<open>source.id\<close> put together, whatever
  the link, the mode, the clock, the network and the store: two calls that agree on the
  three give the same hash. In the scraper script the hash is the MD5 digest of the link
  of the item, and of the title only when the item has no link: it does not depend on
  summary or source, and it does depend on the link.
\<close>

theorem content_hash_deterministic:
  "(fst (scrapeArticle env this item source mode w) = Inr (Some a)
      \<longrightarrow> (\<exists>sourceId. s_id source = Some sourceId
            \<and> sc_hash a = sha256Hex (itemTitle item @ itemSummary item @ sourceId)))
   \<and> (fst (scrapeArticle env this item source mode w) = Inr (Some a)
        \<and> fst (scrapeArticle env' this' item' source' mode' w') = Inr (Some a')
        \<and> itemTitle item' = itemTitle item \<and> itemSummary item' = itemSummary item
        \<and> s_id source' = s_id source
      \<longrightarrow> sc_hash a' = sc_hash a)
   \<and> (i_link item = Some link \<and> link \<noteq> [] \<longrightarrow> itemHash stringify item = md5Hex link)
   \<and> (\<not> truthy (i_link item) \<and> i_title item = Some title \<and> title \<noteq> []
      \<longrightarrow> itemHash stringify item = md5Hex title)"
proof (intro conjI impI)
  assume "fst (scrapeArticle env this item source mode w) = Inr (Some a)"
  from scrapeArticle_some [OF this]
  show "\<exists>sourceId. s_id source = Some sourceId
      \<and> sc_hash a = sha256Hex (itemTitle item @ itemSummary item @ sourceId)"
    by (auto simp: generateHash_def)
next
  assume both: "fst (scrapeArticle env this item source mode w) = Inr (Some a)
      \<and> fst (scrapeArticle env' this' item' source' mode' w') = Inr (Some a')
      \<and> itemTitle item' = itemTitle item \<and> itemSummary item' = itemSummary item
      \<and> s_id source' = s_id source"
  from both scrapeArticle_some [of env this item source mode w a]
  obtain sourceId where 1: "s_id source = Some sourceId"
    "sc_hash a = generateHash (itemTitle item @ itemSummary item @ sourceId)"
    by blast
  from both scrapeArticle_some [of env' this' item' source' mode' w' a']
  obtain sourceId' where 2: "s_id source' = Some sourceId'"
    "sc_hash a' = generateHash (itemTitle item' @ itemSummary item' @ sourceId')"
    by blast
  from both 1 2 show "sc_hash a' = sc_hash a" by simp
next
  assume "i_link item = Some link \<and> link \<noteq> []"
  then show "itemHash stringify item = md5Hex link" by (simp add: itemHash_link)
next
  assume "\<not> truthy (i_link item) \<and> i_title item = Some title \<and> title \<noteq> []"
  then show "itemHash stringify item = md5Hex title" by (simp add: itemHash_title)
qed

lemma emptyWorld_clear:
  "w_articles emptyWorld = []" "\<not> e_dbFault quietEnv n"
  by (simp_all add: emptyWorld_def quietEnv_def)

theorem content_hash_deterministic_witness:
  "\<exists>a a'. fst (scrapeArticle quietEnv theService budgetItem dailySource fastOption emptyWorld)
        = Inr (Some a)
     \<and> fst (scrapeArticle quietEnv theService movedItem dailySource fastOption emptyWorld)
        = Inr (Some a')
     \<and> sc_hash a = sha256Hex (u ''Budget vote today'' @ u ''Parliament votes'' @ u ''65a1'')
     \<and> sc_hash a' = sc_hash a
     \<and> itemHash titleAsJson budgetItem = md5Hex (u ''https://example.org/a'')
     \<and> itemHash titleAsJson (budgetItem\<lparr> i_link := None \<rparr>) = md5Hex (u ''Budget vote today'')"
proof -
  have sid: "s_id dailySource = Some (u ''65a1'')" by (simp add: dailySource_def)
  obtain a where a: "fst (scrapeArticle quietEnv theService budgetItem dailySource fastOption
      emptyWorld) = Inr (Some a)"
    using scrapeArticle_fast [of budgetItem dailySource "u ''65a1''" quietEnv emptyWorld theService]
    by (auto simp: budgetItem_fields u_nonempty sid emptyWorld_clear fastOption_def)
  obtain a' where a': "fst (scrapeArticle quietEnv theService movedItem dailySource fastOption
      emptyWorld) = Inr (Some a')"
    using scrapeArticle_fast [of movedItem dailySource "u ''65a1''" quietEnv emptyWorld theService]
    by (auto simp: movedItem_fields u_nonempty sid emptyWorld_clear fastOption_def)
  have "i_link budgetItem = Some (u ''https://example.org/a'')"
    "\<not> truthy (i_link (budgetItem\<lparr> i_link := None \<rparr>))"
    "i_title (budgetItem\<lparr> i_link := None \<rparr>) = Some (u ''Budget vote today'')"
    by (simp_all add: budgetItem_def truthy_def)
  with a a' sid
    content_hash_deterministic [of quietEnv theService budgetItem dailySource fastOption
      emptyWorld a quietEnv theService movedItem dailySource fastOption emptyWorld a'
      "u ''https://example.org/a''" titleAsJson]
    content_hash_deterministic [of quietEnv theService "budgetItem\<lparr> i_link := None \<rparr>"
      dailySource fastOption emptyWorld a quietEnv theService movedItem dailySource fastOption
      emptyWorld a' "u ''https://example.org/a''" titleAsJson "u ''Budget vote today''"]
  show ?thesis
    by (simp add: budgetItem_fields movedItem_fields u_nonempty)
qed

text \<open>
  The same title, the same summary, the same source, another link: the script computes
  another hash.
\<close>

theorem link_changes_script_hash_counterexample:
  "itemTitle movedItem = itemTitle budgetItem
   \<and> itemSummary movedItem = itemSummary budgetItem
   \<and> itemHash titleAsJson movedItem \<noteq> itemHash titleAsJson budgetItem"
proof -
  have "itemHash titleAsJson budgetItem = u ''5c31bd96c1d04a739e26947869bb5527''"
    using itemHash_link [of budgetItem "u ''https://example.org/a''" titleAsJson]
    by (simp add: budgetItem_def u_nonempty md5Hex_link_a)
  moreover have "itemHash titleAsJson movedItem = u ''5a38a33b6b53a4be53600c66e39ef70f''"
    using itemHash_link [of movedItem "u ''https://example.org/b''" titleAsJson]
    by (simp add: movedItem_def u_nonempty md5Hex_link_b)
  moreover have "u ''5a38a33b6b53a4be53600c66e39ef70f'' \<noteq> u ''5c31bd96c1d04a739e26947869bb5527''"
    by (simp add: u_def)
  ultimately show ?thesis
    by (simp add: budgetItem_fields movedItem_fields)
qed

section \<open>Reading a feed: claim C6\<close>

lemma tick_emit: "tick (emit ev w) = tick w + 1"
  by (simp add: tick_def emit_def)

lemma tick_rateLimit: "tick (rateLimit env w) = tick w + 2"
  by (simp add: rateLimit_def dateNow_def tick_def emit_def)

lemma trace_rateLimit: "w_trace (rateLimit env w) = w_trace w @ [ClockRead, ClockRead]"
  by (simp add: rateLimit_def dateNow_def emit_def)

lemma trace_createAxiosInstance:
  "w_trace (snd (createAxiosInstance this useProxy w)) = w_trace w"
  by (simp add: createAxiosInstance_def Let_def split_beta)

lemma hasItems_Some: "hasItems (Some feed) \<longleftrightarrow> feedItems feed \<noteq> []"
  by (simp add: hasItems_def feedItems_def split: option.splits)

lemma fetchWithFallback_direct:
  assumes "e_httpGet env (tick w) url = Inr body"
  shows "fetchWithFallback env x url w = (Inr body, emit (HttpGet url (pickUA x w) acceptHtml) w)"
  using assms by (simp add: fetchWithFallback_def tryCatch_def scriptGet_def)

lemma relayGet_trace: "\<exists>evs. w_trace (snd (relayGet env x relay url accept w)) = w_trace w @ evs"
  by (simp add: relayGet_def throwError_def scriptGet_def emit_def split: option.splits)

lemma fetchWithFallback_trace:
  "\<exists>post. w_trace (snd (fetchWithFallback env x url w))
     = w_trace w @ HttpGet url (pickUA x w) acceptHtml # post"
proof -
  let ?w1 = "emit (HttpGet url (pickUA x w) acceptHtml) w"
  have 1: "w_trace ?w1 = w_trace w @ [HttpGet url (pickUA x w) acceptHtml]"
    by (simp add: emit_def)
  show ?thesis
  proof (cases "e_httpGet env (tick w) url")
    case (Inr body)
    then show ?thesis by (simp add: fetchWithFallback_direct emit_def)
  next
    case (Inl err)
    let ?jina = "relayGet env x (u ''https://r.jina.ai/'') url acceptFeed"
    let ?relay = "relayGet env x (u ''https://api.allorigins.win/raw?url='') url acceptDefault"
    obtain r2 w2 where j: "?jina ?w1 = (r2, w2)" by (cases "?jina ?w1")
    obtain evs2 where 2: "w_trace w2 = w_trace ?w1 @ evs2"
      using relayGet_trace [of env x "u ''https://r.jina.ai/''" url acceptFeed ?w1] j by auto
    obtain evs3 where 3: "w_trace (snd (?relay w2)) = w_trace w2 @ evs3"
      using relayGet_trace by blast
    from Inl j have "snd (fetchWithFallback env x url w)
        = (case r2 of Inl e \<Rightarrow> snd (?relay w2) | Inr data \<Rightarrow> w2)"
      by (simp add: fetchWithFallback_def tryCatch_def scriptGet_def split: sum.splits)
    with 1 2 3 show ?thesis by (cases r2) simp_all
  qed
qed

lemma fallbackFeed_trace:
  "\<exists>post. w_trace (snd (fallbackFeed env x rssUrl feed w))
     = w_trace w @ HttpGet rssUrl (pickUA x w) acceptHtml # post"
proof -
  have "snd (fallbackFeed env x rssUrl feed w) = snd (fetchWithFallback env x rssUrl w)"
    by (simp add: fallbackFeed_def andThen_def split: prod.splits sum.splits)
  with fetchWithFallback_trace [of env x rssUrl w] show ?thesis by simp
qed

lemma fallbackFeed_parsed:
  assumes "e_httpGet env (tick w) rssUrl = Inr body" and "e_parseString env body = Inr parsed"
    and "feedItems parsed \<noteq> []"
  shows "fst (fallbackFeed env x rssUrl feed w) = Some parsed"
  using assms by (simp add: fallbackFeed_def andThen_def fetchWithFallback_direct hasItems_Some)

text \<open>When the script falls back, and what it then returns.\<close>

lemma readFeed_primary:
  assumes "e_parseURL env (tick w) rssUrl = Inr feed" and "feedItems feed \<noteq> []"
  shows "readFeed env x rssUrl w = (Some feed, emit (ParseURL rssUrl) w)"
  using assms by (simp add: readFeed_def parseURL_def hasItems_Some)

lemma readFeed_fallback:
  assumes "(\<exists>err. e_parseURL env (tick w) rssUrl = Inl err)
      \<or> (\<exists>feed. e_parseURL env (tick w) rssUrl = Inr feed \<and> feedItems feed = [])"
  shows "\<exists>post. newEvents w (snd (readFeed env x rssUrl w))
      = ParseURL rssUrl
        # HttpGet rssUrl (pickUA x (emit (ParseURL rssUrl) w)) acceptHtml # post"
proof -
  let ?w1 = "emit (ParseURL rssUrl) w"
  let ?get = "HttpGet rssUrl (pickUA x ?w1) acceptHtml"
  have 1: "w_trace ?w1 = w_trace w @ [ParseURL rssUrl]" by (simp add: emit_def)
  from assms show ?thesis
  proof (elim disjE exE conjE)
    fix err assume err: "e_parseURL env (tick w) rssUrl = Inl err"
    obtain feed1 w2 where f: "fallbackFeed env x rssUrl None ?w1 = (feed1, w2)"
      by (cases "fallbackFeed env x rssUrl None ?w1")
    obtain post where 2: "w_trace w2 = w_trace ?w1 @ ?get # post"
      using fallbackFeed_trace [of env x rssUrl None ?w1] f by auto
    obtain post' where 3: "w_trace (snd (fallbackFeed env x rssUrl feed1 w2))
        = w_trace w2 @ post'"
      using fallbackFeed_trace [of env x rssUrl feed1 w2] by auto
    from err f have "snd (readFeed env x rssUrl w)
        = (if \<not> hasItems feed1 then snd (fallbackFeed env x rssUrl feed1 w2) else w2)"
      by (simp add: readFeed_def parseURL_def)
    with 1 2 3 have "\<exists>post. w_trace (snd (readFeed env x rssUrl w))
        = w_trace w @ ParseURL rssUrl # ?get # post"
      by (cases "hasItems feed1") simp_all
    then show ?thesis by (auto simp: newEvents_append)
  next
    fix feed assume feed: "e_parseURL env (tick w) rssUrl = Inr feed" "feedItems feed = []"
    obtain post where 2: "w_trace (snd (fallbackFeed env x rssUrl (Some feed) ?w1))
        = w_trace ?w1 @ ?get # post"
      using fallbackFeed_trace [of env x rssUrl "Some feed" ?w1] by auto
    from feed have "snd (readFeed env x rssUrl w) = snd (fallbackFeed env x rssUrl (Some feed) ?w1)"
      by (simp add: readFeed_def parseURL_def hasItems_Some)
    with 1 2 have "w_trace (snd (readFeed env x rssUrl w))
        = w_trace w @ ParseURL rssUrl # ?get # post"
      by simp
    then show ?thesis by (auto simp: newEvents_append)
  qed
qed

lemma readFeed_fallback_items:
  assumes "(\<exists>err. e_parseURL env (tick w) rssUrl = Inl err)
      \<or> (\<exists>feed. e_parseURL env (tick w) rssUrl = Inr feed \<and> feedItems feed = [])"
    and "e_httpGet env (tick w + 1) rssUrl = Inr body" and "e_parseString env body = Inr parsed"
    and "feedItems parsed \<noteq> []"
  shows "fst (readFeed env x rssUrl w) = Some parsed"
proof -
  let ?w1 = "emit (ParseURL rssUrl) w"
  have parsed: "fst (fallbackFeed env x rssUrl feed ?w1) = Some parsed" for feed
    using assms(2-4) by (simp add: fallbackFeed_parsed tick_emit)
  from assms(1) show ?thesis
  proof (elim disjE exE conjE)
    fix err assume err: "e_parseURL env (tick w) rssUrl = Inl err"
    obtain w2 where "fallbackFeed env x rssUrl None ?w1 = (Some parsed, w2)"
      using parsed [of None] by (cases "fallbackFeed env x rssUrl None ?w1") simp
    with err assms(4) show ?thesis
      by (simp add: readFeed_def parseURL_def hasItems_Some)
  next
    fix feed assume "e_parseURL env (tick w) rssUrl = Inr feed" "feedItems feed = []"
    then show ?thesis
      by (simp add: readFeed_def parseURL_def hasItems_Some parsed)
  qed
qed

text \<open>The service: the first attempt of \<open>retryRequest\<close> decides in both cases.\<close>

lemma fetchFeed_primary:
  assumes "e_parseURL env (tick w + 2) rssUrl = Inr feed"
  shows "fetchFeed env this rssUrl w = (Inr feed, emit (ParseURL rssUrl) (rateLimit env w))"
  using assms
  by (simp add: fetchFeed_def retryRequest_def numeral_3_eq_3 tryCatch_def parseURL_def
      tick_rateLimit)

lemma fetchFeed_fallback:
  assumes "e_parseURL env (tick w + 2) rssUrl = Inl err"
    and "e_httpGet env (tick w + 3) rssUrl = Inr body" and "e_parseString env body = Inr parsed"
  shows "fst (fetchFeed env this rssUrl w) = Inr parsed"
proof -
  let ?w1 = "emit (ParseURL rssUrl) (rateLimit env w)"
  obtain i w2 where c: "createAxiosInstance this False ?w1 = (i, w2)"
    by (cases "createAxiosInstance this False ?w1")
  have "tick w2 = tick w + 3"
    using trace_createAxiosInstance [of this False ?w1] c
    by (simp add: tick_def emit_def trace_rateLimit)
  with assms c show ?thesis
    by (simp add: fetchFeed_def retryRequest_def numeral_3_eq_3 tryCatch_def parseURL_def
        tick_rateLimit andThen_def axiosGet_def)
qed

lemma scrapeFeeds_single:
  assumes "fst (fetchFeed env this rssUrl w) = Inr feed"
  shows "snd (fst (scrapeFeeds env this source mode [rssUrl] w))
      = (1, 0, length (feedItems feed))"
  using assms
  by (cases "fetchFeed env this rssUrl w")
    (simp add: Let_def split_beta)

lemma fetchFeed_primary_events:
  assumes "e_parseURL env (tick w + 2) rssUrl = Inr feed"
  shows "newEvents w (snd (fetchFeed env this rssUrl w)) = [ClockRead, ClockRead, ParseURL rssUrl]"
  using assms
  by (simp add: fetchFeed_primary newEvents_def emit_def trace_rateLimit)

text \<open>
  C6, as the code has it. The scraper script falls back (asks for the raw document of the
  feed URL and parses its text) both when the structured parse throws and when it gives
  a feed without items, and then takes the items of the parsed document. The scraping
  service falls back only when the structured parse throws: then the parsed document is
  the feed and its items are counted. A feed that the structured parse returns, with
  items or without, is taken as it is, and no request for the raw document goes out.
\<close>

theorem feed_fallback:
  "(((\<exists>e. e_parseURL env (tick w) rssUrl = Inl e)
      \<or> (\<exists>feed. e_parseURL env (tick w) rssUrl = Inr feed \<and> feedItems feed = []))
     \<longrightarrow> (\<exists>post. newEvents w (snd (readFeed env x rssUrl w))
             = ParseURL rssUrl
               # HttpGet rssUrl (pickUA x (emit (ParseURL rssUrl) w)) acceptHtml # post)
       \<and> (e_httpGet env (tick w + 1) rssUrl = Inr body \<and> e_parseString env body = Inr parsed
            \<and> feedItems parsed \<noteq> []
          \<longrightarrow> fst (readFeed env x rssUrl w) = Some parsed))
   \<and> (e_parseURL env (tick w + 2) rssUrl = Inl err
        \<and> e_httpGet env (tick w + 3) rssUrl = Inr body \<and> e_parseString env body = Inr parsed
      \<longrightarrow> fst (fetchFeed env this rssUrl w) = Inr parsed
        \<and> snd (fst (scrapeFeeds env this source mode [rssUrl] w))
            = (1, 0, length (feedItems parsed)))
   \<and> (e_parseURL env (tick w + 2) rssUrl = Inr primary
      \<longrightarrow> fst (fetchFeed env this rssUrl w) = Inr primary
        \<and> newEvents w (snd (fetchFeed env this rssUrl w))
            = [ClockRead, ClockRead, ParseURL rssUrl]
        \<and> snd (fst (scrapeFeeds env this source mode [rssUrl] w))
            = (1, 0, length (feedItems primary)))"
proof (intro conjI impI)
  assume trigger: "(\<exists>e. e_parseURL env (tick w) rssUrl = Inl e)
      \<or> (\<exists>feed. e_parseURL env (tick w) rssUrl = Inr feed \<and> feedItems feed = [])"
  then show "\<exists>post. newEvents w (snd (readFeed env x rssUrl w))
      = ParseURL rssUrl # HttpGet rssUrl (pickUA x (emit (ParseURL rssUrl) w)) acceptHtml # post"
    by (rule readFeed_fallback)
  assume "e_httpGet env (tick w + 1) rssUrl = Inr body \<and> e_parseString env body = Inr parsed
      \<and> feedItems parsed \<noteq> []"
  with trigger show "fst (readFeed env x rssUrl w) = Some parsed"
    by (simp add: readFeed_fallback_items)
next
  assume "e_parseURL env (tick w + 2) rssUrl = Inl err
      \<and> e_httpGet env (tick w + 3) rssUrl = Inr body \<and> e_parseString env body = Inr parsed"
  then show fetched: "fst (fetchFeed env this rssUrl w) = Inr parsed"
    by (simp add: fetchFeed_fallback)
  then show "snd (fst (scrapeFeeds env this source mode [rssUrl] w))
      = (1, 0, length (feedItems parsed))"
    by (rule scrapeFeeds_single)
next
  assume primary: "e_parseURL env (tick w + 2) rssUrl = Inr primary"
  then show fetched: "fst (fetchFeed env this rssUrl w) = Inr primary"
    by (simp add: fetchFeed_primary)
  from primary show "newEvents w (snd (fetchFeed env this rssUrl w))
      = [ClockRead, ClockRead, ParseURL rssUrl]"
    by (rule fetchFeed_primary_events)
  from fetched show "snd (fst (scrapeFeeds env this source mode [rssUrl] w))
      = (1, 0, length (feedItems primary))"
    by (rule scrapeFeeds_single)
qed

lemma feedEnv_answers:
  "e_parseURL brokenFeedEnv n url = Inl ParseError"
  "e_parseURL emptyFeedEnv n url = Inr \<lparr> feed_items = Some [] \<rparr>"
  "e_httpGet brokenFeedEnv n url = Inr (u ''<rss><channel><item/></channel></rss>'')"
  "e_httpGet emptyFeedEnv n url = Inr (u ''<rss><channel><item/></channel></rss>'')"
  "e_parseString brokenFeedEnv body = Inr \<lparr> feed_items = Some [budgetItem] \<rparr>"
  "e_parseString emptyFeedEnv body = Inr \<lparr> feed_items = Some [budgetItem] \<rparr>"
  by (simp_all add: brokenFeedEnv_def emptyFeedEnv_def quietEnv_def)

theorem feed_fallback_witness:
  "fst (readFeed brokenFeedEnv plainScript feedUrl emptyWorld)
     = Some \<lparr> feed_items = Some [budgetItem] \<rparr>
   \<and> fst (readFeed emptyFeedEnv plainScript feedUrl emptyWorld)
     = Some \<lparr> feed_items = Some [budgetItem] \<rparr>
   \<and> fst (fetchFeed brokenFeedEnv theService feedUrl emptyWorld)
     = Inr \<lparr> feed_items = Some [budgetItem] \<rparr>
   \<and> snd (fst (scrapeFeeds brokenFeedEnv theService dailySource fastOption [feedUrl] emptyWorld))
     = (1, 0, 1)
   \<and> fst (fetchFeed emptyFeedEnv theService feedUrl emptyWorld) = Inr \<lparr> feed_items = Some [] \<rparr>"
  using feed_fallback [of brokenFeedEnv emptyWorld feedUrl plainScript
      "u ''<rss><channel><item/></channel></rss>''" "\<lparr> feed_items = Some [budgetItem] \<rparr>"
      ParseError theService dailySource fastOption "\<lparr> feed_items = Some [] \<rparr>"]
    feed_fallback [of emptyFeedEnv emptyWorld feedUrl plainScript
      "u ''<rss><channel><item/></channel></rss>''" "\<lparr> feed_items = Some [budgetItem] \<rparr>"
      ParseError theService dailySource fastOption "\<lparr> feed_items = Some [] \<rparr>"]
  by (simp add: feedEnv_answers feedItems_def)

text \<open>
  The structured parse gives a feed without items; the document behind the URL has one.
  The service takes the empty feed: it sends no request and counts no item.
\<close>

theorem empty_feed_no_fallback_counterexample:
  "e_parseURL emptyFeedEnv (tick emptyWorld + 2) feedUrl = Inr \<lparr> feed_items = Some [] \<rparr>
   \<and> e_parseString emptyFeedEnv (u ''<rss><channel><item/></channel></rss>'')
       = Inr \<lparr> feed_items = Some [budgetItem] \<rparr>
   \<and> fst (fetchFeed emptyFeedEnv theService feedUrl emptyWorld) = Inr \<lparr> feed_items = Some [] \<rparr>
   \<and> newEvents emptyWorld (snd (fetchFeed emptyFeedEnv theService feedUrl emptyWorld))
       = [ClockRead, ClockRead, ParseURL feedUrl]
   \<and> snd (fst (scrapeFeeds emptyFeedEnv theService dailySource fastOption [feedUrl] emptyWorld))
       = (1, 0, 0)"
proof -
  have primary: "e_parseURL emptyFeedEnv (tick emptyWorld + 2) feedUrl
      = Inr \<lparr> feed_items = Some [] \<rparr>"
    by (simp add: feedEnv_answers)
  have fetched: "fst (fetchFeed emptyFeedEnv theService feedUrl emptyWorld)
      = Inr \<lparr> feed_items = Some [] \<rparr>"
    by (simp add: fetchFeed_primary [OF primary])
  show ?thesis
    using scrapeFeeds_single [OF fetched, of dailySource fastOption]
    by (simp add: feedEnv_answers fetched fetchFeed_primary_events [OF primary] feedItems_def)
qed

section \<open>Slugs: claim C4\<close>

lemma find_slug_None:
  "find (\<lambda>a. art_slug a = slug) articles = None \<longleftrightarrow> slug \<notin> art_slug ` set articles"
  by (auto simp: find_None_iff)

lemma findOneBySlug_cases:
  "findOneBySlug env slug w = (r, w') \<Longrightarrow>
     w' = emit (FindOneBySlug slug) w
     \<and> (r = Inr None \<longrightarrow> slug \<notin> art_slug ` set (w_articles w))
     \<and> (\<forall>a. r = Inr (Some a) \<longrightarrow> slug \<in> art_slug ` set (w_articles w))"
  by (auto simp: findOneBySlug_def find_slug_None [symmetric] dest: find_SomeD split: if_splits)

lemma articles_emit: "w_articles (emit ev w) = w_articles w"
  by (simp add: emit_def)

lemma articles_dateNow: "w_articles (snd (dateNow env w)) = w_articles w"
  by (simp add: dateNow_def emit_def)

text \<open>
  What the loop returns is a candidate with a counter not below the one it started from,
  and no article of the store has it as its slug. The store is not touched.
\<close>

lemma slugLoop_result:
  "slugLoop env baseSlug slugSuffix w = (r, w') \<Longrightarrow>
     w_articles w' = w_articles w
     \<and> (\<forall>slug. r = Inr slug \<longrightarrow> slug \<notin> art_slug ` set (w_articles w)
           \<and> (\<exists>now k. slugSuffix \<le> k \<and> slug = slugCandidate baseSlug now k))"
proof (induction env baseSlug slugSuffix w arbitrary: r w' rule: slugLoop.induct)
  case (1 env baseSlug slugSuffix w)
  let ?now = "fst (dateNow env w)"
  let ?w1 = "snd (dateNow env w)"
  let ?slug = "slugCandidate baseSlug ?now slugSuffix"
  obtain r2 w2 where l: "findOneBySlug env ?slug ?w1 = (r2, w2)"
    by (cases "findOneBySlug env ?slug ?w1")
  from findOneBySlug_cases [OF l]
  have w2: "w_articles w2 = w_articles w"
    and none: "r2 = Inr None \<longrightarrow> ?slug \<notin> art_slug ` set (w_articles w)"
    by (simp_all add: articles_emit articles_dateNow)
  show ?case
  proof (cases r2)
    case (Inl e)
    with 1(2) l w2 show ?thesis by (auto simp: slugLoop.simps [of env baseSlug slugSuffix w])
  next
    case (Inr found)
    show ?thesis
    proof (cases found)
      case None
      with Inr 1(2) l have "r = Inr ?slug" "w' = w2"
        by (simp_all add: slugLoop.simps [of env baseSlug slugSuffix w])
      with w2 none Inr None show ?thesis by auto
    next
      case (Some slugCollision)
      with Inr 1(2) l have next_round: "slugLoop env baseSlug (slugSuffix + 1) w2 = (r, w')"
        by (simp add: slugLoop.simps [of env baseSlug slugSuffix w])
      have step: "\<exists>now j. slugSuffix \<le> j \<and> slug = slugCandidate baseSlug now j"
        if "\<exists>now k. slugSuffix + 1 \<le> k \<and> slug = slugCandidate baseSlug now k" for slug
      proof -
        from that obtain now k where "slugSuffix + 1 \<le> k" "slug = slugCandidate baseSlug now k"
          by blast
        then have "slugSuffix \<le> k \<and> slug = slugCandidate baseSlug now k" by simp
        then show ?thesis by blast
      qed
      from "1.IH" [OF l [symmetric] Inr Some next_round] w2 step
      show ?thesis by simp
    qed
  qed
qed

text \<open>With a database that answers, the loop returns a slug.\<close>

lemma slugLoop_returns:
  "\<forall>n. \<not> e_dbFault env n \<Longrightarrow> \<exists>slug. fst (slugLoop env baseSlug slugSuffix w) = Inr slug"
proof (induction env baseSlug slugSuffix w rule: slugLoop.induct)
  case (1 env baseSlug slugSuffix w)
  let ?now = "fst (dateNow env w)"
  let ?w1 = "snd (dateNow env w)"
  let ?slug = "slugCandidate baseSlug ?now slugSuffix"
  let ?w2 = "emit (FindOneBySlug ?slug) ?w1"
  from "1.prems" have l: "findOneBySlug env ?slug ?w1
      = (Inr (find (\<lambda>a. art_slug a = ?slug) (w_articles ?w1)), ?w2)"
    by (simp add: findOneBySlug_def)
  show ?case
  proof (cases "find (\<lambda>a. art_slug a = ?slug) (w_articles ?w1)")
    case None
    with l show ?thesis
      by (simp add: slugLoop.simps [of env baseSlug slugSuffix w])
  next
    case (Some slugCollision)
    with l have "slugLoop env baseSlug slugSuffix w = slugLoop env baseSlug (slugSuffix + 1) ?w2"
      by (simp add: slugLoop.simps [of env baseSlug slugSuffix w])
    moreover from l Some
    have "\<exists>slug. fst (slugLoop env baseSlug (slugSuffix + 1) ?w2) = Inr slug"
      by (intro "1.IH" [OF _ _ _ "1.prems"]) simp_all
    ultimately show ?thesis by simp
  qed
qed

lemma resolveSlug_result:
  assumes "resolveSlug env baseSlug w = (Inr slug, w')"
  shows "w_articles w' = w_articles w \<and> slug \<notin> art_slug ` set (w_articles w)
    \<and> (if baseSlug \<in> art_slug ` set (w_articles w)
       then \<exists>now k. 1 \<le> k \<and> slug = slugCandidate baseSlug now k
       else slug = baseSlug)"
proof -
  let ?w1 = "emit (FindOneBySlug baseSlug) w"
  obtain r1 where l: "findOneBySlug env baseSlug w = (r1, ?w1)"
    by (simp add: findOneBySlug_def)
  note c = findOneBySlug_cases [OF l]
  from assms l obtain found where r1: "r1 = Inr found"
    by (cases r1) (auto simp: resolveSlug_def andThen_def)
  show ?thesis
  proof (cases found)
    case None
    with assms l r1 have "slug = baseSlug" "w' = ?w1"
      by (auto simp: resolveSlug_def andThen_def ret_def)
    with c r1 None show ?thesis by (simp add: articles_emit)
  next
    case (Some a)
    with assms l r1 have "slugLoop env baseSlug 1 ?w1 = (Inr slug, w')"
      by (simp add: resolveSlug_def andThen_def)
    from slugLoop_result [OF this] c r1 Some show ?thesis
      by (auto simp: articles_emit)
  qed
qed

lemma resolveSlug_store: "w_articles (snd (resolveSlug env baseSlug w)) = w_articles w"
proof -
  let ?w1 = "emit (FindOneBySlug baseSlug) w"
  obtain r1 where l: "findOneBySlug env baseSlug w = (r1, ?w1)"
    by (simp add: findOneBySlug_def)
  obtain r2 w2 where s: "slugLoop env baseSlug 1 ?w1 = (r2, w2)"
    by (cases "slugLoop env baseSlug 1 ?w1")
  from slugLoop_result [OF s] have "w_articles w2 = w_articles w" by (simp add: articles_emit)
  with l s show ?thesis
    by (auto simp: resolveSlug_def andThen_def ret_def articles_emit split: sum.splits option.splits)
qed

lemma resolveSlug_returns:
  assumes "\<forall>n. \<not> e_dbFault env n"
  shows "\<exists>slug. fst (resolveSlug env baseSlug w) = Inr slug"
  using assms slugLoop_returns [OF assms, of baseSlug 1 "emit (FindOneBySlug baseSlug) w"]
  by (auto simp: resolveSlug_def andThen_def findOneBySlug_def ret_def split: option.splits)

section \<open>Scraping leaves the store alone\<close>

lemma readsOnly_pure: "readsOnly (\<lambda>w. (r, w))"
  by (simp add: readsOnly_def extends_refl)

lemma readsOnly_fetchFeed: "readsOnly (fetchFeed env this rssUrl)"
  unfolding fetchFeed_def
  by (intro readsOnly_retryRequest readsOnly_tryCatch readsOnly_parseURL readsOnly_withInstance
      readsOnly_andThen readsOnly_axiosGet readsOnly_pure)

lemma readsOnly_apiRequest: "readsOnly (apiRequest env this apiUrl)"
proof -
  have "readsOnly (\<lambda>w. let (axiosInstance, w1) = createAxiosInstance this False w
      in (\<lambda>w1. (e_apiGet env (tick w1) apiUrl,
                  emit (HttpGet apiUrl (fst axiosInstance) acceptHtml) w1)) w1)"
    by (rule readsOnly_withInstance) (simp add: readsOnly_def extends_emit)
  then show ?thesis
    unfolding apiRequest_def by (intro readsOnly_retryRequest) simp
qed

lemma scrapeWithTimeout_world:
  "snd (scrapeWithTimeout env this item source mode w)
     = snd (scrapeArticle env this item source mode w)"
  by (simp add: scrapeWithTimeout_def split: prod.splits sum.splits)

lemma extends_scrapeWithTimeout: "extends w (snd (scrapeWithTimeout env this item source mode w))"
  using readsOnlyD [OF readsOnly_scrapeArticle] by (simp add: scrapeWithTimeout_world)

lemma extends_scrapeItems: "extends w (snd (scrapeItems env this source mode items w))"
proof (induction items arbitrary: w)
  case Nil
  show ?case by (simp add: extends_refl)
next
  case (Cons item items)
  let ?w1 = "snd (scrapeWithTimeout env this item source mode w)"
  have "extends w ?w1" by (rule extends_scrapeWithTimeout)
  moreover have "extends ?w1 (snd (scrapeItems env this source mode items ?w1))" by (rule Cons.IH)
  ultimately show ?case by (simp add: split_beta Let_def) (rule extends_trans)
qed

lemma extends_scrapeFeeds: "extends w (snd (scrapeFeeds env this source mode rssUrls w))"
proof (induction rssUrls arbitrary: w)
  case Nil
  show ?case by (simp add: extends_refl)
next
  case (Cons rssUrl rssUrls)
  obtain r w1 where f: "fetchFeed env this rssUrl w = (r, w1)"
    by (cases "fetchFeed env this rssUrl w")
  have 1: "extends w w1" using readsOnlyD [OF readsOnly_fetchFeed, of w env this rssUrl] f by simp
  show ?case
  proof (cases r)
    case (Inl e)
    have "extends w1 (snd (scrapeFeeds env this source mode rssUrls w1))" by (rule Cons.IH)
    with 1 have "extends w (snd (scrapeFeeds env this source mode rssUrls w1))"
      by (rule extends_trans)
    with f Inl show ?thesis by (simp add: split_beta)
  next
    case (Inr feed)
    let ?w2 = "snd (scrapeItems env this source mode (feedItems feed) w1)"
    have "extends w1 ?w2" by (rule extends_scrapeItems)
    with 1 have "extends w ?w2" by (rule extends_trans)
    moreover have "extends ?w2 (snd (scrapeFeeds env this source mode rssUrls ?w2))"
      by (rule Cons.IH)
    ultimately have "extends w (snd (scrapeFeeds env this source mode rssUrls ?w2))"
      by (rule extends_trans)
    with f Inr show ?thesis by (simp add: split_beta Let_def)
  qed
qed

lemma extends_scrapeApi: "extends w (snd (scrapeApi env this source mode w))"
proof (cases "s_apiUrl source")
  case None
  then show ?thesis by (simp add: scrapeApi_def extends_refl)
next
  case (Some apiUrl)
  obtain r w1 where a: "apiRequest env this apiUrl w = (r, w1)"
    by (cases "apiRequest env this apiUrl w")
  have 1: "extends w w1" using readsOnlyD [OF readsOnly_apiRequest, of w env this apiUrl] a by simp
  have "extends w1 (snd (scrapeItems env this source mode items w1))" for items
    by (rule extends_scrapeItems)
  with 1 have "extends w (snd (scrapeItems env this source mode items w1))" for items
    by (rule extends_trans)
  with Some a 1 show ?thesis
    by (cases r) (simp_all add: scrapeApi_def extends_refl)
qed

lemma extends_scrapeSource: "extends w (snd (scrapeSource env this source mode w))"
proof -
  let ?w1 = "snd (scrapeFeeds env this source mode (sourceRssUrls source) w)"
  have "extends w ?w1" by (rule extends_scrapeFeeds)
  moreover have "extends ?w1 (snd (scrapeApi env this source mode ?w1))" by (rule extends_scrapeApi)
  ultimately have "extends w (snd (scrapeApi env this source mode ?w1))" by (rule extends_trans)
  then show ?thesis by (simp add: scrapeSource_def split_beta Let_def)
qed

lemma extends_scrapeBatch: "extends w (snd (scrapeBatch env this mode batch w))"
proof (induction batch arbitrary: w)
  case Nil
  show ?case by (simp add: extends_refl)
next
  case (Cons source batch)
  let ?w1 = "snd (scrapeSource env this source mode w)"
  have "extends w ?w1" by (rule extends_scrapeSource)
  moreover have "extends ?w1 (snd (scrapeBatch env this mode batch ?w1))" by (rule Cons.IH)
  ultimately show ?case by (simp add: split_beta Let_def) (rule extends_trans)
qed

lemma articles_scrapeBatch:
  "w_articles (snd (scrapeBatch env this mode batch w)) = w_articles w"
  using extends_scrapeBatch [of w env this mode batch] by (simp add: extends_def)

section \<open>The insertion loop\<close>

lemma Article_create_cases:
  "Article_create env doc w = (r, w') \<Longrightarrow>
     (\<exists>e. r = Inl e \<and> w_articles w' = w_articles w)
     \<or> (r = Inr doc \<and> w_articles w' = w_articles w @ [doc])"
  by (auto simp: Article_create_def emit_def split: if_splits option.splits)

text \<open>
  One round of the loop either leaves the store as it is and reports no insertion, or
  appends one article: its canonical URL was not in the store, and neither was its slug,
  which is the slug of the title when that was free and a candidate with time and
  counter otherwise.
\<close>

lemma insertTry_cases:
  assumes "insertTry env source scraped w = (r, w')"
  shows "(r \<noteq> Inr True \<and> w_articles w' = w_articles w)
    \<or> (r = Inr True
        \<and> sc_sourceUrl scraped \<notin> art_canonicalUrl ` set (w_articles w)
        \<and> (\<exists>slug scrapedAt.
              w_articles w' = w_articles w @ [newArticle source scraped slug scrapedAt]
              \<and> slug \<notin> art_slug ` set (w_articles w)
              \<and> (if baseSlugOf env scraped \<in> art_slug ` set (w_articles w)
                 then \<exists>now k. 1 \<le> k \<and> slug = slugCandidate (baseSlugOf env scraped) now k
                 else slug = baseSlugOf env scraped)))"
proof (cases "sc_sourceUrl scraped = [] \<or> \<not> truthy (s_oid source)")
  case True
  with assms have "r = Inr False" "w' = w"
    by (cases "sc_sourceUrl scraped = []"; simp add: insertTry_def ret_def)+
  then show ?thesis by simp
next
  case False
  let ?w1 = "emit (FindOneByUrl (sc_sourceUrl scraped)) w"
  obtain r1 where u: "findOneByUrl env (sc_sourceUrl scraped) w = (r1, ?w1)"
    by (simp add: findOneByUrl_def)
  show ?thesis
  proof (cases "r1 = Inr None")
    case other: False
    with assms False u show ?thesis
      by (cases r1) (auto simp: insertTry_def andThen_def ret_def articles_emit)
  next
    case True
    with u have fresh: "sc_sourceUrl scraped \<notin> art_canonicalUrl ` set (w_articles w)"
      by (auto simp: findOneByUrl_def find_None_iff split: if_splits)
    obtain r2 w2 where s: "resolveSlug env (baseSlugOf env scraped) ?w1 = (r2, w2)"
      by (cases "resolveSlug env (baseSlugOf env scraped) ?w1")
    have w2: "w_articles w2 = w_articles w"
      using resolveSlug_store [of env "baseSlugOf env scraped" ?w1] s by (simp add: articles_emit)
    show ?thesis
    proof (cases r2)
      case (Inl e)
      with assms False u True s w2 show ?thesis
        by (auto simp: insertTry_def andThen_def baseSlugOf_def)
    next
      case (Inr slug)
      let ?at = "fst (dateNow env w2)"
      let ?w3 = "snd (dateNow env w2)"
      let ?doc = "newArticle source scraped slug ?at"
      obtain r4 w4 where c: "Article_create env ?doc ?w3 = (r4, w4)"
        by (cases "Article_create env ?doc ?w3")
      from assms False u True s Inr c
      have out: "(r, w') = (case r4 of Inl e \<Rightarrow> Inl e | Inr created \<Rightarrow> Inr True, w4)"
        by (cases r4)
          (simp_all add: insertTry_def andThen_def baseSlugOf_def split_beta ret_def)
      from s Inr have "resolveSlug env (baseSlugOf env scraped) ?w1 = (Inr slug, w2)" by simp
      from resolveSlug_result [OF this, unfolded articles_emit]
      have slug: "slug \<notin> art_slug ` set (w_articles w)
          \<and> (if baseSlugOf env scraped \<in> art_slug ` set (w_articles w)
             then \<exists>now k. 1 \<le> k \<and> slug = slugCandidate (baseSlugOf env scraped) now k
             else slug = baseSlugOf env scraped)"
        by blast
      from Article_create_cases [OF c] show ?thesis
      proof (elim disjE exE conjE)
        fix e assume "r4 = Inl e" "w_articles w4 = w_articles ?w3"
        with out w2 show ?thesis by (simp add: articles_dateNow)
      next
        assume "r4 = Inr ?doc" "w_articles w4 = w_articles ?w3 @ [?doc]"
        with out w2 have "r = Inr True" "w_articles w' = w_articles w @ [?doc]"
          by (simp_all add: articles_dateNow)
        with fresh slug show ?thesis by blast
      qed
    qed
  qed
qed

lemma newArticle_keys:
  "art_slug (newArticle source scraped slug scrapedAt) = slug"
  "art_canonicalUrl (newArticle source scraped slug scrapedAt) = sc_sourceUrl scraped"
  "art_hash (newArticle source scraped slug scrapedAt) = sc_hash scraped"
  by (simp_all add: newArticle_def Let_def)

lemma insertScraped_world:
  "snd (insertScraped env source scraped w) = snd (insertTry env source scraped w)"
  by (simp add: insertScraped_def split: prod.splits sum.splits)

lemma insertScraped_inserted:
  "fst (insertScraped env source scraped w) \<longleftrightarrow> fst (insertTry env source scraped w) = Inr True"
  by (auto simp: insertScraped_def split: prod.splits sum.splits)

text \<open>
  A property of the store that every round of the insertion loop keeps is kept by the
  whole run.
\<close>

lemma insertAll_invariant:
  assumes "\<And>source scraped w. P (w_articles w)
      \<Longrightarrow> P (w_articles (snd (insertTry env source scraped w)))"
    and "P (w_articles w)"
  shows "P (w_articles (snd (insertAll env source articles w)))"
  using assms(2)
proof (induction articles arbitrary: w)
  case Nil
  then show ?case by simp
next
  case (Cons scraped articles)
  from Cons.prems have "P (w_articles (snd (insertScraped env source scraped w)))"
    by (simp add: insertScraped_world assms(1))
  then have "P (w_articles (snd (insertAll env source articles
      (snd (insertScraped env source scraped w)))))"
    by (rule Cons.IH)
  then show ?case by (simp add: split_beta Let_def)
qed

lemma articles_updateLastScraped:
  "w_articles (snd (updateLastScraped env source w)) = w_articles w"
  by (simp add: updateLastScraped_def dateNow_def emit_def)

lemma recordSource_world:
  "w_articles (snd (recordSource env (source, articles, meta) st w))
     = w_articles (snd (insertAll env source articles w))"
  by (simp add: recordSource_def split_beta Let_def andThen_def updateLastScraped_def ret_def
      dateNow_def emit_def)

lemma recordBatch_invariant:
  assumes "\<And>source scraped w. P (w_articles w)
      \<Longrightarrow> P (w_articles (snd (insertTry env source scraped w)))"
    and "P (w_articles w)"
  shows "P (w_articles (snd (recordBatch env results st w)))"
  using assms(2)
proof (induction results arbitrary: st w)
  case Nil
  then show ?case by simp
next
  case (Cons result results)
  obtain source articles meta where result: "result = (source, articles, meta)"
    by (cases result)
  obtain r w1 where rec: "recordSource env result st w = (r, w1)"
    by (cases "recordSource env result st w")
  from assms(1) Cons.prems have "P (w_articles (snd (insertAll env source articles w)))"
    by (rule insertAll_invariant [where P = P])
  with rec result have 1: "P (w_articles w1)"
    using recordSource_world [of env source articles meta st w] by simp
  show ?case
  proof (cases r)
    case (Inl e)
    with rec 1 show ?thesis by simp
  next
    case (Inr st1)
    with rec Cons.IH [OF 1, of st1] show ?thesis by simp
  qed
qed

lemma runBatches_invariant:
  assumes "\<And>source scraped w. P (w_articles w)
      \<Longrightarrow> P (w_articles (snd (insertTry env source scraped w)))"
    and "P (w_articles w)"
  shows "P (w_articles (snd (runBatches env this mode todo st w)))"
  using assms(2)
proof (induction todo arbitrary: st w)
  case Nil
  then show ?case by simp
next
  case (Cons batch todo)
  obtain results w1 where b: "scrapeBatch env this mode batch w = (results, w1)"
    by (cases "scrapeBatch env this mode batch w")
  with Cons.prems have "P (w_articles w1)"
    using articles_scrapeBatch [of env this mode batch w] by simp
  with assms(1) have 1: "P (w_articles (snd (recordBatch env results st w1)))"
    by (rule recordBatch_invariant [where P = P])
  obtain r w2 where rec: "recordBatch env results st w1 = (r, w2)"
    by (cases "recordBatch env results st w1")
  show ?case
  proof (cases r)
    case (Inl e)
    with b rec 1 show ?thesis by simp
  next
    case (Inr st1)
    from rec 1 have "P (w_articles w2)" by simp
    from Cons.IH [OF this, of st1] b rec Inr show ?thesis by simp
  qed
qed

lemma scrapeAllSources_world:
  "snd (scrapeAllSources env this mode w)
     = (case e_activeSources env (tick w) of
          Inl e \<Rightarrow> emit FindSources w
        | Inr sources \<Rightarrow>
            snd (runBatches env this mode (batches SOURCE_BATCH_SIZE sources)
                   \<lparr> rs_allArticles = [], rs_successCount = 0, rs_failCount = 0,
                     rs_perSource = [] \<rparr> (emit FindSources w)))"
  by (simp add: scrapeAllSources_def andThen_def findActiveSources_def ret_def
      split: sum.splits prod.splits)

lemma scrapeAllSources_invariant:
  assumes "\<And>source scraped w. P (w_articles w)
      \<Longrightarrow> P (w_articles (snd (insertTry env source scraped w)))"
    and "P (w_articles w)"
  shows "P (w_articles (snd (scrapeAllSources env this mode w)))"
proof (cases "e_activeSources env (tick w)")
  case (Inl e)
  with assms(2) show ?thesis by (simp add: scrapeAllSources_world articles_emit)
next
  case (Inr sources)
  from assms(2) have "P (w_articles (emit FindSources w))" by (simp add: articles_emit)
  with assms(1) have "P (w_articles (snd (runBatches env this mode
      (batches SOURCE_BATCH_SIZE sources)
      \<lparr> rs_allArticles = [], rs_successCount = 0, rs_failCount = 0, rs_perSource = [] \<rparr>
      (emit FindSources w))))"
    by (rule runBatches_invariant [where P = P])
  with Inr show ?thesis
    by (simp add: scrapeAllSources_world)
qed

lemma insertTry_distinct:
  assumes "distinct (map art_slug (w_articles w))"
  shows "distinct (map art_slug (w_articles (snd (insertTry env source scraped w))))"
proof -
  obtain r w' where t: "insertTry env source scraped w = (r, w')"
    by (cases "insertTry env source scraped w")
  from insertTry_cases [OF t] assms have "distinct (map art_slug (w_articles w'))"
    by (auto simp: newArticle_keys)
  with t show ?thesis by simp
qed

text \<open>With a database that answers and a schema that accepts, a new URL is inserted.\<close>

lemma insertTry_inserts:
  assumes "\<forall>n. \<not> e_dbFault env n" and "\<forall>articles doc. e_rejects env articles doc = None"
    and "sc_sourceUrl scraped \<noteq> []" and "truthy (s_oid source)"
    and "sc_sourceUrl scraped \<notin> art_canonicalUrl ` set (w_articles w)"
  shows "fst (insertTry env source scraped w) = Inr True"
proof -
  let ?w1 = "emit (FindOneByUrl (sc_sourceUrl scraped)) w"
  from assms(5) have "find (\<lambda>a. art_canonicalUrl a = sc_sourceUrl scraped) (w_articles w) = None"
    by (force simp: find_None_iff)
  with assms(1) have u: "findOneByUrl env (sc_sourceUrl scraped) w = (Inr None, ?w1)"
    by (simp add: findOneByUrl_def)
  obtain slug where "fst (resolveSlug env (baseSlugOf env scraped) ?w1) = Inr slug"
    using resolveSlug_returns [OF assms(1)] by blast
  then obtain w2 where s: "resolveSlug env (baseSlugOf env scraped) ?w1 = (Inr slug, w2)"
    by (cases "resolveSlug env (baseSlugOf env scraped) ?w1") simp
  from assms(1,2) have "fst (Article_create env doc w3) = Inr doc" for doc w3
    by (simp add: Article_create_def)
  with assms(3,4) u s show ?thesis
    by (simp add: insertTry_def andThen_def split_beta ret_def split: prod.splits sum.splits)
qed

lemma insertAll_two:
  assumes "fst (insertAll env source [first, second] w) = 2"
  shows "\<exists>x y. w_articles (snd (insertAll env source [first, second] w)) = w_articles w @ [x, y]
      \<and> art_slug x \<noteq> art_slug y"
proof -
  obtain r1 w1 where 1: "insertTry env source first w = (r1, w1)"
    by (cases "insertTry env source first w")
  obtain r2 w2 where 2: "insertTry env source second w1 = (r2, w2)"
    by (cases "insertTry env source second w1")
  have count: "fst (insertAll env source [first, second] w)
      = (if r1 = Inr True then 1 else 0) + (if r2 = Inr True then 1 else 0)"
    using 1 2 by (simp add: split_beta Let_def insertScraped_world insertScraped_inserted)
  have world: "snd (insertAll env source [first, second] w) = w2"
    using 1 2 by (simp add: split_beta Let_def insertScraped_world)
  from assms count have both: "r1 = Inr True" "r2 = Inr True"
    by (auto split: if_splits)
  from insertTry_cases [OF 1] both(1) obtain slug1 at1 where
    x: "w_articles w1 = w_articles w @ [newArticle source first slug1 at1]"
    by auto
  from insertTry_cases [OF 2] both(2) obtain slug2 at2 where
    y: "w_articles w2 = w_articles w1 @ [newArticle source second slug2 at2]"
      "slug2 \<notin> art_slug ` set (w_articles w1)"
    by auto
  from x y have "slug2 \<noteq> slug1" by (auto simp: newArticle_keys)
  with x y world show ?thesis by (simp add: newArticle_keys)
qed

text \<open>
  C4. An inserted article gets a slug that no article of the store has: the slug of its
  title when that is free, and otherwise that slug followed by the time and a counter,
  tried with the next counter as long as the candidate is taken. Two articles inserted
  one after the other have different slugs, whatever their titles; a run of
  \<open>scrapeAllSources\<close> on a store without repeated slugs leaves a store without repeated
  slugs; and with a database that answers, the search for a slug ends with a slug.
\<close>

theorem slugs_stay_unique:
  "(fst (insertTry env source scraped w) = Inr True
      \<longrightarrow> (\<exists>slug scrapedAt.
            w_articles (snd (insertTry env source scraped w))
              = w_articles w @ [newArticle source scraped slug scrapedAt]
            \<and> slug \<notin> art_slug ` set (w_articles w)
            \<and> (if baseSlugOf env scraped \<in> art_slug ` set (w_articles w)
               then \<exists>now k. 1 \<le> k \<and> slug = slugCandidate (baseSlugOf env scraped) now k
               else slug = baseSlugOf env scraped)))
   \<and> (fst (insertAll env source [first, second] w) = 2
      \<longrightarrow> (\<exists>x y. w_articles (snd (insertAll env source [first, second] w))
                  = w_articles w @ [x, y]
               \<and> art_slug x \<noteq> art_slug y))
   \<and> (distinct (map art_slug (w_articles w))
      \<longrightarrow> distinct (map art_slug (w_articles (snd (scrapeAllSources env this mode w)))))
   \<and> ((\<forall>n. \<not> e_dbFault env n) \<longrightarrow> (\<exists>slug. fst (resolveSlug env baseSlug w) = Inr slug))"
proof (intro conjI impI)
  assume ok: "fst (insertTry env source scraped w) = Inr True"
  obtain r w' where t: "insertTry env source scraped w = (r, w')"
    by (cases "insertTry env source scraped w")
  from insertTry_cases [OF t] ok t
  show "\<exists>slug scrapedAt.
      w_articles (snd (insertTry env source scraped w))
        = w_articles w @ [newArticle source scraped slug scrapedAt]
      \<and> slug \<notin> art_slug ` set (w_articles w)
      \<and> (if baseSlugOf env scraped \<in> art_slug ` set (w_articles w)
         then \<exists>now k. 1 \<le> k \<and> slug = slugCandidate (baseSlugOf env scraped) now k
         else slug = baseSlugOf env scraped)"
    by auto
next
  assume "fst (insertAll env source [first, second] w) = 2"
  then show "\<exists>x y. w_articles (snd (insertAll env source [first, second] w))
      = w_articles w @ [x, y] \<and> art_slug x \<noteq> art_slug y"
    by (rule insertAll_two)
next
  assume "distinct (map art_slug (w_articles w))"
  with insertTry_distinct
  show "distinct (map art_slug (w_articles (snd (scrapeAllSources env this mode w))))"
    by (rule scrapeAllSources_invariant [where P = "\<lambda>articles. distinct (map art_slug articles)"])
next
  assume "\<forall>n. \<not> e_dbFault env n"
  then show "\<exists>slug. fst (resolveSlug env baseSlug w) = Inr slug"
    by (rule resolveSlug_returns)
qed

lemma quietEnv_accepts:
  "\<forall>n. \<not> e_dbFault quietEnv n" "\<forall>articles doc. e_rejects quietEnv articles doc = None"
  by (simp_all add: quietEnv_def)

lemma scraped_base:
  "baseSlugOf quietEnv budgetScraped = u ''Budget vote today''"
  "baseSlugOf quietEnv movedScraped = u ''Budget vote today''"
  "sc_sourceUrl budgetScraped = u ''https://example.org/a''"
  "sc_sourceUrl movedScraped = u ''https://example.org/b''"
  by (simp_all add: baseSlugOf_def quietEnv_def budgetScraped_def movedScraped_def u_nonempty)

lemma example_urls_differ: "u ''https://example.org/b'' \<noteq> u ''https://example.org/a''"
  by (simp add: u_def)

text \<open>Two articles with one title go into the empty store, and both are inserted.\<close>

lemma both_inserted:
  "fst (insertAll quietEnv dailySource [budgetScraped, movedScraped] emptyWorld) = 2"
proof -
  have oid: "truthy (s_oid dailySource)" by (simp add: dailySource_def truthy_def u_nonempty)
  obtain r1 w1 where 1: "insertTry quietEnv dailySource budgetScraped emptyWorld = (r1, w1)"
    by (cases "insertTry quietEnv dailySource budgetScraped emptyWorld")
  have "fst (insertTry quietEnv dailySource budgetScraped emptyWorld) = Inr True"
    by (rule insertTry_inserts [OF quietEnv_accepts _ oid])
      (simp_all add: scraped_base u_nonempty emptyWorld_clear)
  with 1 have r1: "r1 = Inr True" by simp
  with insertTry_cases [OF 1] obtain slug scrapedAt where
    "w_articles w1 = [newArticle dailySource budgetScraped slug scrapedAt]"
    by (auto simp: emptyWorld_clear)
  then have "sc_sourceUrl movedScraped \<notin> art_canonicalUrl ` set (w_articles w1)"
    by (simp add: newArticle_keys scraped_base example_urls_differ)
  then have "fst (insertTry quietEnv dailySource movedScraped w1) = Inr True"
    by (intro insertTry_inserts [OF quietEnv_accepts _ oid]) (simp_all add: scraped_base u_nonempty)
  with 1 r1 show ?thesis
    by (simp add: split_beta Let_def insertScraped_world insertScraped_inserted)
qed

theorem slugs_stay_unique_witness:
  "baseSlugOf quietEnv budgetScraped = baseSlugOf quietEnv movedScraped
   \<and> (\<exists>x y. w_articles (snd (insertAll quietEnv dailySource [budgetScraped, movedScraped]
                 emptyWorld)) = [x, y]
          \<and> art_slug x \<noteq> art_slug y)
   \<and> distinct (map art_slug (w_articles (snd (scrapeAllSources quietEnv theService fastOption
        emptyWorld))))
   \<and> (\<exists>slug. fst (resolveSlug quietEnv (u ''Budget vote today'') storedWorld) = Inr slug)"
  using slugs_stay_unique [of quietEnv dailySource budgetScraped emptyWorld budgetScraped
      movedScraped theService fastOption "u ''Budget vote today''"]
    slugs_stay_unique [of quietEnv dailySource budgetScraped storedWorld budgetScraped
      movedScraped theService fastOption "u ''Budget vote today''"]
  by (simp add: both_inserted quietEnv_accepts scraped_base emptyWorld_clear
      del: insertAll.simps)

section \<open>A second run: claim C1\<close>


































end
